theory Spec2Isabelle
  imports Complex_Main "HOL-Library.Monad_Syntax"
begin

section \<open>Values, envelopes and the runtime\<close>

text \<open>
  The handlers build Python dictionaries, lists, strings and numbers and hand them to
  \<^verbatim>\<open>json.dumps\<close>. A value of type \<open>json\<close> is such a Python value: a dictionary
  literal is an association list in the order the source writes its keys. Python's
  unbounded integers are \<open>int\<close>. A Python float is the real number it denotes; every
  floating-point operation rounds its exact result with the rounding of the runtime (see
  \<open>float_arith\<close> below). The text that \<^verbatim>\<open>json.dumps\<close> produces is not modelled:
  \<open>body\<close> holds the value that is serialised.
\<close>

datatype json =
  JNull
  | JBool bool
  | JInt int
  | JFloat real
  | JStr string
  | JList "json list"
  | JObj "(string \<times> json) list"

record response =
  statusCode :: int
  body :: json

text \<open>A Python number: an \<^verbatim>\<open>int\<close> or a \<^verbatim>\<open>float\<close>.\<close>

datatype pynum = PInt int | PFloat real

text \<open>
  The floating-point arithmetic of the runtime: a rounding function and the power
  function of the C library. The rounding is monotone and its relative error is at most
  \<open>2^-53\<close>; the power function has a relative error of at most \<open>2^-52\<close> (less
  than one unit in the last place). IEEE 754 binary64 with rounding to nearest satisfies
  both wherever no overflow or underflow occurs, and the handlers' values are far from
  either: \<open>ieee_arith\<close> below is that arithmetic. Exact arithmetic satisfies them
  too.
\<close>

typedef float_arith =
  "{rp :: (real \<Rightarrow> real) \<times> (real \<Rightarrow> nat \<Rightarrow> real).
      mono (fst rp) \<and>
      (\<forall>x. \<bar>fst rp x - x\<bar> \<le> \<bar>x\<bar> / 2 ^ 53) \<and>
      (\<forall>x n. \<bar>snd rp x n - x ^ n\<bar> \<le> \<bar>x ^ n\<bar> / 2 ^ 52)}"
  by (rule exI [of _ "(\<lambda>x. x, \<lambda>x n. x ^ n)"]) (simp add: mono_def)

setup_lifting type_definition_float_arith

lift_definition exact_arith :: float_arith is "(\<lambda>x. x, \<lambda>x n. x ^ n)"
  by (simp add: mono_def)

text \<open>
  What the Python runtime supplies and the repository does not contain: the global
  generator of module \<^verbatim>\<open>random\<close> (the raw outcomes it will produce, one per call,
  and how many have been consumed), the clock behind \<^verbatim>\<open>datetime.now()\<close> (its
  successive readings, in microseconds), the two formatting methods of
  \<^verbatim>\<open>datetime\<close> that the handlers call, the floating-point arithmetic, and the way
  the built-in \<^verbatim>\<open>sum\<close> adds up a sequence that holds a float (one addition after
  the other before Python 3.12, compensated summation since). All are parameters: a
  statement that holds for every \<open>world\<close> holds for every outcome of the sampling, every
  clock and every such arithmetic.
\<close>

record world =
  rand_src :: "nat \<Rightarrow> nat"
  rand_pos :: nat
  clock_src :: "nat \<Rightarrow> int"
  clock_pos :: nat
  isoformat :: "int \<Rightarrow> string"
  strftime_Ym :: "int \<Rightarrow> string"
  arith :: float_arith
  sum_floats :: "pynum list \<Rightarrow> real"

subsection \<open>Floating-point operations\<close>

definition rnd :: "world \<Rightarrow> real \<Rightarrow> real" where
  "rnd w = fst (Rep_float_arith (arith w))"

text \<open>\<^verbatim>\<open>x ** n\<close> for a float \<open>x\<close> and an integer \<open>n \<ge> 0\<close>: the C library's \<^verbatim>\<open>pow\<close>.\<close>

definition fpow :: "world \<Rightarrow> real \<Rightarrow> nat \<Rightarrow> real" where
  "fpow w = snd (Rep_float_arith (arith w))"

text \<open>A float literal of the source: the float nearest to the decimal written.\<close>

definition lit :: "world \<Rightarrow> real \<Rightarrow> real" where
  "lit w d = rnd w d"

text \<open>
  The conversion of an \<^verbatim>\<open>int\<close> operand to \<^verbatim>\<open>float\<close>, exact up to \<open>2^53\<close>
  in magnitude.
\<close>

definition float_of_int :: "world \<Rightarrow> int \<Rightarrow> real" where
  "float_of_int w i = (if \<bar>i\<bar> \<le> 2 ^ 53 then of_int i else rnd w (of_int i))"

definition fadd :: "world \<Rightarrow> real \<Rightarrow> real \<Rightarrow> real" where
  "fadd w x y = rnd w (x + y)"

definition fsub :: "world \<Rightarrow> real \<Rightarrow> real \<Rightarrow> real" where
  "fsub w x y = rnd w (x - y)"

definition fmul :: "world \<Rightarrow> real \<Rightarrow> real \<Rightarrow> real" where
  "fmul w x y = rnd w (x * y)"

definition fdiv :: "world \<Rightarrow> real \<Rightarrow> real \<Rightarrow> real" where
  "fdiv w x y = rnd w (x / y)"

text \<open>
  Python's \<^verbatim>\<open>+\<close>, \<^verbatim>\<open>-\<close>, \<^verbatim>\<open>*\<close> and \<^verbatim>\<open>/\<close> on numbers: exact on two
  integers (the quotient of two integers is the correctly rounded float), in floating
  point as soon as one operand is a float. \<open>None\<close> is \<^verbatim>\<open>ZeroDivisionError\<close>.
\<close>

fun as_float :: "world \<Rightarrow> pynum \<Rightarrow> real" where
  "as_float w (PInt i) = float_of_int w i"
| "as_float w (PFloat x) = x"

fun num_add :: "world \<Rightarrow> pynum \<Rightarrow> pynum \<Rightarrow> pynum" where
  "num_add w (PInt a) (PInt b) = PInt (a + b)"
| "num_add w a b = PFloat (fadd w (as_float w a) (as_float w b))"

fun num_sub :: "world \<Rightarrow> pynum \<Rightarrow> pynum \<Rightarrow> pynum" where
  "num_sub w (PInt a) (PInt b) = PInt (a - b)"
| "num_sub w a b = PFloat (fsub w (as_float w a) (as_float w b))"

fun num_mul :: "world \<Rightarrow> pynum \<Rightarrow> pynum \<Rightarrow> pynum" where
  "num_mul w (PInt a) (PInt b) = PInt (a * b)"
| "num_mul w a b = PFloat (fmul w (as_float w a) (as_float w b))"

fun num_truediv :: "world \<Rightarrow> pynum \<Rightarrow> pynum \<Rightarrow> pynum option" where
  "num_truediv w (PInt a) (PInt b) =
     (if b = 0 then None else Some (PFloat (rnd w (of_int a / of_int b))))"
| "num_truediv w a b =
     (if as_float w b = 0 then None
      else Some (PFloat (fdiv w (as_float w a) (as_float w b))))"

subsection \<open>Module random and the clock\<close>

definition raw_draw :: "world \<Rightarrow> nat \<times> world" where
  "raw_draw w = (rand_src w (rand_pos w), w\<lparr>rand_pos := Suc (rand_pos w)\<rparr>)"

text \<open>\<^verbatim>\<open>random.random()\<close>: a multiple of \<open>2^-53\<close> in \<open>[0, 1)\<close>.\<close>

definition py_random :: "world \<Rightarrow> real \<times> world" where
  "py_random w = (let (k, w') = raw_draw w in (real (k mod 2 ^ 53) / 2 ^ 53, w'))"

text \<open>
  \<^verbatim>\<open>random.uniform(a, b)\<close> is \<^verbatim>\<open>a + (b - a) * random()\<close>, on the numbers the
  call site passes: integers or floats.
\<close>

definition uniform :: "pynum \<Rightarrow> pynum \<Rightarrow> world \<Rightarrow> real \<times> world" where
  "uniform a b w =
     (let (u, w') = py_random w
      in (as_float w (num_add w a (num_mul w (num_sub w b a) (PFloat u))), w'))"

text \<open>
  \<^verbatim>\<open>random.randint(a, b)\<close>: one of the \<open>b - a + 1\<close> integers from \<open>a\<close> to \<open>b\<close>.
  Every call site passes constants with \<open>a \<le> b\<close>; the \<^verbatim>\<open>ValueError\<close> of an empty
  range is not modelled.
\<close>

definition randint :: "int \<Rightarrow> int \<Rightarrow> world \<Rightarrow> int \<times> world" where
  "randint a b w = (let (k, w') = raw_draw w in (a + int (k mod nat (b - a + 1)), w'))"

text \<open>
  \<^verbatim>\<open>random.choice(seq)\<close>: one element of a sequence. Every call site passes a
  non-empty list literal; the \<^verbatim>\<open>IndexError\<close> of an empty one is not modelled.
\<close>

definition choice :: "'a list \<Rightarrow> world \<Rightarrow> 'a \<times> world" where
  "choice xs w = (let (k, w') = raw_draw w in (xs ! (k mod length xs), w'))"

definition datetime_now :: "world \<Rightarrow> int \<times> world" where
  "datetime_now w = (clock_src w (clock_pos w), w\<lparr>clock_pos := Suc (clock_pos w)\<rparr>)"

text \<open>\<^verbatim>\<open>timedelta(days=d)\<close>, in microseconds.\<close>

definition timedelta_days :: "int \<Rightarrow> int" where
  "timedelta_days d = d * 86400000000"

subsection \<open>Python built-ins used by the handlers\<close>

text \<open>\<^verbatim>\<open>str\<close> of an integer, as the f-strings format it.\<close>

fun str_nat :: "nat \<Rightarrow> string" where
  "str_nat n =
     (if n < 10 then [''0123456789'' ! n]
      else str_nat (n div 10) @ [''0123456789'' ! (n mod 10)])"

declare str_nat.simps [simp del]

definition str_int :: "int \<Rightarrow> string" where
  "str_int i = (if i < 0 then CHR ''-'' # str_nat (nat (- i)) else str_nat (nat i))"

text \<open>
  \<^verbatim>\<open>round(x, n)\<close> on a float: the multiple of \<open>10^-n\<close> nearest to the value of
  \<open>x\<close>, a tie going to the even one, and of that decimal the nearest float.
\<close>

definition round_half_even :: "real \<Rightarrow> int" where
  "round_half_even y =
     (let f = \<lfloor>y\<rfloor>; d = y - of_int f
      in if d < 1 / 2 then f
         else if 1 / 2 < d then f + 1
         else if even f then f else f + 1)"

definition py_round :: "world \<Rightarrow> real \<Rightarrow> nat \<Rightarrow> real" where
  "py_round w x n = rnd w (of_int (round_half_even (x * 10 ^ n)) / 10 ^ n)"

text \<open>
  \<^verbatim>\<open>d[k]\<close>: the value under a key. \<open>None\<close> is a raised exception
  (\<^verbatim>\<open>KeyError\<close> for a missing key, \<^verbatim>\<open>TypeError\<close> for a value that is not a
  dictionary).
\<close>

fun subscript :: "json \<Rightarrow> string \<Rightarrow> json option" where
  "subscript (JObj kvs) k = map_of kvs k"
| "subscript _ k = None"

text \<open>Python's \<^verbatim>\<open>+\<close> and \<^verbatim>\<open>/\<close> on the values a dictionary may hold.\<close>

fun as_num :: "json \<Rightarrow> pynum option" where
  "as_num (JInt i) = Some (PInt i)"
| "as_num (JFloat x) = Some (PFloat x)"
| "as_num (JBool b) = Some (PInt (if b then 1 else 0))"
| "as_num _ = None"

fun json_of_num :: "pynum \<Rightarrow> json" where
  "json_of_num (PInt i) = JInt i"
| "json_of_num (PFloat x) = JFloat x"

fun py_add :: "world \<Rightarrow> json \<Rightarrow> json \<Rightarrow> json option" where
  "py_add w (JStr s) (JStr t) = Some (JStr (s @ t))"
| "py_add w (JList xs) (JList ys) = Some (JList (xs @ ys))"
| "py_add w a b =
     (case (as_num a, as_num b) of
        (Some x, Some y) \<Rightarrow> Some (json_of_num (num_add w x y))
      | _ \<Rightarrow> None)"

definition py_truediv :: "world \<Rightarrow> json \<Rightarrow> json \<Rightarrow> json option" where
  "py_truediv w a b =
     do { x \<leftarrow> as_num a; y \<leftarrow> as_num b; q \<leftarrow> num_truediv w x y; Some (json_of_num q) }"

text \<open>
  \<^verbatim>\<open>sum(f(x) for x in xs)\<close>. The elements are evaluated in order; one that raises
  or is not a number ends the sum with the exception (\<open>None\<close>). Integers add up exactly;
  a sequence that holds a float is added up by the runtime.
\<close>

primrec gather :: "(json \<Rightarrow> json option) \<Rightarrow> json list \<Rightarrow> pynum list option" where
  "gather f [] = Some []"
| "gather f (x # xs) =
     do { v \<leftarrow> f x; n \<leftarrow> as_num v; ns \<leftarrow> gather f xs; Some (n # ns) }"

fun int_of_num :: "pynum \<Rightarrow> int option" where
  "int_of_num (PInt i) = Some i"
| "int_of_num (PFloat x) = None"

primrec all_ints :: "pynum list \<Rightarrow> int list option" where
  "all_ints [] = Some []"
| "all_ints (n # ns) = do { i \<leftarrow> int_of_num n; is \<leftarrow> all_ints ns; Some (i # is) }"

definition py_sum :: "world \<Rightarrow> (json \<Rightarrow> json option) \<Rightarrow> json list \<Rightarrow> json option" where
  "py_sum w f xs =
     do { ns \<leftarrow> gather f xs;
          Some (case all_ints ns of
                  Some is \<Rightarrow> JInt (sum_list is)
                | None \<Rightarrow> JFloat (sum_floats w ns)) }"

text \<open>\<^verbatim>\<open>[x for x in xs if p(x)]\<close>, where the test may raise.\<close>

primrec py_filter :: "(json \<Rightarrow> bool option) \<Rightarrow> json list \<Rightarrow> json list option" where
  "py_filter p [] = Some []"
| "py_filter p (x # xs) =
     do { b \<leftarrow> p x; r \<leftarrow> py_filter p xs; Some (if b then x # r else r) }"

text \<open>
  \<^verbatim>\<open>event.get(k)\<close> and \<^verbatim>\<open>event.get(k, d)\<close> on the request dictionary.
\<close>

definition dict_get :: "(string \<rightharpoonup> json) \<Rightarrow> string \<Rightarrow> json \<Rightarrow> json" where
  "dict_get event k d = (case event k of None \<Rightarrow> d | Some v \<Rightarrow> v)"

section \<open>Module property\_valuation\<close>

text \<open>One element of the list comprehension \<^verbatim>\<open>comparables\<close>.\<close>

definition comparable :: "world \<Rightarrow> json \<times> world" where
  "comparable w0 =
     (let (num, w1) = randint 100 999 w0;
          (sold_price, w2) = randint 280000 750000 w1;
          (t, w3) = datetime_now w2;
          (days, w4) = randint 1 90 w3;
          (sqft, w5) = randint 1200 3500 w4;
          (beds, w6) = randint 2 5 w5;
          (baths, w7) = randint 1 4 w6
      in (JObj [(''address'', JStr (str_int num @ '' Main St'')),
                (''sold_price'', JInt sold_price),
                (''sold_date'', JStr (isoformat w7 (t - timedelta_days days))),
                (''sqft'', JInt sqft),
                (''beds'', JInt beds),
                (''baths'', JInt baths)], w7))"

primrec comparables :: "nat list \<Rightarrow> world \<Rightarrow> json list \<times> world" where
  "comparables [] w = ([], w)"
| "comparables (i # ns) w =
     (let (c, w1) = comparable w; (cs, w2) = comparables ns w1 in (c # cs, w2))"

definition property_valuation :: "json \<Rightarrow> world \<Rightarrow> (response \<times> world) option" where
  "property_valuation property_id w0 =
     (let (base_value, w1) = randint 300000 800000 w0;
          (market_adjustment, w2) =
            uniform (PFloat (lit w0 (95 / 100))) (PFloat (lit w0 (115 / 100))) w1;
          (location_factor, w3) =
            uniform (PFloat (lit w0 (9 / 10))) (PFloat (lit w0 (12 / 10))) w2;
          (condition_factor, w4) =
            uniform (PFloat (lit w0 (85 / 100))) (PFloat (lit w0 (11 / 10))) w3;
          current_value =
            fmul w0 (fmul w0 (fmul w0 (float_of_int w0 base_value) market_adjustment)
                       location_factor) condition_factor;
          (comps, w5) = comparables [0..<5] w4;
          (confidence_score, w6) =
            uniform (PFloat (lit w0 (75 / 100))) (PFloat (lit w0 (95 / 100))) w5;
          (t, w7) = datetime_now w6
      in Some (\<lparr>statusCode = 200,
                 body = JObj
                   [(''property_id'', property_id),
                    (''current_value'', JFloat (py_round w0 current_value 2)),
                    (''confidence_score'', JFloat confidence_score),
                    (''valuation_date'', JStr (isoformat w7 t)),
                    (''factors'', JObj
                       [(''market_adjustment'', JFloat market_adjustment),
                        (''location_factor'', JFloat location_factor),
                        (''condition_factor'', JFloat condition_factor)]),
                    (''comparables'', JList comps),
                    (''value_range'', JObj
                       [(''low'', JFloat
                           (py_round w0 (fmul w0 current_value (lit w0 (9 / 10))) 2)),
                        (''high'', JFloat
                           (py_round w0 (fmul w0 current_value (lit w0 (11 / 10))) 2))])]\<rparr>,
               w7))"

text \<open>The body of the loop \<^verbatim>\<open>for i in range(12)\<close> of \<^verbatim>\<open>market_analysis\<close>.\<close>

definition trend_step :: "nat \<Rightarrow> json list \<Rightarrow> world \<Rightarrow> json list \<times> world" where
  "trend_step i trends w0 =
     (let (t, w1) = datetime_now w0;
          month = t - timedelta_days (30 * int i);
          (median_price, w2) = randint 400000 600000 w1;
          (listings, w3) = randint 50 200 w2;
          (days_on_market, w4) = randint 15 60 w3;
          (price_per_sqft, w5) = randint 200 400 w4
      in (trends @ [JObj [(''month'', JStr (strftime_Ym w5 month)),
                          (''median_price'', JInt median_price),
                          (''listings'', JInt listings),
                          (''days_on_market'', JInt days_on_market),
                          (''price_per_sqft'', JInt price_per_sqft)]], w5))"

primrec trend_loop :: "nat list \<Rightarrow> json list \<Rightarrow> world \<Rightarrow> json list \<times> world" where
  "trend_loop [] trends w = (trends, w)"
| "trend_loop (i # ns) trends w =
     (let (trends', w') = trend_step i trends w in trend_loop ns trends' w')"

definition market_analysis :: "json \<Rightarrow> world \<Rightarrow> (response \<times> world) option" where
  "market_analysis property_id w0 =
     (let (trends, w1) = trend_loop [0..<12] [] w0;
          (market_health, w2) = choice [''Strong'', ''Stable'', ''Growing''] w1;
          (buyer_demand, w3) = choice [''High'', ''Medium'', ''Low''] w2;
          (inventory_level, w4) =
            uniform (PFloat (lit w0 (15 / 10))) (PFloat (lit w0 (65 / 10))) w3;
          (r, w5) = py_random w4;
          (t, w6) = datetime_now w5
      in Some (\<lparr>statusCode = 200,
                 body = JObj
                   [(''property_id'', property_id),
                    (''market_trends'', JList trends),
                    (''market_health'', JStr market_health),
                    (''buyer_demand'', JStr buyer_demand),
                    (''inventory_level'', JFloat inventory_level),
                    (''recommendation'',
                       JStr (if r > lit w0 (1 / 2) then ''Hold'' else ''Consider Selling'')),
                    (''analysis_date'', JStr (isoformat w6 t))]\<rparr>,
               w6))"

text \<open>The body of the loop \<^verbatim>\<open>for i in range(1, 13)\<close> of \<^verbatim>\<open>value_prediction\<close>.\<close>

definition prediction_step :: "int \<Rightarrow> nat \<Rightarrow> json list \<Rightarrow> world \<Rightarrow> json list \<times> world" where
  "prediction_step current_value i predictions w0 =
     (let (growth_rate, w1) =
            uniform (PFloat (lit w0 (2 / 1000))) (PFloat (lit w0 (8 / 1000))) w0;
          predicted_value =
            fmul w0 (float_of_int w0 current_value)
              (fpow w0 (fadd w0 (float_of_int w0 1) growth_rate) i)
      in (predictions @
            [JObj [(''month'', JInt (int i)),
                   (''predicted_value'', JFloat (py_round w0 predicted_value 2)),
                   (''confidence'', JFloat
                      (max (fsub w0 (lit w0 (95 / 100))
                              (fmul w0 (float_of_int w0 (int i)) (lit w0 (5 / 100))))
                           (lit w0 (1 / 2))))]],
          w1))"

primrec prediction_loop :: "int \<Rightarrow> nat list \<Rightarrow> json list \<Rightarrow> world \<Rightarrow> json list \<times> world" where
  "prediction_loop current_value [] predictions w = (predictions, w)"
| "prediction_loop current_value (i # ns) predictions w =
     (let (predictions', w') = prediction_step current_value i predictions w
      in prediction_loop current_value ns predictions' w')"

definition value_prediction :: "json \<Rightarrow> world \<Rightarrow> (response \<times> world) option" where
  "value_prediction property_id w0 =
     (let (current_value, w1) = randint 400000 700000 w0;
          (predictions, w2) = prediction_loop current_value [1..<13] [] w1;
          (annual_growth_rate, w3) = uniform (PInt 3) (PInt 8) w2;
          (t, w4) = datetime_now w3
      in Some (\<lparr>statusCode = 200,
                 body = JObj
                   [(''property_id'', property_id),
                    (''current_value'', JInt current_value),
                    (''predictions'', JList predictions),
                    (''annual_growth_rate'', JFloat annual_growth_rate),
                    (''risk_factors'',
                       JList [JStr ''Interest rate changes'',
                              JStr ''Local market conditions'',
                              JStr ''Economic indicators'']),
                    (''prediction_date'', JStr (isoformat w4 t))]\<rparr>,
               w4))"

text \<open>\<^verbatim>\<open>lambda_handler\<close> of module \<^verbatim>\<open>property_valuation\<close> (entry point B).\<close>

definition property_valuation_lambda_handler ::
  "(string \<rightharpoonup> json) \<Rightarrow> world \<Rightarrow> (response \<times> world) option" where
  "property_valuation_lambda_handler event w =
     (let property_id = dict_get event ''property_id'' JNull;
          analysis_type = dict_get event ''analysis_type'' (JStr ''valuation'')
      in if analysis_type = JStr ''valuation'' then property_valuation property_id w
         else if analysis_type = JStr ''market_analysis'' then market_analysis property_id w
         else if analysis_type = JStr ''prediction'' then value_prediction property_id w
         else Some (\<lparr>statusCode = 400,
                      body = JObj [(''error'', JStr ''Invalid analysis type'')]\<rparr>, w))"

section \<open>Module data\_aggregation\<close>

text \<open>The body of the loop \<^verbatim>\<open>for i in range(1, 13)\<close> of \<^verbatim>\<open>aggregate_portfolio_data\<close>.\<close>

definition portfolio_step ::
  "nat \<Rightarrow> json list \<times> int \<times> int \<times> int \<Rightarrow> world \<Rightarrow> (json list \<times> int \<times> int \<times> int) \<times> world" where
  "portfolio_step i st w0 =
     (case st of (properties, total_value, total_income, total_expenses) \<Rightarrow>
        let (val, w1) = randint 300000 800000 w0;
            (income, w2) = randint 2000 5000 w1;
            (expenses, w3) = randint 500 1500 w2;
            (occupancy_rate, w4) =
              uniform (PFloat (lit w0 (85 / 100))) (PFloat (lit w0 1)) w3;
            (t, w5) = datetime_now w4
        in ((properties @
               [JObj [(''property_id'', JInt (int i)),
                      (''current_value'', JInt val),
                      (''monthly_income'', JInt income),
                      (''monthly_expenses'', JInt expenses),
                      (''occupancy_rate'', JFloat occupancy_rate),
                      (''last_updated'', JStr (isoformat w5 t))]],
             total_value + val, total_income + income, total_expenses + expenses), w5))"

primrec portfolio_loop ::
  "nat list \<Rightarrow> json list \<times> int \<times> int \<times> int \<Rightarrow> world \<Rightarrow> (json list \<times> int \<times> int \<times> int) \<times> world" where
  "portfolio_loop [] st w = (st, w)"
| "portfolio_loop (i # ns) st w =
     (let (st', w') = portfolio_step i st w in portfolio_loop ns st' w')"

definition aggregate_portfolio_data :: "json \<Rightarrow> world \<Rightarrow> (response \<times> world) option" where
  "aggregate_portfolio_data user_id w0 =
     (let ((properties, total_value, total_income, total_expenses), w1) =
            portfolio_loop [1..<13] ([], 0, 0, 0) w0
      in do {
        occupancy_sum \<leftarrow> py_sum w0 (\<lambda>p. subscript p ''occupancy_rate'') properties;
        average_occupancy \<leftarrow> py_truediv w0 occupancy_sum (JInt (int (length properties)));
        ratio \<leftarrow> num_truediv w0 (PInt ((total_income - total_expenses) * 12)) (PInt total_value);
        let portfolio_roi = json_of_num (num_mul w0 ratio (PInt 100));
        let (t, w2) = datetime_now w1;
        Some (\<lparr>statusCode = 200,
                body = JObj
                  [(''user_id'', user_id),
                   (''total_properties'', JInt (int (length properties))),
                   (''total_value'', JInt total_value),
                   (''total_monthly_income'', JInt total_income),
                   (''total_monthly_expenses'', JInt total_expenses),
                   (''net_monthly_income'', JInt (total_income - total_expenses)),
                   (''average_occupancy'', average_occupancy),
                   (''portfolio_roi'', portfolio_roi),
                   (''properties'', JList properties),
                   (''aggregation_date'', JStr (isoformat w2 t))]\<rparr>,
              w2)
      })"

text \<open>The body of the loop \<^verbatim>\<open>for i in range(12)\<close> of \<^verbatim>\<open>aggregate_performance_metrics\<close>.\<close>

definition performance_step :: "nat \<Rightarrow> json list \<Rightarrow> world \<Rightarrow> json list \<times> world" where
  "performance_step i monthly_performance w0 =
     (let (t, w1) = datetime_now w0;
          month = t - timedelta_days (30 * int i);
          (revenue, w2) = randint 40000 60000 w1;
          (expenses, w3) = randint 10000 20000 w2;
          (net_income, w4) = randint 25000 40000 w3;
          (occupancy, w5) =
            uniform (PFloat (lit w0 (85 / 100))) (PFloat (lit w0 (98 / 100))) w4
      in (monthly_performance @
            [JObj [(''month'', JStr (strftime_Ym w5 month)),
                   (''revenue'', JInt revenue),
                   (''expenses'', JInt expenses),
                   (''net_income'', JInt net_income),
                   (''occupancy'', JFloat occupancy)]], w5))"

primrec performance_loop :: "nat list \<Rightarrow> json list \<Rightarrow> world \<Rightarrow> json list \<times> world" where
  "performance_loop [] monthly_performance w = (monthly_performance, w)"
| "performance_loop (i # ns) monthly_performance w =
     (let (monthly_performance', w') = performance_step i monthly_performance w
      in performance_loop ns monthly_performance' w')"

definition aggregate_performance_metrics :: "json \<Rightarrow> world \<Rightarrow> (response \<times> world) option" where
  "aggregate_performance_metrics user_id w0 =
     (let (ytd_return, w1) = uniform (PInt 5) (PInt 15) w0;
          (mtd_return, w2) = uniform (PInt (- 2)) (PInt 5) w1;
          (total_roi, w3) = uniform (PInt 6) (PInt 12) w2;
          (cash_on_cash_return, w4) = uniform (PInt 5) (PInt 10) w3;
          (cap_rate, w5) = uniform (PInt 4) (PInt 8) w4;
          (gross_rent_multiplier, w6) = uniform (PInt 8) (PInt 15) w5;
          metrics = JObj [(''ytd_return'', JFloat ytd_return),
                          (''mtd_return'', JFloat mtd_return),
                          (''total_roi'', JFloat total_roi),
                          (''cash_on_cash_return'', JFloat cash_on_cash_return),
                          (''cap_rate'', JFloat cap_rate),
                          (''gross_rent_multiplier'', JFloat gross_rent_multiplier)];
          (monthly_performance, w7) = performance_loop [0..<12] [] w6;
          (best_id, w8) = randint 1 12 w7;
          (best_roi, w9) = uniform (PInt 8) (PInt 12) w8;
          (worst_id, w10) = randint 1 12 w9;
          (worst_roi, w11) = uniform (PInt 4) (PInt 7) w10;
          (t, w12) = datetime_now w11
      in Some (\<lparr>statusCode = 200,
                 body = JObj
                   [(''user_id'', user_id),
                    (''metrics'', metrics),
                    (''monthly_performance'', JList monthly_performance),
                    (''best_performing_property'', JObj
                       [(''id'', JInt best_id),
                        (''name'', JStr ''Sunset Plaza Apartments''),
                        (''roi'', JFloat best_roi)]),
                    (''worst_performing_property'', JObj
                       [(''id'', JInt worst_id),
                        (''name'', JStr ''Riverside Condominiums''),
                        (''roi'', JFloat worst_roi)]),
                    (''calculation_date'', JStr (isoformat w12 t))]\<rparr>,
               w12))"

text \<open>The body of the loop \<^verbatim>\<open>for month in range(6)\<close> of \<^verbatim>\<open>aggregate_cashflow_data\<close>.\<close>

definition cashflow_step :: "nat \<Rightarrow> json list \<Rightarrow> world \<Rightarrow> json list \<times> world" where
  "cashflow_step month cashflow_items w0 =
     (let (t, w1) = datetime_now w0;
          date = t - timedelta_days (30 * int month);
          (rental_income, w2) = randint 40000 55000 w1;
          (mortgage_payments, w3) = randint 20000 25000 w2;
          (maintenance, w4) = randint 2000 5000 w3;
          (property_tax, w5) = randint 3000 5000 w4;
          (insurance, w6) = randint 1500 2500 w5;
          (utilities, w7) = randint 1000 2000 w6;
          (property_management, w8) = randint 3000 4000 w7;
          total_expenses = mortgage_payments + maintenance + property_tax + insurance
                             + utilities + property_management;
          net_cashflow = rental_income - total_expenses;
          (other, w9) = randint 0 2000 w8
      in (cashflow_items @
            [JObj [(''month'', JStr (strftime_Ym w9 date)),
                   (''income'', JObj [(''rental'', JInt rental_income),
                                      (''other'', JInt other)]),
                   (''expenses'', JObj [(''mortgage'', JInt mortgage_payments),
                                        (''maintenance'', JInt maintenance),
                                        (''property_tax'', JInt property_tax),
                                        (''insurance'', JInt insurance),
                                        (''utilities'', JInt utilities),
                                        (''management'', JInt property_management)]),
                   (''net_cashflow'', JInt net_cashflow),
                   (''cumulative_cashflow'', JInt (net_cashflow * (int month + 1)))]],
          w9))"

primrec cashflow_loop :: "nat list \<Rightarrow> json list \<Rightarrow> world \<Rightarrow> json list \<times> world" where
  "cashflow_loop [] cashflow_items w = (cashflow_items, w)"
| "cashflow_loop (month # ns) cashflow_items w =
     (let (cashflow_items', w') = cashflow_step month cashflow_items w
      in cashflow_loop ns cashflow_items' w')"

text \<open>The generator expressions summed in the body of \<^verbatim>\<open>aggregate_cashflow_data\<close>.\<close>

definition item_income :: "world \<Rightarrow> json \<Rightarrow> json option" where
  "item_income w item =
     do { i1 \<leftarrow> subscript item ''income''; rental \<leftarrow> subscript i1 ''rental'';
          i2 \<leftarrow> subscript item ''income''; other \<leftarrow> subscript i2 ''other'';
          py_add w rental other }"

definition item_expenses :: "world \<Rightarrow> json \<Rightarrow> json option" where
  "item_expenses w item =
     do { e1 \<leftarrow> subscript item ''expenses''; mortgage \<leftarrow> subscript e1 ''mortgage'';
          e2 \<leftarrow> subscript item ''expenses''; maintenance \<leftarrow> subscript e2 ''maintenance'';
          s1 \<leftarrow> py_add w mortgage maintenance;
          e3 \<leftarrow> subscript item ''expenses''; property_tax \<leftarrow> subscript e3 ''property_tax'';
          s2 \<leftarrow> py_add w s1 property_tax;
          e4 \<leftarrow> subscript item ''expenses''; insurance \<leftarrow> subscript e4 ''insurance'';
          s3 \<leftarrow> py_add w s2 insurance;
          e5 \<leftarrow> subscript item ''expenses''; utilities \<leftarrow> subscript e5 ''utilities'';
          s4 \<leftarrow> py_add w s3 utilities;
          e6 \<leftarrow> subscript item ''expenses''; management \<leftarrow> subscript e6 ''management'';
          py_add w s4 management }"

definition aggregate_cashflow_data :: "json \<Rightarrow> world \<Rightarrow> (response \<times> world) option" where
  "aggregate_cashflow_data user_id w0 =
     (let (cashflow_items, w1) = cashflow_loop [0..<6] [] w0
      in do {
        total_income_ytd \<leftarrow> py_sum w0 (item_income w0) cashflow_items;
        total_expenses_ytd \<leftarrow> py_sum w0 (item_expenses w0) cashflow_items;
        net_cashflow_ytd \<leftarrow> py_sum w0 (\<lambda>item. subscript item ''net_cashflow'') cashflow_items;
        net_sum \<leftarrow> py_sum w0 (\<lambda>item. subscript item ''net_cashflow'') cashflow_items;
        average_monthly_cashflow \<leftarrow>
          py_truediv w0 net_sum (JInt (int (length cashflow_items)));
        let (t, w2) = datetime_now w1;
        Some (\<lparr>statusCode = 200,
                body = JObj
                  [(''user_id'', user_id),
                   (''cashflow_summary'', JList cashflow_items),
                   (''total_income_ytd'', total_income_ytd),
                   (''total_expenses_ytd'', total_expenses_ytd),
                   (''net_cashflow_ytd'', net_cashflow_ytd),
                   (''average_monthly_cashflow'', average_monthly_cashflow),
                   (''aggregation_date'', JStr (isoformat w2 t))]\<rparr>,
              w2)
      })"

text \<open>The body of the loop \<^verbatim>\<open>for i in range(20)\<close> of \<^verbatim>\<open>aggregate_maintenance_data\<close>.\<close>

definition maintenance_step :: "nat \<Rightarrow> json list \<Rightarrow> world \<Rightarrow> json list \<times> world" where
  "maintenance_step i maintenance_items w0 =
     (let (t, w1) = datetime_now w0;
          (days, w2) = randint 1 365 w1;
          date = t - timedelta_days days;
          (property_id, w3) = randint 1 12 w2;
          (type, w4) = choice [''Routine'', ''Emergency'', ''Preventive'', ''Upgrade''] w3;
          (category, w5) =
            choice [''Plumbing'', ''Electrical'', ''HVAC'', ''Roofing'', ''Painting'',
                    ''Landscaping''] w4;
          (cost, w6) = randint 100 5000 w5;
          (status, w7) = choice [''Completed'', ''In Progress'', ''Scheduled''] w6;
          (vendor, w8) = randint 1 10 w7
      in (maintenance_items @
            [JObj [(''id'', JInt (int i + 1)),
                   (''property_id'', JInt property_id),
                   (''type'', JStr type),
                   (''category'', JStr category),
                   (''cost'', JInt cost),
                   (''date'', JStr (isoformat w8 date)),
                   (''status'', JStr status),
                   (''vendor'', JStr (''Vendor '' @ str_int vendor))]], w8))"

primrec maintenance_loop :: "nat list \<Rightarrow> json list \<Rightarrow> world \<Rightarrow> json list \<times> world" where
  "maintenance_loop [] maintenance_items w = (maintenance_items, w)"
| "maintenance_loop (i # ns) maintenance_items w =
     (let (maintenance_items', w') = maintenance_step i maintenance_items w
      in maintenance_loop ns maintenance_items' w')"

text \<open>\<^verbatim>\<open>len([m for m in maintenance_items if m['type'] == ty])\<close>.\<close>

definition count_type :: "string \<Rightarrow> json list \<Rightarrow> json option" where
  "count_type ty maintenance_items =
     do { ms \<leftarrow> py_filter (\<lambda>m. do { t \<leftarrow> subscript m ''type''; Some (t = JStr ty) })
                  maintenance_items;
          Some (JInt (int (length ms))) }"

definition aggregate_maintenance_data :: "json \<Rightarrow> world \<Rightarrow> (response \<times> world) option" where
  "aggregate_maintenance_data user_id w0 =
     (let (maintenance_items, w1) = maintenance_loop [0..<20] [] w0
      in do {
        total_cost \<leftarrow> py_sum w0 (\<lambda>item. subscript item ''cost'') maintenance_items;
        avg_cost \<leftarrow> py_truediv w0 total_cost (JInt (int (length maintenance_items)));
        routine \<leftarrow> count_type ''Routine'' maintenance_items;
        emergency \<leftarrow> count_type ''Emergency'' maintenance_items;
        preventive \<leftarrow> count_type ''Preventive'' maintenance_items;
        upgrade \<leftarrow> count_type ''Upgrade'' maintenance_items;
        let (upcoming_maintenance, w2) = randint 2 8 w1;
        let (t, w3) = datetime_now w2;
        Some (\<lparr>statusCode = 200,
                body = JObj
                  [(''user_id'', user_id),
                   (''maintenance_items'', JList maintenance_items),
                   (''total_maintenance_cost'', total_cost),
                   (''average_cost_per_item'', avg_cost),
                   (''maintenance_by_type'', JObj
                      [(''Routine'', routine),
                       (''Emergency'', emergency),
                       (''Preventive'', preventive),
                       (''Upgrade'', upgrade)]),
                   (''upcoming_maintenance'', JInt upcoming_maintenance),
                   (''aggregation_date'', JStr (isoformat w3 t))]\<rparr>,
              w3)
      })"

text \<open>\<^verbatim>\<open>lambda_handler\<close> of module \<^verbatim>\<open>data_aggregation\<close> (entry point A).\<close>

definition data_aggregation_lambda_handler ::
  "(string \<rightharpoonup> json) \<Rightarrow> world \<Rightarrow> (response \<times> world) option" where
  "data_aggregation_lambda_handler event w =
     (let aggregation_type = dict_get event ''type'' (JStr ''portfolio'');
          user_id = dict_get event ''user_id'' (JStr ''1'')
      in if aggregation_type = JStr ''portfolio'' then aggregate_portfolio_data user_id w
         else if aggregation_type = JStr ''performance'' then
           aggregate_performance_metrics user_id w
         else if aggregation_type = JStr ''cashflow'' then aggregate_cashflow_data user_id w
         else if aggregation_type = JStr ''maintenance'' then
           aggregate_maintenance_data user_id w
         else Some (\<lparr>statusCode = 400,
                      body = JObj [(''error'', JStr ''Invalid aggregation type'')]\<rparr>, w))"

section \<open>Reading a prediction response\<close>

text \<open>
  Two notions used to state what \<^verbatim>\<open>value_prediction\<close> returns. A call started in
  runtime \<open>w\<close> first samples the current value; \<open>nth_growth_rate w i\<close> is the value
  of \<^verbatim>\<open>random.uniform(0.002, 0.008)\<close> at the \<open>i\<close>-th draw after that one.
  \<open>prediction_of r i\<close> reads, from the result \<open>r\<close> of a call, the field
  \<open>predicted_value\<close> of the \<open>i\<close>-th entry (counted from 1) of the list
  \<open>predictions\<close>.
\<close>

definition nth_growth_rate :: "world \<Rightarrow> nat \<Rightarrow> real" where
  "nth_growth_rate w i =
     fst (uniform (PFloat (lit w (2 / 1000))) (PFloat (lit w (8 / 1000)))
            (w\<lparr>rand_pos := rand_pos w + i\<rparr>))"

definition prediction_of :: "(response \<times> world) option \<Rightarrow> nat \<Rightarrow> real option" where
  "prediction_of r i =
     (case r of
        None \<Rightarrow> None
      | Some (resp, w') \<Rightarrow>
          (case subscript (body resp) ''predictions'' of
             Some (JList ps) \<Rightarrow>
               if 1 \<le> i \<and> i \<le> length ps then
                 (case subscript (ps ! (i - 1)) ''predicted_value'' of
                    Some (JFloat x) \<Rightarrow> Some x
                  | _ \<Rightarrow> None)
               else None
           | _ \<Rightarrow> None))"

section \<open>Concrete runtimes\<close>

text \<open>
  Three runtimes at which the handlers are evaluated below. In \<open>sample_world\<close> the
  \<open>n\<close>-th raw outcome of the generator is \<open>n\<close>; in \<open>flat_world\<close> every raw
  outcome is 0, so every sample is the lower end of its range; in \<open>uneven_world\<close> the
  second raw outcome is \<open>2^52\<close> (the sample \<^verbatim>\<open>random() = 0.5\<close>) and every other one
  is 0. The clock starts at an arbitrary instant and advances by one microsecond per
  reading; both formatting methods print the microsecond count. The arithmetic of the
  three is exact.
\<close>

definition exact_sum :: "pynum list \<Rightarrow> real" where
  "exact_sum ns = sum_list (map (\<lambda>n. case n of PInt i \<Rightarrow> of_int i | PFloat x \<Rightarrow> x) ns)"

definition sample_world :: world where
  "sample_world =
     \<lparr>rand_src = (\<lambda>n. n), rand_pos = 0,
      clock_src = (\<lambda>n. 1762214400000000 + int n), clock_pos = 0,
      isoformat = str_int, strftime_Ym = str_int,
      arith = exact_arith, sum_floats = exact_sum\<rparr>"

definition flat_world :: world where
  "flat_world =
     \<lparr>rand_src = (\<lambda>n. 0), rand_pos = 0,
      clock_src = (\<lambda>n. 1762214400000000 + int n), clock_pos = 0,
      isoformat = str_int, strftime_Ym = str_int,
      arith = exact_arith, sum_floats = exact_sum\<rparr>"

definition uneven_world :: world where
  "uneven_world =
     \<lparr>rand_src = (\<lambda>n. if n = 1 then 2 ^ 52 else 0), rand_pos = 0,
      clock_src = (\<lambda>n. 1762214400000000 + int n), clock_pos = 0,
      isoformat = str_int, strftime_Ym = str_int,
      arith = exact_arith, sum_floats = exact_sum\<rparr>"

subsection \<open>IEEE 754 binary64\<close>

text \<open>
  The arithmetic of CPython's \<^verbatim>\<open>float\<close>: binary64 with rounding to nearest, a tie
  going to the even significand. For \<open>x > 0\<close> with \<open>2^e \<le> x < 2^(e+1)\<close>,
  \<open>round53 x\<close> scales \<open>x\<close> into \<open>[2^52, 2^53)\<close>, rounds it to an integer
  and scales it back: the nearest number with a significand of 53 bits. The range of the
  exponent is not bounded: overflow and subnormal numbers are not modelled, and the values
  of the handlers lie between \<open>10^-3\<close> and \<open>10^9\<close>.
\<close>

definition round53 :: "real \<Rightarrow> real" where
  "round53 x =
     (let e = \<lfloor>log 2 x\<rfloor>
      in of_int (round_half_even (x * 2 powr (52 - of_int e))) * 2 powr (of_int e - 52))"

definition binary64 :: "real \<Rightarrow> real" where
  "binary64 x = (if x = 0 then 0 else if 0 < x then round53 x else - round53 (- x))"

text \<open>
  \<open>ieee_arith\<close> rounds the result of every operation with \<open>binary64\<close> and takes
  for \<^verbatim>\<open>pow\<close> the correctly rounded power. \<open>ieee_sum\<close> is the built-in
  \<^verbatim>\<open>sum\<close> before Python 3.12: one rounded addition after the other, from the left.
\<close>

definition ieee_arith :: float_arith where
  "ieee_arith = Abs_float_arith (binary64, \<lambda>x n. binary64 (x ^ n))"

definition ieee_sum :: "pynum list \<Rightarrow> real" where
  "ieee_sum ns =
     foldl (\<lambda>s n. binary64 (s + (case n of PInt i \<Rightarrow> of_int i | PFloat x \<Rightarrow> x))) 0 ns"

text \<open>
  Runtimes with this arithmetic: \<open>binary64_world src\<close> has the raw outcomes
  \<open>src\<close> and the clock of the runtimes above. In \<open>ieee_world k\<close> the first raw
  outcome is \<open>k\<close> and every later one is 0; \<open>ieee_uneven_world\<close> has the raw
  outcomes of \<open>uneven_world\<close>.
\<close>

definition binary64_world :: "(nat \<Rightarrow> nat) \<Rightarrow> world" where
  "binary64_world src =
     \<lparr>rand_src = src, rand_pos = 0,
      clock_src = (\<lambda>n. 1762214400000000 + int n), clock_pos = 0,
      isoformat = str_int, strftime_Ym = str_int,
      arith = ieee_arith, sum_floats = ieee_sum\<rparr>"

definition ieee_world :: "nat \<Rightarrow> world" where
  "ieee_world k = binary64_world (\<lambda>n. if n = 0 then k else 0)"

definition ieee_uneven_world :: world where
  "ieee_uneven_world = binary64_world (\<lambda>n. if n = 1 then 2 ^ 52 else 0)"

section \<open>Every operation returns\<close>

text \<open>The operations that look nothing up in a dictionary return their envelope directly.\<close>

lemma property_valuation_ok:
  "\<exists>b w'. property_valuation pid w = Some (\<lparr>statusCode = 200, body = b\<rparr>, w')
      \<and> subscript b ''property_id'' = Some pid"
  by (simp add: property_valuation_def split_def Let_def)

lemma market_analysis_ok:
  "\<exists>b w'. market_analysis pid w = Some (\<lparr>statusCode = 200, body = b\<rparr>, w')
      \<and> subscript b ''property_id'' = Some pid"
  by (simp add: market_analysis_def split_def Let_def)

lemma value_prediction_ok:
  "\<exists>b w'. value_prediction pid w = Some (\<lparr>statusCode = 200, body = b\<rparr>, w')
      \<and> subscript b ''property_id'' = Some pid"
  by (simp add: value_prediction_def split_def Let_def)

lemma aggregate_performance_metrics_ok:
  "\<exists>b w'. aggregate_performance_metrics uid w = Some (\<lparr>statusCode = 200, body = b\<rparr>, w')"
  by (simp add: aggregate_performance_metrics_def split_def Let_def)

section \<open>The arithmetic of the runtime\<close>

lemma rnd_mono: "x \<le> y \<Longrightarrow> rnd w x \<le> rnd w y"
  using Rep_float_arith [of "arith w"] by (auto simp: rnd_def mono_def)

lemma rnd_error: "\<bar>rnd w x - x\<bar> \<le> \<bar>x\<bar> / 2 ^ 53"
  using Rep_float_arith [of "arith w"] by (auto simp: rnd_def)

lemma fpow_error: "\<bar>fpow w x n - x ^ n\<bar> \<le> \<bar>x ^ n\<bar> / 2 ^ 52"
  using Rep_float_arith [of "arith w"] by (auto simp: fpow_def)

lemma rnd_zero [simp]: "rnd w 0 = 0"
  using rnd_error [of w 0] by simp

lemma rnd_nonneg: "0 \<le> x \<Longrightarrow> 0 \<le> rnd w x"
  using rnd_mono [of 0 x w] by simp

lemma rnd_exact: "arith w = exact_arith \<Longrightarrow> rnd w x = x"
  by (simp add: rnd_def exact_arith.rep_eq)

lemma fpow_exact: "arith w = exact_arith \<Longrightarrow> fpow w x n = x ^ n"
  by (simp add: fpow_def exact_arith.rep_eq)

text \<open>Drawing a sample or reading the clock leaves the arithmetic as it is.\<close>

lemma rnd_rand_pos [simp]: "rnd (w\<lparr>rand_pos := k\<rparr>) = rnd w"
  by (simp add: rnd_def)

lemma rnd_clock_pos [simp]: "rnd (w\<lparr>clock_pos := k\<rparr>) = rnd w"
  by (simp add: rnd_def)

lemma fpow_rand_pos [simp]: "fpow (w\<lparr>rand_pos := k\<rparr>) = fpow w"
  by (simp add: fpow_def)

lemma lit_rand_pos [simp]: "lit (w\<lparr>rand_pos := k\<rparr>) = lit w"
  by (rule ext) (simp add: lit_def)

lemma float_of_int_rand_pos [simp]: "float_of_int (w\<lparr>rand_pos := k\<rparr>) = float_of_int w"
  by (rule ext) (simp add: float_of_int_def)

lemma fadd_rand_pos [simp]: "fadd (w\<lparr>rand_pos := k\<rparr>) = fadd w"
  by (rule ext, rule ext) (simp add: fadd_def)

lemma fsub_rand_pos [simp]: "fsub (w\<lparr>rand_pos := k\<rparr>) = fsub w"
  by (rule ext, rule ext) (simp add: fsub_def)

lemma fmul_rand_pos [simp]: "fmul (w\<lparr>rand_pos := k\<rparr>) = fmul w"
  by (rule ext, rule ext) (simp add: fmul_def)

lemma py_round_rand_pos [simp]: "py_round (w\<lparr>rand_pos := k\<rparr>) = py_round w"
  by (rule ext, rule ext) (simp add: py_round_def)

lemma uniform_fst:
  "fst (uniform (PFloat a) (PFloat b) w) =
     fadd w a (fmul w (fsub w b a) (real (rand_src w (rand_pos w) mod 2 ^ 53) / 2 ^ 53))"
  by (simp add: uniform_def py_random_def raw_draw_def)

lemma uniform_snd: "snd (uniform a b w) = w\<lparr>rand_pos := Suc (rand_pos w)\<rparr>"
  by (simp add: uniform_def py_random_def raw_draw_def)

lemma randint_fst_snd:
  "fst (randint a b w) = a + int (rand_src w (rand_pos w) mod nat (b - a + 1))"
  "snd (randint a b w) = w\<lparr>rand_pos := Suc (rand_pos w)\<rparr>"
  by (simp_all add: randint_def raw_draw_def)

lemma randint_bounds:
  "a \<le> b \<Longrightarrow> a \<le> fst (randint a b w) \<and> fst (randint a b w) \<le> b"
proof -
  assume ab: "a \<le> b"
  let ?k = "rand_src w (rand_pos w) mod nat (b - a + 1)"
  have "?k < nat (b - a + 1)"
    using ab by (intro mod_less_divisor) simp
  then have "int ?k \<le> b - a"
    using ab by linarith
  then show ?thesis
    by (simp add: randint_fst_snd)
qed

lemma float_of_int_small: "\<bar>i\<bar> \<le> 2 ^ 53 \<Longrightarrow> float_of_int w i = of_int i"
  by (simp add: float_of_int_def)

section \<open>Sums over the generated records\<close>

lemma gather_ints:
  "map f xs = map (\<lambda>v. Some (JInt v)) vals \<Longrightarrow> gather f xs = Some (map PInt vals)"
proof (induction xs arbitrary: vals)
  case Nil
  then show ?case by simp
next
  case (Cons x xs)
  then obtain v vs where vals: "vals = v # vs" "f x = Some (JInt v)"
    "map f xs = map (\<lambda>v. Some (JInt v)) vs"
    by (cases vals) auto
  show ?case
    by (simp add: vals Cons.IH [OF vals(3)])
qed

lemma all_ints_PInt: "all_ints (map PInt vals) = Some vals"
  by (induction vals) simp_all

lemma py_sum_ints:
  "map f xs = map (\<lambda>v. Some (JInt v)) vals \<Longrightarrow> py_sum w f xs = Some (JInt (sum_list vals))"
  by (simp add: py_sum_def gather_ints all_ints_PInt)

lemma gather_numbers:
  "\<forall>x\<in>set xs. \<exists>v n. f x = Some v \<and> as_num v = Some n \<Longrightarrow> \<exists>ns. gather f xs = Some ns"
  by (induction xs) auto

lemma py_sum_numbers:
  "\<forall>x\<in>set xs. \<exists>v n. f x = Some v \<and> as_num v = Some n \<Longrightarrow>
   \<exists>s n. py_sum w f xs = Some s \<and> as_num s = Some n"
proof -
  assume "\<forall>x\<in>set xs. \<exists>v n. f x = Some v \<and> as_num v = Some n"
  then obtain ns where "gather f xs = Some ns"
    using gather_numbers by blast
  then show ?thesis
    by (cases "all_ints ns") (simp_all add: py_sum_def)
qed

lemma py_truediv_count:
  "as_num s = Some x \<Longrightarrow> n \<noteq> 0 \<Longrightarrow> \<bar>n\<bar> \<le> 2 ^ 53 \<Longrightarrow>
   \<exists>q. py_truediv w s (JInt n) = Some (JFloat q)"
  by (cases x) (simp_all add: py_truediv_def float_of_int_small)

lemma portfolio_step_inv:
  "\<exists>p v inc ex r w'.
     portfolio_step i (ps, tv, ti, te) w = ((ps @ [p], tv + v, ti + inc, te + ex), w') \<and>
     subscript p ''current_value'' = Some (JInt v) \<and>
     subscript p ''monthly_income'' = Some (JInt inc) \<and>
     subscript p ''monthly_expenses'' = Some (JInt ex) \<and>
     subscript p ''occupancy_rate'' = Some (JFloat r) \<and> 300000 \<le> v"
  by (simp add: portfolio_step_def split_def Let_def randint_def)

lemma portfolio_loop_inv:
  "\<exists>new vals incs exps w'.
     portfolio_loop ns (ps, tv, ti, te) w =
       ((ps @ new, tv + sum_list vals, ti + sum_list incs, te + sum_list exps), w') \<and>
     length new = length ns \<and>
     map (\<lambda>p. subscript p ''current_value'') new = map (\<lambda>v. Some (JInt v)) vals \<and>
     map (\<lambda>p. subscript p ''monthly_income'') new = map (\<lambda>v. Some (JInt v)) incs \<and>
     map (\<lambda>p. subscript p ''monthly_expenses'') new = map (\<lambda>v. Some (JInt v)) exps \<and>
     (\<forall>p\<in>set new. \<exists>r. subscript p ''occupancy_rate'' = Some (JFloat r)) \<and>
     (\<forall>v\<in>set vals. 300000 \<le> v)"
proof (induction ns arbitrary: ps tv ti te w)
  case Nil
  show ?case
    by (rule exI [of _ "[]"], rule exI [of _ "[]"], rule exI [of _ "[]"], rule exI [of _ "[]"])
       simp
next
  case (Cons i ns)
  from portfolio_step_inv [of i ps tv ti te w]
  obtain p v inc ex r w1 where
    step: "portfolio_step i (ps, tv, ti, te) w = ((ps @ [p], tv + v, ti + inc, te + ex), w1)"
    and p: "subscript p ''current_value'' = Some (JInt v)"
      "subscript p ''monthly_income'' = Some (JInt inc)"
      "subscript p ''monthly_expenses'' = Some (JInt ex)"
      "subscript p ''occupancy_rate'' = Some (JFloat r)" "300000 \<le> v"
    by blast
  from Cons.IH [of "ps @ [p]" "tv + v" "ti + inc" "te + ex" w1]
  obtain new vals incs exps w' where
    loop: "portfolio_loop ns (ps @ [p], tv + v, ti + inc, te + ex) w1 =
       (((ps @ [p]) @ new, tv + v + sum_list vals, ti + inc + sum_list incs,
         te + ex + sum_list exps), w')"
    and inv: "length new = length ns"
      "map (\<lambda>p. subscript p ''current_value'') new = map (\<lambda>v. Some (JInt v)) vals"
      "map (\<lambda>p. subscript p ''monthly_income'') new = map (\<lambda>v. Some (JInt v)) incs"
      "map (\<lambda>p. subscript p ''monthly_expenses'') new = map (\<lambda>v. Some (JInt v)) exps"
      "\<forall>p\<in>set new. \<exists>r. subscript p ''occupancy_rate'' = Some (JFloat r)"
      "\<forall>v\<in>set vals. 300000 \<le> v"
    by blast
  show ?case
    apply (rule exI [of _ "p # new"], rule exI [of _ "v # vals"])
    apply (rule exI [of _ "inc # incs"], rule exI [of _ "ex # exps"], rule exI [of _ w'])
    using p inv by (simp add: step loop add.assoc)
qed

section \<open>Portfolio aggregation\<close>

lemma aggregate_portfolio_data_eq:
  "\<exists>props vals incs exps avg roi date w'.
     length props = 12 \<and>
     map (\<lambda>p. subscript p ''current_value'') props = map (\<lambda>v. Some (JInt v)) vals \<and>
     map (\<lambda>p. subscript p ''monthly_income'') props = map (\<lambda>v. Some (JInt v)) incs \<and>
     map (\<lambda>p. subscript p ''monthly_expenses'') props = map (\<lambda>v. Some (JInt v)) exps \<and>
     aggregate_portfolio_data user_id w =
       Some (\<lparr>statusCode = 200,
               body = JObj
                 [(''user_id'', user_id),
                  (''total_properties'', JInt 12),
                  (''total_value'', JInt (sum_list vals)),
                  (''total_monthly_income'', JInt (sum_list incs)),
                  (''total_monthly_expenses'', JInt (sum_list exps)),
                  (''net_monthly_income'', JInt (sum_list incs - sum_list exps)),
                  (''average_occupancy'', JFloat avg),
                  (''portfolio_roi'', JFloat roi),
                  (''properties'', JList props),
                  (''aggregation_date'', JStr date)]\<rparr>, w')"
proof -
  from portfolio_loop_inv [of "[1..<13]" "[]" 0 0 0 w]
  obtain props vals incs exps w1 where
    loop: "portfolio_loop [1..<13] ([], 0, 0, 0) w =
             ((props, sum_list vals, sum_list incs, sum_list exps), w1)"
    and len: "length props = 12"
    and fields: "map (\<lambda>p. subscript p ''current_value'') props = map (\<lambda>v. Some (JInt v)) vals"
      "map (\<lambda>p. subscript p ''monthly_income'') props = map (\<lambda>v. Some (JInt v)) incs"
      "map (\<lambda>p. subscript p ''monthly_expenses'') props = map (\<lambda>v. Some (JInt v)) exps"
    and occ: "\<forall>p\<in>set props. \<exists>r. subscript p ''occupancy_rate'' = Some (JFloat r)"
    and low: "\<forall>v\<in>set vals. 300000 \<le> v"
    by auto
  have "\<forall>p\<in>set props. \<exists>v n. subscript p ''occupancy_rate'' = Some v \<and> as_num v = Some n"
    using occ by fastforce
  from py_sum_numbers [OF this, of w]
  obtain s n where s: "py_sum w (\<lambda>p. subscript p ''occupancy_rate'') props = Some s"
    "as_num s = Some n"
    by blast
  from py_truediv_count [OF s(2), of 12 w]
  obtain q where avg: "py_truediv w s (JInt 12) = Some (JFloat q)"
    by auto
  have "length vals = 12"
    using fields(1) len by (metis length_map)
  then obtain v vs where "vals = v # vs"
    by (cases vals) auto
  moreover have "\<forall>v\<in>set vals. 0 \<le> v"
    using low by fastforce
  ultimately have pos: "sum_list vals \<noteq> 0"
    using low sum_list_nonneg [of vs] by fastforce
  show ?thesis
    apply (rule exI [of _ props], rule exI [of _ vals])
    apply (rule exI [of _ incs], rule exI [of _ exps], rule exI [of _ q])
    unfolding aggregate_portfolio_data_def loop
    using len fields pos
    by (simp add: s avg datetime_now_def)
qed

lemma aggregate_portfolio_data_ok:
  "\<exists>b w'. aggregate_portfolio_data user_id w = Some (\<lparr>statusCode = 200, body = b\<rparr>, w')"
  using aggregate_portfolio_data_eq [of user_id w] by blast

text \<open>
  C5. For every outcome of the sampling, the portfolio operation returns status 200 with
  12 property records; \<open>total_value\<close>, \<open>total_monthly_income\<close> and
  \<open>total_monthly_expenses\<close> are the sums of the records' \<open>current_value\<close>,
  \<open>monthly_income\<close> and \<open>monthly_expenses\<close>, and \<open>net_monthly_income\<close> is the
  income total minus the expenses total.
\<close>

theorem portfolio_totals:
  "\<exists>props vals incomes expenses b w'.
     aggregate_portfolio_data user_id w = Some (\<lparr>statusCode = 200, body = b\<rparr>, w') \<and>
     subscript b ''properties'' = Some (JList props) \<and> length props = 12 \<and>
     map (\<lambda>p. subscript p ''current_value'') props = map (\<lambda>v. Some (JInt v)) vals \<and>
     map (\<lambda>p. subscript p ''monthly_income'') props = map (\<lambda>v. Some (JInt v)) incomes \<and>
     map (\<lambda>p. subscript p ''monthly_expenses'') props = map (\<lambda>v. Some (JInt v)) expenses \<and>
     subscript b ''total_value'' = Some (JInt (sum_list vals)) \<and>
     subscript b ''total_monthly_income'' = Some (JInt (sum_list incomes)) \<and>
     subscript b ''total_monthly_expenses'' = Some (JInt (sum_list expenses)) \<and>
     subscript b ''net_monthly_income'' = Some (JInt (sum_list incomes - sum_list expenses))"
proof -
  from aggregate_portfolio_data_eq [of user_id w]
  obtain props vals incs exps avg roi date w' where
    len: "length props = 12"
    and fields: "map (\<lambda>p. subscript p ''current_value'') props = map (\<lambda>v. Some (JInt v)) vals"
      "map (\<lambda>p. subscript p ''monthly_income'') props = map (\<lambda>v. Some (JInt v)) incs"
      "map (\<lambda>p. subscript p ''monthly_expenses'') props = map (\<lambda>v. Some (JInt v)) exps"
    and result: "aggregate_portfolio_data user_id w =
       Some (\<lparr>statusCode = 200,
               body = JObj
                 [(''user_id'', user_id),
                  (''total_properties'', JInt 12),
                  (''total_value'', JInt (sum_list vals)),
                  (''total_monthly_income'', JInt (sum_list incs)),
                  (''total_monthly_expenses'', JInt (sum_list exps)),
                  (''net_monthly_income'', JInt (sum_list incs - sum_list exps)),
                  (''average_occupancy'', JFloat avg),
                  (''portfolio_roi'', JFloat roi),
                  (''properties'', JList props),
                  (''aggregation_date'', JStr date)]\<rparr>, w')"
    by blast
  show ?thesis
    apply (rule exI [of _ props], rule exI [of _ vals])
    apply (rule exI [of _ incs], rule exI [of _ exps])
    using len fields by (simp add: result)
qed

section \<open>Cash-flow aggregation\<close>

lemma cashflow_step_inv:
  "\<exists>item net r ot mo ma pt ins ut mg w'.
     cashflow_step m items w = (items @ [item], w') \<and>
     subscript item ''income'' = Some (JObj [(''rental'', JInt r), (''other'', JInt ot)]) \<and>
     subscript item ''expenses'' =
       Some (JObj [(''mortgage'', JInt mo), (''maintenance'', JInt ma),
                   (''property_tax'', JInt pt), (''insurance'', JInt ins),
                   (''utilities'', JInt ut), (''management'', JInt mg)]) \<and>
     net = r - (mo + ma + pt + ins + ut + mg) \<and>
     subscript item ''net_cashflow'' = Some (JInt net) \<and>
     subscript item ''cumulative_cashflow'' = Some (JInt (net * (int m + 1)))"
  by (simp add: cashflow_step_def split_def Let_def)

lemma item_income_ok:
  "subscript item ''income'' = Some (JObj [(''rental'', JInt r), (''other'', JInt ot)])
     \<Longrightarrow> item_income w item = Some (JInt (r + ot))"
  by (simp add: item_income_def)

lemma item_expenses_ok:
  "subscript item ''expenses'' =
       Some (JObj [(''mortgage'', JInt mo), (''maintenance'', JInt ma),
                   (''property_tax'', JInt pt), (''insurance'', JInt ins),
                   (''utilities'', JInt ut), (''management'', JInt mg)])
     \<Longrightarrow> item_expenses w item = Some (JInt (mo + ma + pt + ins + ut + mg))"
  by (simp add: item_expenses_def)

lemma cashflow_loop_inv:
  "\<exists>new nets incs exps w'.
     cashflow_loop ns items w = (items @ new, w') \<and>
     length nets = length ns \<and>
     map (\<lambda>m. subscript m ''net_cashflow'') new = map (\<lambda>n. Some (JInt n)) nets \<and>
     map (\<lambda>m. subscript m ''cumulative_cashflow'') new =
       map (\<lambda>(n, i). Some (JInt (n * (int i + 1)))) (zip nets ns) \<and>
     map (item_income w0) new = map (\<lambda>n. Some (JInt n)) incs \<and>
     map (item_expenses w0) new = map (\<lambda>n. Some (JInt n)) exps"
proof (induction ns arbitrary: items w)
  case Nil
  show ?case
    by (rule exI [of _ "[]"], rule exI [of _ "[]"], rule exI [of _ "[]"], rule exI [of _ "[]"])
       simp
next
  case (Cons m ns)
  from cashflow_step_inv [of m items w]
  obtain item net r ot mo ma pt ins ut mg w1 where
    step: "cashflow_step m items w = (items @ [item], w1)"
    and inc: "subscript item ''income'' = Some (JObj [(''rental'', JInt r), (''other'', JInt ot)])"
    and ex: "subscript item ''expenses'' =
       Some (JObj [(''mortgage'', JInt mo), (''maintenance'', JInt ma),
                   (''property_tax'', JInt pt), (''insurance'', JInt ins),
                   (''utilities'', JInt ut), (''management'', JInt mg)])"
    and net: "subscript item ''net_cashflow'' = Some (JInt net)"
      "subscript item ''cumulative_cashflow'' = Some (JInt (net * (int m + 1)))"
    by blast
  from Cons.IH [of "items @ [item]" w1]
  obtain new nets incs exps w' where
    loop: "cashflow_loop ns (items @ [item]) w1 = ((items @ [item]) @ new, w')"
    and inv: "length nets = length ns"
      "map (\<lambda>m. subscript m ''net_cashflow'') new = map (\<lambda>n. Some (JInt n)) nets"
      "map (\<lambda>m. subscript m ''cumulative_cashflow'') new =
         map (\<lambda>(n, i). Some (JInt (n * (int i + 1)))) (zip nets ns)"
      "map (item_income w0) new = map (\<lambda>n. Some (JInt n)) incs"
      "map (item_expenses w0) new = map (\<lambda>n. Some (JInt n)) exps"
    by blast
  show ?case
    apply (rule exI [of _ "item # new"], rule exI [of _ "net # nets"])
    apply (rule exI [of _ "(r + ot) # incs"])
    apply (rule exI [of _ "(mo + ma + pt + ins + ut + mg) # exps"], rule exI [of _ w'])
    using net inv by (simp add: step loop item_income_ok [OF inc] item_expenses_ok [OF ex])
qed

lemma zip_upt6:
  "length (nets :: int list) = 6 \<Longrightarrow>
   map (\<lambda>(n, i). f n i) (zip nets [0..<6]) = map (\<lambda>i. f (nets ! i) i) [0..<6]"
  by (rule nth_equalityI) auto

lemma cashflow_summary_fields:
  "\<exists>items nets b w'.
     aggregate_cashflow_data user_id w = Some (\<lparr>statusCode = 200, body = b\<rparr>, w') \<and>
     subscript b ''cashflow_summary'' = Some (JList items) \<and>
     length nets = 6 \<and>
     map (\<lambda>m. subscript m ''net_cashflow'') items = map (\<lambda>n. Some (JInt n)) nets \<and>
     map (\<lambda>m. subscript m ''cumulative_cashflow'') items =
       map (\<lambda>i. Some (JInt (nets ! i * (int i + 1)))) [0..<6] \<and>
     subscript b ''net_cashflow_ytd'' = Some (JInt (sum_list nets))"
proof -
  from cashflow_loop_inv [of "[0..<6]" "[]" w w]
  obtain items nets incs exps w1 where
    loop: "cashflow_loop [0..<6] [] w = (items, w1)"
    and len: "length nets = 6"
    and nets: "map (\<lambda>m. subscript m ''net_cashflow'') items = map (\<lambda>n. Some (JInt n)) nets"
    and cum: "map (\<lambda>m. subscript m ''cumulative_cashflow'') items =
         map (\<lambda>(n, i). Some (JInt (n * (int i + 1)))) (zip nets [0..<6])"
    and inc: "map (item_income w) items = map (\<lambda>n. Some (JInt n)) incs"
    and ex: "map (item_expenses w) items = map (\<lambda>n. Some (JInt n)) exps"
    by auto
  have li: "length items = 6"
    using nets len by (metis length_map)
  have s1: "py_sum w (item_income w) items = Some (JInt (sum_list incs))"
    using inc by (rule py_sum_ints)
  have s2: "py_sum w (item_expenses w) items = Some (JInt (sum_list exps))"
    using ex by (rule py_sum_ints)
  have s3: "py_sum w (\<lambda>item. subscript item ''net_cashflow'') items = Some (JInt (sum_list nets))"
    using nets by (rule py_sum_ints)
  have cum': "map (\<lambda>m. subscript m ''cumulative_cashflow'') items =
       map (\<lambda>i. Some (JInt (nets ! i * (int i + 1)))) [0..<6]"
    using cum zip_upt6 [OF len, of "\<lambda>n i. Some (JInt (n * (int i + 1)))"] by simp
  show ?thesis
    apply (rule exI [of _ items], rule exI [of _ nets])
    unfolding aggregate_cashflow_data_def loop
    using len nets cum' li
    by (simp add: s1 s2 s3 py_truediv_def datetime_now_def)
qed

lemma aggregate_cashflow_data_ok:
  "\<exists>b w'. aggregate_cashflow_data user_id w = Some (\<lparr>statusCode = 200, body = b\<rparr>, w')"
  using cashflow_summary_fields [of user_id w] by blast

text \<open>
  The operation at \<open>sample_world\<close>: the first month has rental income 40000, other
  income 7 and expenses of 30521 in all; the second month's net cash flow is 9439.
\<close>

lemma cashflow_at_sample:
  "\<exists>items b w'.
     aggregate_cashflow_data (JStr ''1'') sample_world =
       Some (\<lparr>statusCode = 200, body = b\<rparr>, w') \<and>
     subscript b ''cashflow_summary'' = Some (JList items) \<and>
     subscript (items ! 0) ''income'' =
       Some (JObj [(''rental'', JInt 40000), (''other'', JInt 7)]) \<and>
     subscript (items ! 0) ''expenses'' =
       Some (JObj [(''mortgage'', JInt 20001), (''maintenance'', JInt 2002),
                   (''property_tax'', JInt 3003), (''insurance'', JInt 1504),
                   (''utilities'', JInt 1005), (''management'', JInt 3006)]) \<and>
     subscript (items ! 0) ''net_cashflow'' = Some (JInt 9479) \<and>
     subscript (items ! 1) ''net_cashflow'' = Some (JInt 9439) \<and>
     subscript (items ! 1) ''cumulative_cashflow'' = Some (JInt 18878)"
  by (simp add: aggregate_cashflow_data_def upt_rec cashflow_step_def sample_world_def
      randint_def raw_draw_def datetime_now_def py_sum_def item_income_def item_expenses_def
      py_truediv_def)

text \<open>
  C4. For every outcome of the sampling and every month index \<open>i\<close> from 0 to 5, the
  month's \<open>cumulative_cashflow\<close> is that month's \<open>net_cashflow\<close> times \<open>i + 1\<close>.
  It is not a running sum: at \<open>sample_world\<close> the second month's cumulative value is
  18878, while the net cash flows of the first two months add up to 18918.
\<close>

theorem cumulative_cashflow_is_scaled_net:
  "(\<exists>items nets b w'.
      aggregate_cashflow_data user_id w = Some (\<lparr>statusCode = 200, body = b\<rparr>, w') \<and>
      subscript b ''cashflow_summary'' = Some (JList items) \<and>
      length nets = 6 \<and>
      map (\<lambda>m. subscript m ''net_cashflow'') items = map (\<lambda>n. Some (JInt n)) nets \<and>
      map (\<lambda>m. subscript m ''cumulative_cashflow'') items =
        map (\<lambda>i. Some (JInt (nets ! i * (int i + 1)))) [0..<6]) \<and>
   (\<exists>items b w'.
      aggregate_cashflow_data (JStr ''1'') sample_world =
        Some (\<lparr>statusCode = 200, body = b\<rparr>, w') \<and>
      subscript b ''cashflow_summary'' = Some (JList items) \<and>
      subscript (items ! 0) ''net_cashflow'' = Some (JInt 9479) \<and>
      subscript (items ! 1) ''net_cashflow'' = Some (JInt 9439) \<and>
      subscript (items ! 1) ''cumulative_cashflow'' = Some (JInt 18878) \<and>
      (18878 :: int) \<noteq> 9479 + 9439)"
proof
  from cashflow_summary_fields [of user_id w]
  show "\<exists>items nets b w'.
      aggregate_cashflow_data user_id w = Some (\<lparr>statusCode = 200, body = b\<rparr>, w') \<and>
      subscript b ''cashflow_summary'' = Some (JList items) \<and>
      length nets = 6 \<and>
      map (\<lambda>m. subscript m ''net_cashflow'') items = map (\<lambda>n. Some (JInt n)) nets \<and>
      map (\<lambda>m. subscript m ''cumulative_cashflow'') items =
        map (\<lambda>i. Some (JInt (nets ! i * (int i + 1)))) [0..<6]"
    by blast
next
  from cashflow_at_sample
  obtain items b w' where
    "aggregate_cashflow_data (JStr ''1'') sample_world =
        Some (\<lparr>statusCode = 200, body = b\<rparr>, w')"
    "subscript b ''cashflow_summary'' = Some (JList items)"
    "subscript (items ! 0) ''net_cashflow'' = Some (JInt 9479)"
    "subscript (items ! 1) ''net_cashflow'' = Some (JInt 9439)"
    "subscript (items ! 1) ''cumulative_cashflow'' = Some (JInt 18878)"
    by blast
  then show "\<exists>items b w'.
      aggregate_cashflow_data (JStr ''1'') sample_world =
        Some (\<lparr>statusCode = 200, body = b\<rparr>, w') \<and>
      subscript b ''cashflow_summary'' = Some (JList items) \<and>
      subscript (items ! 0) ''net_cashflow'' = Some (JInt 9479) \<and>
      subscript (items ! 1) ''net_cashflow'' = Some (JInt 9439) \<and>
      subscript (items ! 1) ''cumulative_cashflow'' = Some (JInt 18878) \<and>
      (18878 :: int) \<noteq> 9479 + 9439"
    by simp
qed

text \<open>
  C2. The claim asks that a month's \<open>net_cashflow\<close> be \<open>income.rental + income.other\<close>
  minus the six expenses. The code subtracts the expenses from the rental income alone:
  at \<open>sample_world\<close> the first month has rental income 40000, other income 7 and
  expenses adding up to 30521, and its \<open>net_cashflow\<close> is 9479, not 9486. The
  year-to-date income total of the same response does count the other income (40007 for
  this month).
\<close>

theorem net_cashflow_leaves_out_other_income:
  "\<exists>items b w'.
     aggregate_cashflow_data (JStr ''1'') sample_world =
       Some (\<lparr>statusCode = 200, body = b\<rparr>, w') \<and>
     subscript b ''cashflow_summary'' = Some (JList items) \<and>
     subscript (items ! 0) ''income'' =
       Some (JObj [(''rental'', JInt 40000), (''other'', JInt 7)]) \<and>
     subscript (items ! 0) ''expenses'' =
       Some (JObj [(''mortgage'', JInt 20001), (''maintenance'', JInt 2002),
                   (''property_tax'', JInt 3003), (''insurance'', JInt 1504),
                   (''utilities'', JInt 1005), (''management'', JInt 3006)]) \<and>
     subscript (items ! 0) ''net_cashflow'' = Some (JInt 9479) \<and>
     item_income sample_world (items ! 0) = Some (JInt 40007) \<and>
     (9479 :: int) \<noteq> 40000 + 7 - (20001 + 2002 + 3003 + 1504 + 1005 + 3006)"
proof -
  from cashflow_at_sample
  obtain items b w' where
    "aggregate_cashflow_data (JStr ''1'') sample_world =
        Some (\<lparr>statusCode = 200, body = b\<rparr>, w')"
    "subscript b ''cashflow_summary'' = Some (JList items)"
    and inc: "subscript (items ! 0) ''income'' =
       Some (JObj [(''rental'', JInt 40000), (''other'', JInt 7)])"
    and rest: "subscript (items ! 0) ''expenses'' =
       Some (JObj [(''mortgage'', JInt 20001), (''maintenance'', JInt 2002),
                   (''property_tax'', JInt 3003), (''insurance'', JInt 1504),
                   (''utilities'', JInt 1005), (''management'', JInt 3006)])"
    "subscript (items ! 0) ''net_cashflow'' = Some (JInt 9479)"
    by blast
  moreover have "item_income sample_world (items ! 0) = Some (JInt 40007)"
    using item_income_ok [OF inc, of sample_world] by simp
  ultimately show ?thesis
    by simp
qed

section \<open>Maintenance aggregation\<close>

lemma choice_mem: "xs \<noteq> [] \<Longrightarrow> fst (choice xs w) \<in> set xs"
  by (simp add: choice_def raw_draw_def)

lemma maintenance_step_inv:
  "\<exists>item ty c w'.
     maintenance_step i items w = (items @ [item], w') \<and>
     subscript item ''type'' = Some (JStr ty) \<and>
     ty \<in> {''Routine'', ''Emergency'', ''Preventive'', ''Upgrade''} \<and>
     subscript item ''cost'' = Some (JInt c)"
proof -
  have "fst (choice [''Routine'', ''Emergency'', ''Preventive'', ''Upgrade''] w3)
          \<in> {''Routine'', ''Emergency'', ''Preventive'', ''Upgrade''}" for w3
    using choice_mem [of "[''Routine'', ''Emergency'', ''Preventive'', ''Upgrade'']" w3]
    by simp
  then show ?thesis
    by (simp add: maintenance_step_def split_def Let_def)
qed

lemma maintenance_loop_inv:
  "\<exists>new costs w'.
     maintenance_loop ns items w = (items @ new, w') \<and>
     length new = length ns \<and>
     map (\<lambda>m. subscript m ''cost'') new = map (\<lambda>c. Some (JInt c)) costs \<and>
     (\<forall>m\<in>set new. \<exists>ty. subscript m ''type'' = Some (JStr ty) \<and>
        ty \<in> {''Routine'', ''Emergency'', ''Preventive'', ''Upgrade''})"
proof (induction ns arbitrary: items w)
  case Nil
  show ?case
    by (rule exI [of _ "[]"], rule exI [of _ "[]"]) simp
next
  case (Cons i ns)
  from maintenance_step_inv [of i items w]
  obtain item ty c w1 where
    step: "maintenance_step i items w = (items @ [item], w1)"
    and item: "subscript item ''type'' = Some (JStr ty)"
      "ty \<in> {''Routine'', ''Emergency'', ''Preventive'', ''Upgrade''}"
      "subscript item ''cost'' = Some (JInt c)"
    by blast
  from Cons.IH [of "items @ [item]" w1]
  obtain new costs w' where
    loop: "maintenance_loop ns (items @ [item]) w1 = ((items @ [item]) @ new, w')"
    and inv: "length new = length ns"
      "map (\<lambda>m. subscript m ''cost'') new = map (\<lambda>c. Some (JInt c)) costs"
      "\<forall>m\<in>set new. \<exists>ty. subscript m ''type'' = Some (JStr ty) \<and>
        ty \<in> {''Routine'', ''Emergency'', ''Preventive'', ''Upgrade''}"
    by blast
  show ?case
    apply (rule exI [of _ "item # new"], rule exI [of _ "c # costs"], rule exI [of _ w'])
    using item inv by (simp add: step loop)
qed

lemma count_type_eq:
  "\<forall>m\<in>set items. \<exists>ty. subscript m ''type'' = Some (JStr ty) \<Longrightarrow>
   count_type t items =
     Some (JInt (int (length (filter (\<lambda>m. subscript m ''type'' = Some (JStr t)) items))))"
proof -
  assume typed: "\<forall>m\<in>set items. \<exists>ty. subscript m ''type'' = Some (JStr ty)"
  then have "py_filter (\<lambda>m. do { ty \<leftarrow> subscript m ''type''; Some (ty = JStr t) }) items =
      Some (filter (\<lambda>m. subscript m ''type'' = Some (JStr t)) items)"
    by (induction items) auto
  then show ?thesis
    by (simp add: count_type_def)
qed

lemma four_types_partition:
  "\<forall>m\<in>set items. \<exists>ty. subscript m ''type'' = Some (JStr ty) \<and>
        ty \<in> {''Routine'', ''Emergency'', ''Preventive'', ''Upgrade''} \<Longrightarrow>
   length (filter (\<lambda>m. subscript m ''type'' = Some (JStr ''Routine'')) items) +
   length (filter (\<lambda>m. subscript m ''type'' = Some (JStr ''Emergency'')) items) +
   length (filter (\<lambda>m. subscript m ''type'' = Some (JStr ''Preventive'')) items) +
   length (filter (\<lambda>m. subscript m ''type'' = Some (JStr ''Upgrade'')) items) = length items"
  by (induction items) auto

lemma aggregate_maintenance_data_eq:
  "\<exists>items total avg upcoming date w'.
     length items = 20 \<and>
     (\<forall>m\<in>set items. \<exists>ty. subscript m ''type'' = Some (JStr ty) \<and>
        ty \<in> {''Routine'', ''Emergency'', ''Preventive'', ''Upgrade''}) \<and>
     aggregate_maintenance_data user_id w =
       Some (\<lparr>statusCode = 200,
               body = JObj
                 [(''user_id'', user_id),
                  (''maintenance_items'', JList items),
                  (''total_maintenance_cost'', JInt total),
                  (''average_cost_per_item'', JFloat avg),
                  (''maintenance_by_type'', JObj
                     [(''Routine'', JInt (int (length (filter
                         (\<lambda>m. subscript m ''type'' = Some (JStr ''Routine'')) items)))),
                      (''Emergency'', JInt (int (length (filter
                         (\<lambda>m. subscript m ''type'' = Some (JStr ''Emergency'')) items)))),
                      (''Preventive'', JInt (int (length (filter
                         (\<lambda>m. subscript m ''type'' = Some (JStr ''Preventive'')) items)))),
                      (''Upgrade'', JInt (int (length (filter
                         (\<lambda>m. subscript m ''type'' = Some (JStr ''Upgrade'')) items))))]),
                  (''upcoming_maintenance'', JInt upcoming),
                  (''aggregation_date'', JStr date)]\<rparr>, w')"
proof -
  from maintenance_loop_inv [of "[0..<20]" "[]" w]
  obtain items costs w1 where
    loop: "maintenance_loop [0..<20] [] w = (items, w1)"
    and len: "length items = 20"
    and costs: "map (\<lambda>m. subscript m ''cost'') items = map (\<lambda>c. Some (JInt c)) costs"
    and types: "\<forall>m\<in>set items. \<exists>ty. subscript m ''type'' = Some (JStr ty) \<and>
        ty \<in> {''Routine'', ''Emergency'', ''Preventive'', ''Upgrade''}"
    by auto
  have typed: "\<forall>m\<in>set items. \<exists>ty. subscript m ''type'' = Some (JStr ty)"
    using types by blast
  have total: "py_sum w (\<lambda>item. subscript item ''cost'') items = Some (JInt (sum_list costs))"
    using costs by (rule py_sum_ints)
  show ?thesis
    apply (rule exI [of _ items], rule exI [of _ "sum_list costs"])
    apply (rule exI [of _ "rnd w (of_int (sum_list costs) / 20)"])
    unfolding aggregate_maintenance_data_def loop
    using len types
    by (simp add: total count_type_eq [OF typed] py_truediv_def randint_def raw_draw_def
        datetime_now_def)
qed

lemma aggregate_maintenance_data_ok:
  "\<exists>b w'. aggregate_maintenance_data user_id w = Some (\<lparr>statusCode = 200, body = b\<rparr>, w')"
  using aggregate_maintenance_data_eq [of user_id w] by blast

text \<open>
  C6. For every outcome of the sampling, the maintenance operation returns status 200
  with 20 records; \<open>maintenance_by_type\<close> has exactly the four keys Routine,
  Emergency, Preventive and Upgrade, each holding the number of records of that type (0
  when no record has it), and the four counts add up to 20.
\<close>

theorem maintenance_counts_sum_to_20:
  "\<exists>items r e p u b w'.
     aggregate_maintenance_data user_id w = Some (\<lparr>statusCode = 200, body = b\<rparr>, w') \<and>
     subscript b ''maintenance_items'' = Some (JList items) \<and> length items = 20 \<and>
     subscript b ''maintenance_by_type'' =
       Some (JObj [(''Routine'', JInt r), (''Emergency'', JInt e),
                   (''Preventive'', JInt p), (''Upgrade'', JInt u)]) \<and>
     r = int (length (filter (\<lambda>m. subscript m ''type'' = Some (JStr ''Routine'')) items)) \<and>
     e = int (length (filter (\<lambda>m. subscript m ''type'' = Some (JStr ''Emergency'')) items)) \<and>
     p = int (length (filter (\<lambda>m. subscript m ''type'' = Some (JStr ''Preventive'')) items)) \<and>
     u = int (length (filter (\<lambda>m. subscript m ''type'' = Some (JStr ''Upgrade'')) items)) \<and>
     r + e + p + u = 20"
proof -
  from aggregate_maintenance_data_eq [of user_id w]
  obtain items total avg upcoming date w' where
    len: "length items = 20"
    and types: "\<forall>m\<in>set items. \<exists>ty. subscript m ''type'' = Some (JStr ty) \<and>
        ty \<in> {''Routine'', ''Emergency'', ''Preventive'', ''Upgrade''}"
    and result: "aggregate_maintenance_data user_id w =
       Some (\<lparr>statusCode = 200,
               body = JObj
                 [(''user_id'', user_id),
                  (''maintenance_items'', JList items),
                  (''total_maintenance_cost'', JInt total),
                  (''average_cost_per_item'', JFloat avg),
                  (''maintenance_by_type'', JObj
                     [(''Routine'', JInt (int (length (filter
                         (\<lambda>m. subscript m ''type'' = Some (JStr ''Routine'')) items)))),
                      (''Emergency'', JInt (int (length (filter
                         (\<lambda>m. subscript m ''type'' = Some (JStr ''Emergency'')) items)))),
                      (''Preventive'', JInt (int (length (filter
                         (\<lambda>m. subscript m ''type'' = Some (JStr ''Preventive'')) items)))),
                      (''Upgrade'', JInt (int (length (filter
                         (\<lambda>m. subscript m ''type'' = Some (JStr ''Upgrade'')) items))))]),
                  (''upcoming_maintenance'', JInt upcoming),
                  (''aggregation_date'', JStr date)]\<rparr>, w')"
    by blast
  have part: "int (length (filter (\<lambda>m. subscript m ''type'' = Some (JStr ''Routine'')) items)) +
      int (length (filter (\<lambda>m. subscript m ''type'' = Some (JStr ''Emergency'')) items)) +
      int (length (filter (\<lambda>m. subscript m ''type'' = Some (JStr ''Preventive'')) items)) +
      int (length (filter (\<lambda>m. subscript m ''type'' = Some (JStr ''Upgrade'')) items)) = 20"
    using four_types_partition [OF types] len by linarith
  show ?thesis
    apply (rule exI [of _ items])
    using len part by (simp add: result)
qed

section \<open>The dispatchers\<close>

lemma valuation_handler_unrecognized:
  "dict_get event ''analysis_type'' (JStr ''valuation'')
      \<notin> {JStr ''valuation'', JStr ''market_analysis'', JStr ''prediction''} \<Longrightarrow>
   property_valuation_lambda_handler event w =
     Some (\<lparr>statusCode = 400, body = JObj [(''error'', JStr ''Invalid analysis type'')]\<rparr>, w)"
  by (simp add: property_valuation_lambda_handler_def Let_def)

lemma valuation_handler_recognized:
  "dict_get event ''analysis_type'' (JStr ''valuation'')
      \<in> {JStr ''valuation'', JStr ''market_analysis'', JStr ''prediction''} \<Longrightarrow>
   \<exists>b w'. property_valuation_lambda_handler event w =
             Some (\<lparr>statusCode = 200, body = b\<rparr>, w') \<and>
           subscript b ''property_id'' = Some (dict_get event ''property_id'' JNull)"
  using property_valuation_ok [of "dict_get event ''property_id'' JNull" w]
    market_analysis_ok [of "dict_get event ''property_id'' JNull" w]
    value_prediction_ok [of "dict_get event ''property_id'' JNull" w]
  by (auto simp: property_valuation_lambda_handler_def Let_def)

lemma aggregation_handler_unrecognized:
  "dict_get event ''type'' (JStr ''portfolio'')
      \<notin> {JStr ''portfolio'', JStr ''performance'', JStr ''cashflow'', JStr ''maintenance''} \<Longrightarrow>
   data_aggregation_lambda_handler event w =
     Some (\<lparr>statusCode = 400, body = JObj [(''error'', JStr ''Invalid aggregation type'')]\<rparr>, w)"
  by (simp add: data_aggregation_lambda_handler_def Let_def)

lemma aggregation_handler_recognized:
  "dict_get event ''type'' (JStr ''portfolio'')
      \<in> {JStr ''portfolio'', JStr ''performance'', JStr ''cashflow'', JStr ''maintenance''} \<Longrightarrow>
   \<exists>b w'. data_aggregation_lambda_handler event w =
             Some (\<lparr>statusCode = 200, body = b\<rparr>, w')"
  using aggregate_portfolio_data_ok [of "dict_get event ''user_id'' (JStr ''1'')" w]
    aggregate_performance_metrics_ok [of "dict_get event ''user_id'' (JStr ''1'')" w]
    aggregate_cashflow_data_ok [of "dict_get event ''user_id'' (JStr ''1'')" w]
    aggregate_maintenance_data_ok [of "dict_get event ''user_id'' (JStr ''1'')" w]
  by (auto simp: data_aggregation_lambda_handler_def Let_def)

text \<open>
  C7. A request whose selector (after the default is applied) is none of the recognised
  values gets status 400, the runtime untouched, and a body that holds an \<open>error\<close>
  string and nothing else; for module \<^verbatim>\<open>property_valuation\<close> the body is
  \<^verbatim>\<open>{"error": "Invalid analysis type"}\<close>. A request with a recognised selector
  gets status 200 from either dispatcher.
\<close>

theorem dispatcher_status_codes:
  "(dict_get event ''analysis_type'' (JStr ''valuation'')
       \<notin> {JStr ''valuation'', JStr ''market_analysis'', JStr ''prediction''} \<longrightarrow>
     property_valuation_lambda_handler event w =
       Some (\<lparr>statusCode = 400, body = JObj [(''error'', JStr ''Invalid analysis type'')]\<rparr>, w)) \<and>
   (dict_get event ''analysis_type'' (JStr ''valuation'')
       \<in> {JStr ''valuation'', JStr ''market_analysis'', JStr ''prediction''} \<longrightarrow>
     (\<exists>b w'. property_valuation_lambda_handler event w =
               Some (\<lparr>statusCode = 200, body = b\<rparr>, w'))) \<and>
   (dict_get event ''type'' (JStr ''portfolio'')
       \<notin> {JStr ''portfolio'', JStr ''performance'', JStr ''cashflow'', JStr ''maintenance''} \<longrightarrow>
     (\<exists>msg. data_aggregation_lambda_handler event w =
              Some (\<lparr>statusCode = 400, body = JObj [(''error'', JStr msg)]\<rparr>, w))) \<and>
   (dict_get event ''type'' (JStr ''portfolio'')
       \<in> {JStr ''portfolio'', JStr ''performance'', JStr ''cashflow'', JStr ''maintenance''} \<longrightarrow>
     (\<exists>b w'. data_aggregation_lambda_handler event w =
               Some (\<lparr>statusCode = 200, body = b\<rparr>, w')))"
  using valuation_handler_unrecognized [of event w] valuation_handler_recognized [of event w]
    aggregation_handler_unrecognized [of event w] aggregation_handler_recognized [of event w]
  by blast

theorem dispatcher_status_codes_witness:
  "property_valuation_lambda_handler
     [''analysis_type'' \<mapsto> JStr ''bogus'', ''type'' \<mapsto> JStr ''bogus''] sample_world =
     Some (\<lparr>statusCode = 400, body = JObj [(''error'', JStr ''Invalid analysis type'')]\<rparr>,
           sample_world) \<and>
   (\<exists>b w'. property_valuation_lambda_handler Map.empty sample_world =
             Some (\<lparr>statusCode = 200, body = b\<rparr>, w')) \<and>
   (\<exists>msg. data_aggregation_lambda_handler
            [''analysis_type'' \<mapsto> JStr ''bogus'', ''type'' \<mapsto> JStr ''bogus''] sample_world =
            Some (\<lparr>statusCode = 400, body = JObj [(''error'', JStr msg)]\<rparr>, sample_world)) \<and>
   (\<exists>b w'. data_aggregation_lambda_handler Map.empty sample_world =
             Some (\<lparr>statusCode = 200, body = b\<rparr>, w'))"
  using dispatcher_status_codes
      [of "[''analysis_type'' \<mapsto> JStr ''bogus'', ''type'' \<mapsto> JStr ''bogus'']" sample_world]
    dispatcher_status_codes [of Map.empty sample_world]
  by (simp add: dict_get_def)

text \<open>
  C9. With an unrecognised \<open>type\<close>, the dispatcher of module
  \<^verbatim>\<open>data_aggregation\<close> answers 400 with the body
  \<^verbatim>\<open>{"error": "Invalid aggregation type"}\<close>. The error envelope of the other
  dispatcher is the same envelope with the other message in its body, and the two differ.
\<close>

theorem aggregation_error_envelope:
  "dict_get event ''type'' (JStr ''portfolio'')
      \<notin> {JStr ''portfolio'', JStr ''performance'', JStr ''cashflow'', JStr ''maintenance''} \<Longrightarrow>
   dict_get event' ''analysis_type'' (JStr ''valuation'')
      \<notin> {JStr ''valuation'', JStr ''market_analysis'', JStr ''prediction''} \<Longrightarrow>
   \<exists>ra rb.
     data_aggregation_lambda_handler event w = Some (ra, w) \<and>
     property_valuation_lambda_handler event' w' = Some (rb, w') \<and>
     ra = \<lparr>statusCode = 400, body = JObj [(''error'', JStr ''Invalid aggregation type'')]\<rparr> \<and>
     rb = ra\<lparr>body := JObj [(''error'', JStr ''Invalid analysis type'')]\<rparr> \<and>
     ra \<noteq> rb"
  using aggregation_handler_unrecognized [of event w]
    valuation_handler_unrecognized [of event' w']
  by simp

theorem aggregation_error_envelope_witness:
  "\<exists>ra rb.
     data_aggregation_lambda_handler [''type'' \<mapsto> JStr ''bogus''] sample_world =
       Some (ra, sample_world) \<and>
     property_valuation_lambda_handler [''analysis_type'' \<mapsto> JStr ''bogus''] flat_world =
       Some (rb, flat_world) \<and>
     ra = \<lparr>statusCode = 400, body = JObj [(''error'', JStr ''Invalid aggregation type'')]\<rparr> \<and>
     rb = ra\<lparr>body := JObj [(''error'', JStr ''Invalid analysis type'')]\<rparr> \<and>
     ra \<noteq> rb"
  using aggregation_error_envelope
      [of "[''type'' \<mapsto> JStr ''bogus'']" "[''analysis_type'' \<mapsto> JStr ''bogus'']"
          sample_world flat_world]
  by (simp add: dict_get_def)

text \<open>
  C10. When the request has no \<open>property_id\<close> and its selector is one of the three
  recognised values, the dispatcher of module \<^verbatim>\<open>property_valuation\<close> answers 200
  and the body's \<open>property_id\<close> is Python's \<^verbatim>\<open>None\<close>.
\<close>

theorem missing_property_id_is_null:
  "event ''property_id'' = None \<Longrightarrow>
   dict_get event ''analysis_type'' (JStr ''valuation'')
      \<in> {JStr ''valuation'', JStr ''market_analysis'', JStr ''prediction''} \<Longrightarrow>
   \<exists>b w'. property_valuation_lambda_handler event w =
             Some (\<lparr>statusCode = 200, body = b\<rparr>, w') \<and>
           subscript b ''property_id'' = Some JNull"
  using valuation_handler_recognized [of event w]
  by (simp add: dict_get_def)

theorem missing_property_id_is_null_witness:
  "(\<exists>b w'. property_valuation_lambda_handler [''analysis_type'' \<mapsto> JStr ''valuation'']
              sample_world = Some (\<lparr>statusCode = 200, body = b\<rparr>, w') \<and>
            subscript b ''property_id'' = Some JNull) \<and>
   (\<exists>b w'. property_valuation_lambda_handler [''analysis_type'' \<mapsto> JStr ''market_analysis'']
              sample_world = Some (\<lparr>statusCode = 200, body = b\<rparr>, w') \<and>
            subscript b ''property_id'' = Some JNull) \<and>
   (\<exists>b w'. property_valuation_lambda_handler [''analysis_type'' \<mapsto> JStr ''prediction'']
              sample_world = Some (\<lparr>statusCode = 200, body = b\<rparr>, w') \<and>
            subscript b ''property_id'' = Some JNull) \<and>
   (\<exists>b w'. property_valuation_lambda_handler Map.empty
              sample_world = Some (\<lparr>statusCode = 200, body = b\<rparr>, w') \<and>
            subscript b ''property_id'' = Some JNull)"
  using missing_property_id_is_null [of "[''analysis_type'' \<mapsto> JStr ''valuation'']" sample_world]
    missing_property_id_is_null [of "[''analysis_type'' \<mapsto> JStr ''market_analysis'']" sample_world]
    missing_property_id_is_null [of "[''analysis_type'' \<mapsto> JStr ''prediction'']" sample_world]
    missing_property_id_is_null [of Map.empty sample_world]
  by (simp add: dict_get_def)

section \<open>Value prediction\<close>

text \<open>Rounding to cents is monotone; in exact arithmetic it moves a value by at most half a cent.\<close>

lemma round_half_even_mono: "x \<le> y \<Longrightarrow> round_half_even x \<le> round_half_even y"
proof -
  assume xy: "x \<le> y"
  have fl: "\<lfloor>x\<rfloor> \<le> \<lfloor>y\<rfloor>"
    using xy by (rule floor_mono)
  show ?thesis
  proof (cases "\<lfloor>x\<rfloor> = \<lfloor>y\<rfloor>")
    case True
    then show ?thesis
      using xy by (auto simp: round_half_even_def Let_def)
  next
    case False
    with fl have lt: "\<lfloor>x\<rfloor> + 1 \<le> \<lfloor>y\<rfloor>"
      by simp
    have "round_half_even x \<le> \<lfloor>x\<rfloor> + 1"
      by (simp add: round_half_even_def Let_def)
    moreover have "\<lfloor>y\<rfloor> \<le> round_half_even y"
      by (simp add: round_half_even_def Let_def)
    ultimately show ?thesis
      using lt by linarith
  qed
qed

lemma py_round_mono: "x \<le> y \<Longrightarrow> py_round w x n \<le> py_round w y n"
proof -
  assume "x \<le> y"
  then have "x * 10 ^ n \<le> y * 10 ^ n"
    by (simp add: mult_right_mono)
  then have "round_half_even (x * 10 ^ n) \<le> round_half_even (y * 10 ^ n)"
    by (rule round_half_even_mono)
  then have "real_of_int (round_half_even (x * 10 ^ n)) / 10 ^ n
      \<le> real_of_int (round_half_even (y * 10 ^ n)) / 10 ^ n"
    by (simp add: divide_right_mono)
  then show ?thesis
    unfolding py_round_def by (rule rnd_mono)
qed

lemma round_half_even_near: "\<bar>of_int (round_half_even y) - y\<bar> \<le> 1 / 2"
proof -
  have "of_int \<lfloor>y\<rfloor> \<le> y" "y < of_int \<lfloor>y\<rfloor> + 1"
    by linarith+
  then show ?thesis
    by (auto simp: round_half_even_def Let_def)
qed

lemma py_round_2_near: "arith w = exact_arith \<Longrightarrow> \<bar>py_round w x 2 - x\<bar> \<le> 1 / 200"
proof -
  assume exact: "arith w = exact_arith"
  have "\<bar>of_int (round_half_even (x * 100)) - x * 100\<bar> \<le> 1 / 2"
    by (rule round_half_even_near)
  then show ?thesis
    by (simp add: py_round_def rnd_exact [OF exact] abs_le_iff field_simps)
qed

text \<open>The loop draws one growth rate per iteration, from consecutive positions of the generator.\<close>

lemma prediction_loop_eq:
  "prediction_loop cv [a..<b] preds w =
     (preds @ map (\<lambda>i. JObj
         [(''month'', JInt (int i)),
          (''predicted_value'', JFloat (py_round w
             (fmul w (float_of_int w cv)
                (fpow w (fadd w (float_of_int w 1)
                   (fst (uniform (PFloat (lit w (2 / 1000))) (PFloat (lit w (8 / 1000)))
                          (w\<lparr>rand_pos := rand_pos w + (i - a)\<rparr>)))) i)) 2)),
          (''confidence'', JFloat
             (max (fsub w (lit w (95 / 100))
                     (fmul w (float_of_int w (int i)) (lit w (5 / 100))))
                  (lit w (1 / 2))))]) [a..<b],
      w\<lparr>rand_pos := rand_pos w + (b - a)\<rparr>)"
proof (induction "b - a" arbitrary: a preds w)
  case 0
  then show ?case by simp
next
  case (Suc n)
  then have ab: "a < b" and n: "n = b - Suc a"
    by auto
  let ?entry = "\<lambda>w0 k i. JObj
         [(''month'', JInt (int i)),
          (''predicted_value'', JFloat (py_round w
             (fmul w (float_of_int w cv)
                (fpow w (fadd w (float_of_int w 1)
                   (fst (uniform (PFloat (lit w (2 / 1000))) (PFloat (lit w (8 / 1000)))
                          (w0\<lparr>rand_pos := rand_pos w0 + (i - k)\<rparr>)))) i)) 2)),
          (''confidence'', JFloat
             (max (fsub w (lit w (95 / 100))
                     (fmul w (float_of_int w (int i)) (lit w (5 / 100))))
                  (lit w (1 / 2))))]"
  let ?w1 = "w\<lparr>rand_pos := Suc (rand_pos w)\<rparr>"
  have upt: "[a..<b] = a # [Suc a..<b]"
    using ab by (rule upt_conv_Cons)
  have w0: "w\<lparr>rand_pos := rand_pos w + (a - a)\<rparr> = w"
    by simp
  have step: "prediction_step cv a preds w = (preds @ [?entry w a a], ?w1)"
    unfolding w0 by (simp add: prediction_step_def Let_def split_def uniform_snd)
  have ih: "prediction_loop cv [Suc a..<b] (preds @ [?entry w a a]) ?w1 =
      ((preds @ [?entry w a a]) @ map (?entry ?w1 (Suc a)) [Suc a..<b],
       ?w1\<lparr>rand_pos := rand_pos ?w1 + (b - Suc a)\<rparr>)"
    using Suc.hyps(1) [OF n, of "preds @ [?entry w a a]" ?w1]
    by (simp only: py_round_rand_pos fmul_rand_pos float_of_int_rand_pos fpow_rand_pos
        fadd_rand_pos lit_rand_pos fsub_rand_pos)
  have shift: "?w1\<lparr>rand_pos := rand_pos ?w1 + (i - Suc a)\<rparr> = w\<lparr>rand_pos := rand_pos w + (i - a)\<rparr>"
    if "Suc a \<le> i" for i
  proof -
    have "Suc (rand_pos w) + (i - Suc a) = rand_pos w + (i - a)"
      using that by arith
    then have "w\<lparr>rand_pos := Suc (rand_pos w) + (i - Suc a)\<rparr> = w\<lparr>rand_pos := rand_pos w + (i - a)\<rparr>"
      by (rule arg_cong)
    then show ?thesis
      by simp
  qed
  have m: "map (?entry ?w1 (Suc a)) [Suc a..<b] = map (?entry w a) [Suc a..<b]"
  proof (rule map_cong [OF refl])
    fix i assume "i \<in> set [Suc a..<b]"
    then have "Suc a \<le> i" by simp
    then show "?entry ?w1 (Suc a) i = ?entry w a i"
      by (simp only: shift)
  qed
  have fin: "?w1\<lparr>rand_pos := rand_pos ?w1 + (b - Suc a)\<rparr> = w\<lparr>rand_pos := rand_pos w + (b - a)\<rparr>"
    using shift [of b] ab by simp
  have "prediction_loop cv (a # [Suc a..<b]) preds w =
      (preds @ ?entry w a a # map (?entry w a) [Suc a..<b],
       w\<lparr>rand_pos := rand_pos w + (b - a)\<rparr>)"
    using ih unfolding m fin by (simp add: step)
  then show ?case
    unfolding upt by simp
qed

lemma value_prediction_eq:
  "\<exists>annual date w'.
     rand_pos w' = rand_pos w + 14 \<and>
     value_prediction property_id w =
       Some (\<lparr>statusCode = 200,
               body = JObj
                 [(''property_id'', property_id),
                  (''current_value'', JInt (fst (randint 400000 700000 w))),
                  (''predictions'', JList (map (\<lambda>i. JObj
                     [(''month'', JInt (int i)),
                      (''predicted_value'', JFloat (py_round w
                         (fmul w (float_of_int w (fst (randint 400000 700000 w)))
                            (fpow w (fadd w (float_of_int w 1) (nth_growth_rate w i)) i)) 2)),
                      (''confidence'', JFloat
                         (max (fsub w (lit w (95 / 100))
                                 (fmul w (float_of_int w (int i)) (lit w (5 / 100))))
                              (lit w (1 / 2))))])
                     [1..<13])),
                  (''annual_growth_rate'', JFloat annual),
                  (''risk_factors'',
                     JList [JStr ''Interest rate changes'',
                            JStr ''Local market conditions'',
                            JStr ''Economic indicators'']),
                  (''prediction_date'', JStr date)]\<rparr>, w')"
proof -
  let ?cv = "fst (randint 400000 700000 w)"
  let ?w1 = "w\<lparr>rand_pos := Suc (rand_pos w)\<rparr>"
  let ?entry = "\<lambda>g i. JObj
         [(''month'', JInt (int i)),
          (''predicted_value'', JFloat (py_round w
             (fmul w (float_of_int w ?cv)
                (fpow w (fadd w (float_of_int w 1) (g i)) i)) 2)),
          (''confidence'', JFloat
             (max (fsub w (lit w (95 / 100))
                     (fmul w (float_of_int w (int i)) (lit w (5 / 100))))
                  (lit w (1 / 2))))]"
  let ?g1 = "\<lambda>i. fst (uniform (PFloat (lit w (2 / 1000))) (PFloat (lit w (8 / 1000)))
                          (?w1\<lparr>rand_pos := rand_pos ?w1 + (i - 1)\<rparr>))"
  have loop: "prediction_loop ?cv [1..<13] [] ?w1 =
      ([] @ map (?entry ?g1) [1..<13], ?w1\<lparr>rand_pos := rand_pos ?w1 + (13 - 1)\<rparr>)"
    using prediction_loop_eq [of ?cv 1 13 "[]" ?w1]
    by (simp only: py_round_rand_pos fmul_rand_pos float_of_int_rand_pos fpow_rand_pos
        fadd_rand_pos lit_rand_pos fsub_rand_pos)
  have m: "map (?entry ?g1) [1..<13] = map (?entry (nth_growth_rate w)) [1..<13]"
  proof (rule map_cong [OF refl])
    fix i :: nat assume "i \<in> set [1..<13]"
    then have "1 \<le> i" by simp
    then have "Suc (rand_pos w) + (i - 1) = rand_pos w + i"
      by arith
    then have "w\<lparr>rand_pos := Suc (rand_pos w) + (i - 1)\<rparr> = w\<lparr>rand_pos := rand_pos w + i\<rparr>"
      by (rule arg_cong)
    then have "?w1\<lparr>rand_pos := rand_pos ?w1 + (i - 1)\<rparr> = w\<lparr>rand_pos := rand_pos w + i\<rparr>"
      by simp
    then show "?entry ?g1 i = ?entry (nth_growth_rate w) i"
      by (simp only: nth_growth_rate_def)
  qed
  show ?thesis
    unfolding value_prediction_def
    apply (simp only: Let_def split_def randint_fst_snd(2) loop m)
    apply (simp add: uniform_snd datetime_now_def)
    done
qed

lemma prediction_of_eq:
  "1 \<le> i \<Longrightarrow> i \<le> 12 \<Longrightarrow>
   prediction_of (value_prediction property_id w) i =
     Some (py_round w
             (fmul w (float_of_int w (fst (randint 400000 700000 w)))
                (fpow w (fadd w (float_of_int w 1) (nth_growth_rate w i)) i)) 2)"
proof -
  assume i: "1 \<le> i" "i \<le> 12"
  from value_prediction_eq [of w property_id]
  obtain annual date w' where
    r: "value_prediction property_id w =
       Some (\<lparr>statusCode = 200,
               body = JObj
                 [(''property_id'', property_id),
                  (''current_value'', JInt (fst (randint 400000 700000 w))),
                  (''predictions'', JList (map (\<lambda>i. JObj
                     [(''month'', JInt (int i)),
                      (''predicted_value'', JFloat (py_round w
                         (fmul w (float_of_int w (fst (randint 400000 700000 w)))
                            (fpow w (fadd w (float_of_int w 1) (nth_growth_rate w i)) i)) 2)),
                      (''confidence'', JFloat
                         (max (fsub w (lit w (95 / 100))
                                 (fmul w (float_of_int w (int i)) (lit w (5 / 100))))
                              (lit w (1 / 2))))])
                     [1..<13])),
                  (''annual_growth_rate'', JFloat annual),
                  (''risk_factors'',
                     JList [JStr ''Interest rate changes'',
                            JStr ''Local market conditions'',
                            JStr ''Economic indicators'']),
                  (''prediction_date'', JStr date)]\<rparr>, w')"
    by blast
  have idx: "[1..<13] ! (i - 1) = i"
    using i by (simp add: nth_upt)
  show ?thesis
    using i by (simp add: prediction_of_def r idx del: upt_Suc)
qed

text \<open>Bounds on a rounded value and on a power, for a non-negative argument.\<close>

lemma rnd_lower: "0 \<le> x \<Longrightarrow> x * (1 - 1 / 2 ^ 53) \<le> rnd w x"
proof -
  assume x: "0 \<le> x"
  have "- (rnd w x - x) \<le> \<bar>rnd w x - x\<bar>"
    by (rule abs_ge_minus_self)
  also have "\<dots> \<le> \<bar>x\<bar> / 2 ^ 53"
    by (rule rnd_error)
  finally show ?thesis
    using x by (simp add: algebra_simps)
qed

lemma rnd_upper: "0 \<le> x \<Longrightarrow> rnd w x \<le> x * (1 + 1 / 2 ^ 53)"
proof -
  assume x: "0 \<le> x"
  have "rnd w x - x \<le> \<bar>rnd w x - x\<bar>"
    by (rule abs_ge_self)
  also have "\<dots> \<le> \<bar>x\<bar> / 2 ^ 53"
    by (rule rnd_error)
  finally show ?thesis
    using x by (simp add: algebra_simps)
qed

lemma fpow_lower: "0 \<le> x \<Longrightarrow> x ^ n * (1 - 1 / 2 ^ 52) \<le> fpow w x n"
proof -
  assume x: "0 \<le> x"
  have "- (fpow w x n - x ^ n) \<le> \<bar>fpow w x n - x ^ n\<bar>"
    by (rule abs_ge_minus_self)
  also have "\<dots> \<le> \<bar>x ^ n\<bar> / 2 ^ 52"
    by (rule fpow_error)
  finally show ?thesis
    using x by (simp add: algebra_simps)
qed

lemma fpow_upper: "0 \<le> x \<Longrightarrow> fpow w x n \<le> x ^ n * (1 + 1 / 2 ^ 52)"
proof -
  assume x: "0 \<le> x"
  have "fpow w x n - x ^ n \<le> \<bar>fpow w x n - x ^ n\<bar>"
    by (rule abs_ge_self)
  also have "\<dots> \<le> \<bar>x ^ n\<bar> / 2 ^ 52"
    by (rule fpow_error)
  finally show ?thesis
    using x by (simp add: algebra_simps)
qed

text \<open>A sample of \<^verbatim>\<open>uniform(a, b)\<close> with \<open>0 \<le> a \<le> b\<close> is at least \<open>a\<close>, up to one rounding.\<close>

lemma uniform_lower:
  "0 \<le> a \<Longrightarrow> a \<le> b \<Longrightarrow> a * (1 - 1 / 2 ^ 53) \<le> fst (uniform (PFloat a) (PFloat b) w)"
proof -
  assume a: "0 \<le> a" and ab: "a \<le> b"
  let ?u = "real (rand_src w (rand_pos w) mod 2 ^ 53) / 2 ^ 53"
  have u: "0 \<le> ?u"
    by simp
  have "0 \<le> fsub w b a"
    unfolding fsub_def using ab by (intro rnd_nonneg) simp
  then have "0 \<le> fsub w b a * ?u"
    using u by (rule mult_nonneg_nonneg)
  then have t: "0 \<le> fmul w (fsub w b a) ?u"
    unfolding fmul_def by (rule rnd_nonneg)
  have "a * (1 - 1 / 2 ^ 53) \<le> (a + fmul w (fsub w b a) ?u) * (1 - 1 / 2 ^ 53)"
    using t by (intro mult_right_mono) simp_all
  also have "\<dots> \<le> rnd w (a + fmul w (fsub w b a) ?u)"
    using a t by (intro rnd_lower) simp
  finally show ?thesis
    by (simp add: uniform_fst fadd_def)
qed

lemma nth_growth_rate_lower: "19 / 10000 \<le> nth_growth_rate w i"
proof -
  let ?a = "lit w (2 / 1000)" and ?b = "lit w (8 / 1000)"
  have a_lo: "2 / 1000 * (1 - 1 / 2 ^ 53) \<le> ?a"
    unfolding lit_def by (rule rnd_lower) simp
  have ab: "?a \<le> ?b"
    unfolding lit_def by (rule rnd_mono) simp
  have a0: "0 \<le> ?a"
    unfolding lit_def by (rule rnd_nonneg) simp
  have "(19 / 10000 :: real) \<le> 2 / 1000 * (1 - 1 / 2 ^ 53) * (1 - 1 / 2 ^ 53)"
    by simp
  also have "\<dots> \<le> ?a * (1 - 1 / 2 ^ 53)"
    using a_lo by (intro mult_right_mono) simp_all
  also have "\<dots> \<le> fst (uniform (PFloat ?a) (PFloat ?b) (w\<lparr>rand_pos := rand_pos w + i\<rparr>))"
    using uniform_lower [OF a0 ab, of "w\<lparr>rand_pos := rand_pos w + i\<rparr>"] by simp
  finally show ?thesis
    by (simp add: nth_growth_rate_def)
qed

lemma nth_growth_rate_pos: "0 < nth_growth_rate w i"
  using nth_growth_rate_lower [of w i] by simp

lemma current_value_bounds:
  "400000 \<le> fst (randint 400000 700000 w)" "fst (randint 400000 700000 w) \<le> 700000"
  using randint_bounds [of 400000 700000 w] by simp_all

text \<open>The samples and predictions of \<open>uneven_world\<close>.\<close>

lemma uneven_exact: "arith uneven_world = exact_arith"
  by (simp add: uneven_world_def)

lemma uneven_samples:
  "fst (randint 400000 700000 uneven_world) = 400000"
  "nth_growth_rate uneven_world 1 = 5 / 1000"
  "nth_growth_rate uneven_world 2 = 2 / 1000"
  by (simp_all add: nth_growth_rate_def uniform_fst fadd_def fmul_def fsub_def lit_def
      rnd_exact [OF uneven_exact] randint_def raw_draw_def)
     (simp_all add: uneven_world_def)

lemma uneven_predictions:
  "prediction_of (value_prediction JNull uneven_world) 1 = Some 402000"
  "prediction_of (value_prediction JNull uneven_world) 2 = Some (2008008 / 5)"
proof -
  have "prediction_of (value_prediction JNull uneven_world) 1 =
      Some (py_round uneven_world
              (fmul uneven_world (float_of_int uneven_world (fst (randint 400000 700000 uneven_world)))
                 (fpow uneven_world
                    (fadd uneven_world (float_of_int uneven_world 1)
                       (nth_growth_rate uneven_world 1)) 1)) 2)"
    by (rule prediction_of_eq) simp_all
  then show "prediction_of (value_prediction JNull uneven_world) 1 = Some 402000"
    unfolding uneven_samples
    by (simp add: py_round_def round_half_even_def fmul_def fadd_def float_of_int_small
        rnd_exact [OF uneven_exact] fpow_exact [OF uneven_exact])
  have "prediction_of (value_prediction JNull uneven_world) 2 =
      Some (py_round uneven_world
              (fmul uneven_world (float_of_int uneven_world (fst (randint 400000 700000 uneven_world)))
                 (fpow uneven_world
                    (fadd uneven_world (float_of_int uneven_world 1)
                       (nth_growth_rate uneven_world 2)) 2)) 2)"
    by (rule prediction_of_eq) simp_all
  then show "prediction_of (value_prediction JNull uneven_world) 2 = Some (2008008 / 5)"
    unfolding uneven_samples
    by (simp add: py_round_def round_half_even_def fmul_def fadd_def float_of_int_small
        rnd_exact [OF uneven_exact] fpow_exact [OF uneven_exact] power2_eq_square)
qed

lemma near_if_equal_or_rounded:
  "arith w = exact_arith \<Longrightarrow> v = x \<or> v = py_round w x 2 \<Longrightarrow> \<bar>v - x\<bar> \<le> 1 / 200"
  using py_round_2_near [of w x] by auto

text \<open>
  C1, as stated, fails. At \<open>uneven_world\<close> the current value is 400000, the rate drawn
  for month 1 is 0.005 and the rate drawn for month 2 is 0.002; the predicted values are
  402000 and 401601.6, and no single rate \<open>g\<close> gives both, whether the predicted value is
  read as \<open>current_value * (1 + g) ^ i\<close> or as that product rounded to 2 places.
\<close>

theorem single_growth_rate_counterexample:
  "fst (randint 400000 700000 uneven_world) = 400000 \<and>
   nth_growth_rate uneven_world 1 = 5 / 1000 \<and>
   nth_growth_rate uneven_world 2 = 2 / 1000 \<and>
   prediction_of (value_prediction JNull uneven_world) 1 = Some 402000 \<and>
   prediction_of (value_prediction JNull uneven_world) 2 = Some (2008008 / 5) \<and>
   \<not> (\<exists>g. \<forall>i\<in>{1..12}.
          prediction_of (value_prediction JNull uneven_world) i = Some (400000 * (1 + g) ^ i) \<or>
          prediction_of (value_prediction JNull uneven_world) i =
            Some (py_round uneven_world (400000 * (1 + g) ^ i) 2))"
proof -
  have "False"
    if g: "\<forall>i\<in>{1..12}.
          prediction_of (value_prediction JNull uneven_world) i = Some (400000 * (1 + g) ^ i) \<or>
          prediction_of (value_prediction JNull uneven_world) i =
            Some (py_round uneven_world (400000 * (1 + g) ^ i) 2)" for g :: real
  proof -
    from g have "402000 = 400000 * (1 + g) ^ 1 \<or>
        402000 = py_round uneven_world (400000 * (1 + g) ^ 1) 2"
      using uneven_predictions(1) by (metis atLeastAtMost_iff one_le_numeral order_refl option.inject)
    then have one: "\<bar>402000 - 400000 * (1 + g)\<bar> \<le> 1 / 200"
      using near_if_equal_or_rounded [OF uneven_exact, of 402000 "400000 * (1 + g)"] by simp
    have "(2::nat) \<in> {1..12}"
      by simp
    with g have "2008008 / 5 = 400000 * (1 + g) ^ 2 \<or>
        2008008 / 5 = py_round uneven_world (400000 * (1 + g) ^ 2) 2"
      using uneven_predictions(2) by (metis option.inject)
    then have two: "\<bar>2008008 / 5 - 400000 * (1 + g) ^ 2\<bar> \<le> 1 / 200"
      by (rule near_if_equal_or_rounded [OF uneven_exact])
    have "402000 - 400000 * (1 + g) \<le> \<bar>402000 - 400000 * (1 + g)\<bar>"
      by (rule abs_ge_self)
    then have "402000 - 400000 * (1 + g) \<le> 1 / 200"
      using one by (rule order_trans)
    then have lo: "10049 / 10000 \<le> 1 + g"
      by simp
    have "(10049 / 10000) ^ 2 \<le> (1 + g) ^ 2"
      using lo by (intro power_mono) simp_all
    then have "400000 * (10049 / 10000 :: real) ^ 2 \<le> 400000 * (1 + g) ^ 2"
      by simp
    moreover have "- (2008008 / 5 - 400000 * (1 + g) ^ 2)
        \<le> \<bar>2008008 / 5 - 400000 * (1 + g) ^ 2\<bar>"
      by (rule abs_ge_minus_self)
    then have "- (2008008 / 5 - 400000 * (1 + g) ^ 2) \<le> 1 / 200"
      using two by (rule order_trans)
    then have "400000 * (1 + g) ^ 2 \<le> 2008008 / 5 + 1 / 200"
      by simp
    moreover have "2008008 / 5 + 1 / 200 < 400000 * (10049 / 10000 :: real) ^ 2"
      by (simp add: power2_eq_square)
    ultimately show False
      by linarith
  qed
  then show ?thesis
    using uneven_samples uneven_predictions by blast
qed

text \<open>
  C1, amended. A call draws 14 samples: the current value, one growth rate in each of the
  12 iterations, and the displayed annual rate. For every \<open>i\<close> from 1 to 12 the
  \<open>i\<close>-th predicted value is \<open>current_value * (1 + g_i) ** i\<close>, computed in the
  floating-point arithmetic of the runtime and rounded to 2 places, where \<open>g_i\<close> is the
  rate drawn in iteration \<open>i\<close>.
\<close>

theorem value_prediction_draws_a_rate_per_month:
  "\<exists>b w'.
     value_prediction property_id w = Some (\<lparr>statusCode = 200, body = b\<rparr>, w') \<and>
     rand_pos w' = rand_pos w + 14 \<and>
     subscript b ''current_value'' = Some (JInt (fst (randint 400000 700000 w))) \<and>
     map (\<lambda>i. prediction_of (value_prediction property_id w) i) [1..<13] =
       map (\<lambda>i. Some (py_round w
                        (fmul w (float_of_int w (fst (randint 400000 700000 w)))
                           (fpow w (fadd w (float_of_int w 1) (nth_growth_rate w i)) i)) 2))
         [1..<13]"
proof -
  from value_prediction_eq [of w property_id]
  obtain b w' where
    result: "value_prediction property_id w = Some (\<lparr>statusCode = 200, body = b\<rparr>, w')"
    and draws: "rand_pos w' = rand_pos w + 14"
    and cv: "subscript b ''current_value'' = Some (JInt (fst (randint 400000 700000 w)))"
    by fastforce
  have "map (\<lambda>i. prediction_of (value_prediction property_id w) i) [1..<13] =
       map (\<lambda>i. Some (py_round w
                        (fmul w (float_of_int w (fst (randint 400000 700000 w)))
                           (fpow w (fadd w (float_of_int w 1) (nth_growth_rate w i)) i)) 2))
         [1..<13]"
  proof (rule map_cong [OF refl])
    fix i :: nat assume "i \<in> set [1..<13]"
    then have "1 \<le> i" "i \<le> 12"
      by simp_all
    then show "prediction_of (value_prediction property_id w) i =
        Some (py_round w
                (fmul w (float_of_int w (fst (randint 400000 700000 w)))
                   (fpow w (fadd w (float_of_int w 1) (nth_growth_rate w i)) i)) 2)"
      by (rule prediction_of_eq)
  qed
  with result draws cv show ?thesis
    by blast
qed

text \<open>
  C3, as stated, fails. At \<open>uneven_world\<close> both rates are positive, and the predicted
  value of month 1 (402000) exceeds that of month 2 (401601.6).
\<close>

theorem prediction_monotone_counterexample:
  "0 < nth_growth_rate uneven_world 1 \<and>
   0 < nth_growth_rate uneven_world 2 \<and>
   prediction_of (value_prediction JNull uneven_world) 1 = Some 402000 \<and>
   prediction_of (value_prediction JNull uneven_world) 2 = Some (2008008 / 5) \<and>
   \<not> (\<forall>i j x y.
          1 \<le> i \<and> i < j \<and> j \<le> 12 \<and>
          prediction_of (value_prediction JNull uneven_world) i = Some x \<and>
          prediction_of (value_prediction JNull uneven_world) j = Some y \<longrightarrow> x \<le> y)"
proof -
  have "\<not> (\<forall>i j x y.
          1 \<le> i \<and> i < j \<and> j \<le> 12 \<and>
          prediction_of (value_prediction JNull uneven_world) i = Some x \<and>
          prediction_of (value_prediction JNull uneven_world) j = Some y \<longrightarrow> x \<le> y)"
  proof
    assume "\<forall>i j x y.
          1 \<le> i \<and> i < j \<and> j \<le> 12 \<and>
          prediction_of (value_prediction JNull uneven_world) i = Some x \<and>
          prediction_of (value_prediction JNull uneven_world) j = Some y \<longrightarrow> x \<le> y"
    then have "(1::nat) \<le> 1 \<and> (1::nat) < 2 \<and> (2::nat) \<le> 12 \<and>
          prediction_of (value_prediction JNull uneven_world) 1 = Some 402000 \<and>
          prediction_of (value_prediction JNull uneven_world) 2 = Some (2008008 / 5)
          \<longrightarrow> (402000 :: real) \<le> 2008008 / 5"
      by blast
    then show False
      using uneven_predictions by simp
  qed
  then show ?thesis
    using nth_growth_rate_pos uneven_predictions by blast
qed

text \<open>
  C3, amended. Every sampled growth rate is positive, and for \<open>1 \<le> i < j \<le> 12\<close>
  the predicted value of month \<open>i\<close> is at most that of month \<open>j\<close> whenever the rate
  drawn for month \<open>i\<close> is at most the rate drawn for month \<open>j\<close> (in particular when
  the twelve samples coincide).
\<close>

theorem predictions_monotone_for_nondecreasing_rates:
  "1 \<le> i \<Longrightarrow> i < j \<Longrightarrow> j \<le> 12 \<Longrightarrow> nth_growth_rate w i \<le> nth_growth_rate w j \<Longrightarrow>
   \<exists>x y. prediction_of (value_prediction property_id w) i = Some x \<and>
         prediction_of (value_prediction property_id w) j = Some y \<and> x \<le> y \<and>
         0 < nth_growth_rate w i \<and> 0 < nth_growth_rate w j"
proof -
  assume i: "1 \<le> i" and ij: "i < j" and j: "j \<le> 12"
    and rates: "nth_growth_rate w i \<le> nth_growth_rate w j"
  let ?cv = "fst (randint 400000 700000 w)"
  let ?gi = "nth_growth_rate w i" and ?gj = "nth_growth_rate w j"
  let ?yi = "fadd w (float_of_int w 1) ?gi" and ?yj = "fadd w (float_of_int w 1) ?gj"
  have gi: "0 < ?gi" and gj: "0 < ?gj"
    by (rule nth_growth_rate_pos)+
  have one: "float_of_int w 1 = 1"
    by (simp add: float_of_int_small)
  have cv: "float_of_int w ?cv = of_int ?cv"
    using current_value_bounds [of w] by (intro float_of_int_small) simp
  have cv0: "0 \<le> float_of_int w ?cv"
    using current_value_bounds [of w] by (simp add: cv)
  text \<open>The two bases are ordered, and both are at least 1.001.\<close>
  have y_le: "?yi \<le> ?yj"
    unfolding fadd_def one using rates by (intro rnd_mono) simp
  have "(1001 / 1000 :: real) \<le> (1 + 19 / 10000) * (1 - 1 / 2 ^ 53)"
    by simp
  also have "\<dots> \<le> (1 + ?gi) * (1 - 1 / 2 ^ 53)"
    using nth_growth_rate_lower [of w i] by (intro mult_right_mono) simp_all
  also have "\<dots> \<le> rnd w (1 + ?gi)"
    using gi by (intro rnd_lower) simp
  finally have yi_lo: "1001 / 1000 \<le> ?yi"
    by (simp add: fadd_def one)
  have yj_lo: "1001 / 1000 \<le> ?yj"
    using yi_lo y_le by (rule order_trans)
  have yi0: "0 \<le> ?yi" and yj0: "0 \<le> ?yj" and yj1: "1 \<le> ?yj"
    using yi_lo yj_lo by simp_all
  text \<open>One more factor of at least 1.001 outweighs the errors of the two powers.\<close>
  have pi0: "0 \<le> ?yi ^ i"
    using yi0 by simp
  have "fpow w ?yi i \<le> ?yi ^ i * (1 + 1 / 2 ^ 52)"
    using yi0 by (rule fpow_upper)
  also have "\<dots> \<le> ?yi ^ i * (1001 / 1000 * (1 - 1 / 2 ^ 52))"
    using pi0 by (intro mult_left_mono) simp_all
  also have "\<dots> = (1001 / 1000 * ?yi ^ i) * (1 - 1 / 2 ^ 52)"
    by simp
  also have "\<dots> \<le> (?yj * ?yj ^ i) * (1 - 1 / 2 ^ 52)"
  proof (intro mult_right_mono mult_mono)
    show "1001 / 1000 \<le> ?yj"
      by (rule yj_lo)
    show "?yi ^ i \<le> ?yj ^ i"
      using yi0 y_le by (intro power_mono)
  qed (use pi0 yj0 in simp_all)
  also have "\<dots> = ?yj ^ Suc i * (1 - 1 / 2 ^ 52)"
    by simp
  also have "\<dots> \<le> ?yj ^ j * (1 - 1 / 2 ^ 52)"
    using yj1 ij by (intro mult_right_mono power_increasing) simp_all
  also have "\<dots> \<le> fpow w ?yj j"
    using yj0 by (rule fpow_lower)
  finally have pow_le: "fpow w ?yi i \<le> fpow w ?yj j" .
  have "float_of_int w ?cv * fpow w ?yi i \<le> float_of_int w ?cv * fpow w ?yj j"
    using pow_le cv0 by (rule mult_left_mono)
  then have "fmul w (float_of_int w ?cv) (fpow w ?yi i)
      \<le> fmul w (float_of_int w ?cv) (fpow w ?yj j)"
    unfolding fmul_def by (rule rnd_mono)
  then have "py_round w (fmul w (float_of_int w ?cv) (fpow w ?yi i)) 2
      \<le> py_round w (fmul w (float_of_int w ?cv) (fpow w ?yj j)) 2"
    by (rule py_round_mono)
  moreover have "prediction_of (value_prediction property_id w) i =
      Some (py_round w (fmul w (float_of_int w ?cv) (fpow w ?yi i)) 2)"
    using i ij j by (intro prediction_of_eq) simp_all
  moreover have "prediction_of (value_prediction property_id w) j =
      Some (py_round w (fmul w (float_of_int w ?cv) (fpow w ?yj j)) 2)"
    using i ij j by (intro prediction_of_eq) simp_all
  ultimately show ?thesis
    using gi gj by simp
qed

lemma flat_rates: "nth_growth_rate flat_world i = 2 / 1000"
  by (simp add: nth_growth_rate_def uniform_fst fadd_def fmul_def fsub_def lit_def rnd_def
      exact_arith.rep_eq flat_world_def)

theorem predictions_monotone_for_nondecreasing_rates_witness:
  "nth_growth_rate flat_world 1 \<le> nth_growth_rate flat_world 12 \<and>
   (\<exists>x y. prediction_of (value_prediction JNull flat_world) 1 = Some x \<and>
          prediction_of (value_prediction JNull flat_world) 12 = Some y \<and> x \<le> y \<and>
          0 < nth_growth_rate flat_world 1 \<and> 0 < nth_growth_rate flat_world 12)"
proof -
  have h: "nth_growth_rate flat_world 1 \<le> nth_growth_rate flat_world 12"
    by (simp add: flat_rates)
  show ?thesis
    using h predictions_monotone_for_nondecreasing_rates [of 1 12 flat_world JNull, OF _ _ _ h]
    by simp
qed

section \<open>Property valuation\<close>

lemma uniform_nonneg: "0 \<le> a \<Longrightarrow> a \<le> b \<Longrightarrow> 0 \<le> fst (uniform (PFloat a) (PFloat b) w)"
proof -
  assume a: "0 \<le> a" and ab: "a \<le> b"
  have "0 \<le> a * (1 - 1 / 2 ^ 53)"
    using a by (intro mult_nonneg_nonneg) simp_all
  also have "\<dots> \<le> fst (uniform (PFloat a) (PFloat b) w)"
    using a ab by (rule uniform_lower)
  finally show ?thesis .
qed

lemma uniform_lit_nonneg:
  "0 \<le> a \<Longrightarrow> a \<le> b \<Longrightarrow> 0 \<le> fst (uniform (PFloat (lit w a)) (PFloat (lit w b)) w')"
  unfolding lit_def by (intro uniform_nonneg rnd_nonneg rnd_mono)

text \<open>
  A product of four non-negative factors, multiplied from the left with a rounding after
  each multiplication, has a relative error of at most \<open>2^-51\<close>.
\<close>

lemma fmul_bounds:
  "0 \<le> lo \<Longrightarrow> lo \<le> x \<Longrightarrow> x \<le> hi \<Longrightarrow> 0 \<le> y \<Longrightarrow>
   lo * y * (1 - 1 / 2 ^ 53) \<le> fmul w x y \<and> fmul w x y \<le> hi * y * (1 + 1 / 2 ^ 53)"
proof -
  assume lo: "0 \<le> lo" and x: "lo \<le> x" "x \<le> hi" and y: "0 \<le> y"
  have xy: "0 \<le> x * y"
    using lo x y by simp
  have "lo * y * (1 - 1 / 2 ^ 53) \<le> x * y * (1 - 1 / 2 ^ 53)"
    using x y by (intro mult_right_mono) simp_all
  also have "\<dots> \<le> rnd w (x * y)"
    using xy by (rule rnd_lower)
  finally have lower: "lo * y * (1 - 1 / 2 ^ 53) \<le> fmul w x y"
    by (simp add: fmul_def)
  have "rnd w (x * y) \<le> x * y * (1 + 1 / 2 ^ 53)"
    using xy by (rule rnd_upper)
  also have "\<dots> \<le> hi * y * (1 + 1 / 2 ^ 53)"
    using x y by (intro mult_right_mono) simp_all
  finally have "fmul w x y \<le> hi * y * (1 + 1 / 2 ^ 53)"
    by (simp add: fmul_def)
  with lower show ?thesis ..
qed

lemma fmul3_error:
  "0 \<le> b \<Longrightarrow> 0 \<le> m \<Longrightarrow> 0 \<le> l \<Longrightarrow> 0 \<le> c \<Longrightarrow>
   \<bar>fmul w (fmul w (fmul w b m) l) c - b * m * l * c\<bar> \<le> b * m * l * c / 2 ^ 51"
proof -
  assume b: "0 \<le> b" and m: "0 \<le> m" and l: "0 \<le> l" and c: "0 \<le> c"
  let ?d = "1 - 1 / 2 ^ 53 :: real" and ?u = "1 + 1 / 2 ^ 53 :: real"
  let ?E = "b * m * l * c"
  have E: "0 \<le> ?E"
    using b m l c by simp
  have d0: "0 \<le> ?d"
    by simp
  have s1: "b * m * ?d \<le> fmul w b m \<and> fmul w b m \<le> b * m * ?u"
    using b order_refl order_refl m by (rule fmul_bounds)
  have lo1: "0 \<le> b * m * ?d"
    using b m d0 by (intro mult_nonneg_nonneg)
  have s2: "b * m * ?d * l * ?d \<le> fmul w (fmul w b m) l \<and>
      fmul w (fmul w b m) l \<le> b * m * ?u * l * ?u"
    using lo1 conjunct1 [OF s1] conjunct2 [OF s1] l by (rule fmul_bounds)
  have lo2: "0 \<le> b * m * ?d * l * ?d"
    using b m l d0 by (intro mult_nonneg_nonneg)
  have s3: "b * m * ?d * l * ?d * c * ?d \<le> fmul w (fmul w (fmul w b m) l) c \<and>
      fmul w (fmul w (fmul w b m) l) c \<le> b * m * ?u * l * ?u * c * ?u"
    using lo2 conjunct1 [OF s2] conjunct2 [OF s2] c by (rule fmul_bounds)
  have "?E * (1 - 1 / 2 ^ 51) \<le> ?E * (?d * ?d * ?d)"
    using E by (intro mult_left_mono) simp_all
  also have "\<dots> = b * m * ?d * l * ?d * c * ?d"
    by (simp only: mult_ac)
  also have "\<dots> \<le> fmul w (fmul w (fmul w b m) l) c"
    by (rule conjunct1 [OF s3])
  finally have lower: "?E * (1 - 1 / 2 ^ 51) \<le> fmul w (fmul w (fmul w b m) l) c" .
  have "fmul w (fmul w (fmul w b m) l) c \<le> b * m * ?u * l * ?u * c * ?u"
    by (rule conjunct2 [OF s3])
  also have "\<dots> = ?E * (?u * ?u * ?u)"
    by (simp only: mult_ac)
  also have "\<dots> \<le> ?E * (1 + 1 / 2 ^ 51)"
    using E by (intro mult_left_mono) simp_all
  finally have upper: "fmul w (fmul w (fmul w b m) l) c \<le> ?E * (1 + 1 / 2 ^ 51)" .
  have "fmul w (fmul w (fmul w b m) l) c - ?E \<le> ?E / 2 ^ 51"
    using upper by (simp add: algebra_simps)
  moreover have "- (fmul w (fmul w (fmul w b m) l) c - ?E) \<le> ?E / 2 ^ 51"
    using lower by (simp add: algebra_simps)
  ultimately show ?thesis
    by (rule abs_leI)
qed

text \<open>
  C8. For every outcome of the sampling, the returned \<open>current_value\<close> is the product
  of the sampled base value and the three sampled factors (the factors the body reports),
  multiplied from the left in the floating-point arithmetic of the runtime and rounded to
  2 places; \<open>value_range.low\<close> and \<open>value_range.high\<close> are that unrounded product
  times 0.9 and times 1.1, each rounded to 2 places. The floating-point product differs
  from the exact product of the four numbers by a relative error of at most \<open>2^-51\<close>.
\<close>

theorem valuation_value_and_range:
  "let (base_value, w1) = randint 300000 800000 w;
       (market_adjustment, w2) =
         uniform (PFloat (lit w (95 / 100))) (PFloat (lit w (115 / 100))) w1;
       (location_factor, w3) =
         uniform (PFloat (lit w (9 / 10))) (PFloat (lit w (12 / 10))) w2;
       (condition_factor, w4) =
         uniform (PFloat (lit w (85 / 100))) (PFloat (lit w (11 / 10))) w3;
       product =
         fmul w (fmul w (fmul w (float_of_int w base_value) market_adjustment)
                   location_factor) condition_factor;
       exact = of_int base_value * market_adjustment * location_factor * condition_factor
   in \<exists>b w'.
        property_valuation property_id w = Some (\<lparr>statusCode = 200, body = b\<rparr>, w') \<and>
        subscript b ''current_value'' = Some (JFloat (py_round w product 2)) \<and>
        subscript b ''factors'' =
          Some (JObj [(''market_adjustment'', JFloat market_adjustment),
                      (''location_factor'', JFloat location_factor),
                      (''condition_factor'', JFloat condition_factor)]) \<and>
        subscript b ''value_range'' =
          Some (JObj [(''low'', JFloat (py_round w (fmul w product (lit w (9 / 10))) 2)),
                      (''high'', JFloat (py_round w (fmul w product (lit w (11 / 10))) 2))]) \<and>
        \<bar>product - exact\<bar> \<le> exact / 2 ^ 51"
proof -
  let ?w1 = "snd (randint 300000 800000 w)"
  let ?base = "fst (randint 300000 800000 w)"
  let ?m = "fst (uniform (PFloat (lit w (95 / 100))) (PFloat (lit w (115 / 100))) ?w1)"
  let ?w2 = "snd (uniform (PFloat (lit w (95 / 100))) (PFloat (lit w (115 / 100))) ?w1)"
  let ?l = "fst (uniform (PFloat (lit w (9 / 10))) (PFloat (lit w (12 / 10))) ?w2)"
  let ?w3 = "snd (uniform (PFloat (lit w (9 / 10))) (PFloat (lit w (12 / 10))) ?w2)"
  let ?c = "fst (uniform (PFloat (lit w (85 / 100))) (PFloat (lit w (11 / 10))) ?w3)"
  have base: "300000 \<le> ?base" "?base \<le> 800000"
    using randint_bounds [of 300000 800000 w] by simp_all
  have conv: "float_of_int w ?base = of_int ?base"
    using base by (intro float_of_int_small) simp
  have m: "0 \<le> ?m" and l: "0 \<le> ?l" and c: "0 \<le> ?c"
    by (rule uniform_lit_nonneg; simp)+
  have b0: "0 \<le> real_of_int ?base"
    using base by simp
  have err: "\<bar>fmul w (fmul w (fmul w (float_of_int w ?base) ?m) ?l) ?c
        - of_int ?base * ?m * ?l * ?c\<bar> \<le> of_int ?base * ?m * ?l * ?c / 2 ^ 51"
    unfolding conv using b0 m l c by (rule fmul3_error)
  show ?thesis
    using err by (simp add: property_valuation_def split_def Let_def)
qed

section \<open>The binary64 runtime\<close>

text \<open>
  \<open>binary64\<close> is monotone and its relative error is at most \<open>2^-53\<close>, so
  \<open>ieee_arith\<close> is one of the arithmetics of type \<open>float_arith\<close>: what is proved
  above for every runtime holds for the binary64 runtimes.
\<close>

lemma round_half_even_of_int: "round_half_even (of_int n) = n"
  by (simp add: round_half_even_def)

lemma scaled_frame:
  fixes x :: real
  assumes "0 < x"
  shows "2 ^ 52 \<le> x * 2 powr (52 - of_int \<lfloor>log 2 x\<rfloor>)"
    and "x * 2 powr (52 - of_int \<lfloor>log 2 x\<rfloor>) < 2 ^ 53"
proof -
  define e where "e = \<lfloor>log 2 x\<rfloor>"
  have fr: "2 powr (of_int e) \<le> x \<and> x < 2 powr (of_int e + 1)"
    using floor_log_eq_powr_iff [of x 2 e] assms by (simp add: e_def)
  have s: "(0::real) < 2 powr (52 - of_int e)" by simp
  have a: "2 powr (of_int e) * 2 powr (52 - of_int e) = (2::real) ^ 52"
    by (simp add: powr_add [symmetric])
  have b: "2 powr (of_int e + 1) * 2 powr (52 - of_int e) = (2::real) ^ 53"
    by (simp add: powr_add [symmetric])
  have "2 powr (of_int e) * 2 powr (52 - of_int e) \<le> x * 2 powr (52 - of_int e)"
    using fr s by (intro mult_right_mono) simp_all
  then have "2 ^ 52 \<le> x * 2 powr (52 - of_int e)"
    unfolding a .
  then show "2 ^ 52 \<le> x * 2 powr (52 - of_int \<lfloor>log 2 x\<rfloor>)"
    unfolding e_def .
  have "x * 2 powr (52 - of_int e) < 2 powr (of_int e + 1) * 2 powr (52 - of_int e)"
    using fr s by (intro mult_strict_right_mono) simp_all
  then have "x * 2 powr (52 - of_int e) < 2 ^ 53"
    unfolding b .
  then show "x * 2 powr (52 - of_int \<lfloor>log 2 x\<rfloor>) < 2 ^ 53"
    unfolding e_def .
qed

lemma round53_bounds:
  fixes x :: real
  assumes "0 < x"
  shows "2 powr (of_int \<lfloor>log 2 x\<rfloor>) \<le> round53 x"
    and "round53 x \<le> 2 powr (of_int \<lfloor>log 2 x\<rfloor> + 1)"
proof -
  define e where "e = \<lfloor>log 2 x\<rfloor>"
  define m where "m = x * 2 powr (52 - of_int e)"
  have r: "round53 x = of_int (round_half_even m) * 2 powr (of_int e - 52)"
    by (simp add: round53_def Let_def e_def m_def)
  have m: "2 ^ 52 \<le> m" "m < 2 ^ 53"
    using scaled_frame [OF assms] by (simp_all add: m_def e_def)
  have "round_half_even (of_int (2 ^ 52)) \<le> round_half_even m"
    using m(1) by (intro round_half_even_mono) simp
  then have "real_of_int (2 ^ 52) \<le> of_int (round_half_even m)"
    unfolding round_half_even_of_int by (simp only: of_int_le_iff)
  then have lo: "(2::real) ^ 52 \<le> of_int (round_half_even m)"
    by simp
  have "round_half_even m \<le> round_half_even (of_int (2 ^ 53))"
    using m(2) by (intro round_half_even_mono) simp
  then have "of_int (round_half_even m) \<le> real_of_int (2 ^ 53)"
    unfolding round_half_even_of_int by (simp only: of_int_le_iff)
  then have hi: "of_int (round_half_even m) \<le> (2::real) ^ 53"
    by simp
  have a: "(2::real) ^ 52 * 2 powr (of_int e - 52) = 2 powr (of_int e)"
    using powr_add [of "2::real" 52 "of_int e - 52"] by simp
  have b: "(2::real) ^ 53 * 2 powr (of_int e - 52) = 2 powr (of_int e + 1)"
    using powr_add [of "2::real" 53 "of_int e - 52"] by (simp add: add.commute)
  have "(2::real) ^ 52 * 2 powr (of_int e - 52)
      \<le> of_int (round_half_even m) * 2 powr (of_int e - 52)"
    using lo by (intro mult_right_mono) simp_all
  then have "2 powr (of_int e) \<le> round53 x"
    unfolding a r .
  then show "2 powr (of_int \<lfloor>log 2 x\<rfloor>) \<le> round53 x"
    unfolding e_def .
  have "of_int (round_half_even m) * 2 powr (of_int e - 52)
      \<le> (2::real) ^ 53 * 2 powr (of_int e - 52)"
    using hi by (intro mult_right_mono) simp_all
  then have "round53 x \<le> 2 powr (of_int e + 1)"
    unfolding b r .
  then show "round53 x \<le> 2 powr (of_int \<lfloor>log 2 x\<rfloor> + 1)"
    unfolding e_def .
qed

lemma round53_pos: "0 < x \<Longrightarrow> 0 < round53 x"
  using round53_bounds(1) [of x] powr_gt_zero [of 2 "of_int \<lfloor>log 2 x\<rfloor>"]
  by linarith

lemma round53_error:
  fixes x :: real
  assumes "0 < x"
  shows "\<bar>round53 x - x\<bar> \<le> x / 2 ^ 53"
proof -
  define e where "e = \<lfloor>log 2 x\<rfloor>"
  define s :: real where "s = 2 powr (52 - of_int e)"
  define m where "m = x * s"
  have s: "0 < s" by (simp add: s_def)
  have inv: "2 powr (of_int e - 52) = 1 / s"
    using powr_minus_divide [of "2::real" "52 - of_int e"] by (simp add: s_def)
  have r: "round53 x = of_int (round_half_even m) / s"
    by (simp add: round53_def Let_def e_def [symmetric] inv m_def s_def [symmetric])
  have d: "(of_int (round_half_even m) - m) / s = of_int (round_half_even m) / s - x"
    using s by (simp add: m_def diff_divide_distrib)
  have "\<bar>round53 x - x\<bar> = \<bar>(of_int (round_half_even m) - m) / s\<bar>"
    unfolding r d ..
  also have "\<dots> = \<bar>of_int (round_half_even m) - m\<bar> / s"
    using s by simp
  also have "\<dots> \<le> (1 / 2) / s"
    using round_half_even_near [of m] s by (intro divide_right_mono) simp_all
  also have "\<dots> \<le> (m / 2 ^ 53) / s"
  proof -
    have "2 ^ 52 \<le> m" using scaled_frame(1) [OF assms] by (simp add: m_def s_def e_def)
    then have "1 / 2 \<le> m / 2 ^ 53" by simp
    then show ?thesis using s by (intro divide_right_mono) simp_all
  qed
  also have "\<dots> = x / 2 ^ 53" using s by (simp add: m_def)
  finally show ?thesis .
qed

lemma round53_mono:
  fixes x y :: real
  assumes "0 < x" "x \<le> y"
  shows "round53 x \<le> round53 y"
proof -
  have y: "0 < y" using assms by linarith
  have le: "\<lfloor>log 2 x\<rfloor> \<le> \<lfloor>log 2 y\<rfloor>"
    using assms y by (intro floor_mono) simp
  show ?thesis
  proof (cases "\<lfloor>log 2 x\<rfloor> = \<lfloor>log 2 y\<rfloor>")
    case True
    have "x * 2 powr (52 - of_int \<lfloor>log 2 y\<rfloor>) \<le> y * 2 powr (52 - of_int \<lfloor>log 2 y\<rfloor>)"
      using assms by (intro mult_right_mono) simp_all
    then have "round_half_even (x * 2 powr (52 - of_int \<lfloor>log 2 y\<rfloor>))
        \<le> round_half_even (y * 2 powr (52 - of_int \<lfloor>log 2 y\<rfloor>))"
      by (rule round_half_even_mono)
    then have "real_of_int (round_half_even (x * 2 powr (52 - of_int \<lfloor>log 2 y\<rfloor>)))
          * 2 powr (of_int \<lfloor>log 2 y\<rfloor> - 52)
        \<le> real_of_int (round_half_even (y * 2 powr (52 - of_int \<lfloor>log 2 y\<rfloor>)))
          * 2 powr (of_int \<lfloor>log 2 y\<rfloor> - 52)"
      by (intro mult_right_mono) simp_all
    then show ?thesis by (simp add: round53_def Let_def True)
  next
    case False
    then have "\<lfloor>log 2 x\<rfloor> + 1 \<le> \<lfloor>log 2 y\<rfloor>" using le by linarith
    then have "real_of_int \<lfloor>log 2 x\<rfloor> + 1 \<le> real_of_int \<lfloor>log 2 y\<rfloor>" by linarith
    then have "(2::real) powr (of_int \<lfloor>log 2 x\<rfloor> + 1) \<le> 2 powr (of_int \<lfloor>log 2 y\<rfloor>)"
      by simp
    then show ?thesis
      using round53_bounds(2) [OF assms(1)] round53_bounds(1) [OF y] by linarith
  qed
qed

lemma binary64_mono: "mono binary64"
proof (rule monoI)
  fix x y :: real
  assume xy: "x \<le> y"
  consider "0 < x" | "y < 0" | "x \<le> 0" "0 \<le> y" by linarith
  then show "binary64 x \<le> binary64 y"
  proof cases
    case 1
    then show ?thesis using xy round53_mono [of x y] by (simp add: binary64_def)
  next
    case 2
    then show ?thesis using xy round53_mono [of "- y" "- x"] by (simp add: binary64_def)
  next
    case 3
    have "binary64 x \<le> 0"
      using 3(1) round53_pos [of "- x"] by (auto simp: binary64_def less_eq_real_def)
    moreover have "0 \<le> binary64 y"
      using 3(2) round53_pos [of y] by (auto simp: binary64_def less_eq_real_def)
    ultimately show ?thesis by linarith
  qed
qed

lemma binary64_error: "\<bar>binary64 x - x\<bar> \<le> \<bar>x\<bar> / 2 ^ 53"
proof -
  consider "x = 0" | "0 < x" | "x < 0" by linarith
  then show ?thesis
  proof cases
    case 1
    then show ?thesis by (simp add: binary64_def)
  next
    case 2
    then show ?thesis using round53_error [of x] by (simp add: binary64_def)
  next
    case 3
    then have "\<bar>round53 (- x) - (- x)\<bar> \<le> (- x) / 2 ^ 53"
      using round53_error [of "- x"] by simp
    moreover have "\<bar>- round53 (- x) - x\<bar> = \<bar>round53 (- x) - (- x)\<bar>" by linarith
    ultimately show ?thesis using 3 by (simp add: binary64_def)
  qed
qed

lemma ieee_arith_rep: "Rep_float_arith ieee_arith = (binary64, \<lambda>x n. binary64 (x ^ n))"
proof -
  have "\<bar>binary64 (x ^ n) - x ^ n\<bar> \<le> \<bar>x ^ n\<bar> / 2 ^ 52" for x :: real and n
  proof -
    have "\<bar>binary64 (x ^ n) - x ^ n\<bar> \<le> \<bar>x ^ n\<bar> / 2 ^ 53"
      by (rule binary64_error)
    also have "\<dots> \<le> \<bar>x ^ n\<bar> / 2 ^ 52"
      by (intro divide_left_mono) simp_all
    finally show ?thesis .
  qed
  then have "(binary64, \<lambda>x n. binary64 (x ^ n)) \<in>
      {rp :: (real \<Rightarrow> real) \<times> (real \<Rightarrow> nat \<Rightarrow> real).
         mono (fst rp) \<and>
         (\<forall>x. \<bar>fst rp x - x\<bar> \<le> \<bar>x\<bar> / 2 ^ 53) \<and>
         (\<forall>x n. \<bar>snd rp x n - x ^ n\<bar> \<le> \<bar>x ^ n\<bar> / 2 ^ 52)}"
    unfolding mem_Collect_eq fst_conv snd_conv
    using binary64_mono binary64_error by blast
  then show ?thesis
    unfolding ieee_arith_def by (rule Abs_float_arith_inverse)
qed

lemma rnd_ieee: "rnd (ieee_world k) = binary64" "rnd ieee_uneven_world = binary64"
  by (simp_all add: rnd_def ieee_world_def ieee_uneven_world_def binary64_world_def ieee_arith_rep)

lemma fpow_ieee:
  "fpow (ieee_world k) x n = binary64 (x ^ n)"
  "fpow ieee_uneven_world x n = binary64 (x ^ n)"
  by (simp_all add: fpow_def ieee_world_def ieee_uneven_world_def binary64_world_def
      ieee_arith_rep)

subsection \<open>Computing a rounding\<close>

text \<open>
  The value of \<open>binary64 x\<close> from a power of two that scales \<open>x\<close> into
  \<open>[2^52, 2^53)\<close>.
\<close>

lemma round53_eval:
  fixes x :: real
  assumes "2 ^ 52 \<le> x * 2 ^ k" "x * 2 ^ k < 2 ^ 53"
  shows "round53 x = of_int (round_half_even (x * 2 ^ k)) / 2 ^ k"
proof -
  have x: "0 < x"
  proof (rule ccontr)
    assume "\<not> 0 < x"
    then have "x * 2 ^ k \<le> 0" by (simp add: mult_le_0_iff)
    then show False using assms(1) by (smt (verit) zero_less_power)
  qed
  have p: "(2::real) powr (52 - of_nat k) = 2 ^ 52 / 2 ^ k"
    by (simp add: powr_diff powr_realpow)
  have q: "(2::real) powr (53 - of_nat k) = 2 ^ 53 / 2 ^ k"
    by (simp add: powr_diff powr_realpow)
  have "2 powr (of_int (52 - int k)) \<le> x \<and> x < 2 powr (of_int (52 - int k) + 1)"
    using assms by (simp add: p q pos_divide_le_eq pos_less_divide_eq)
  then have e: "\<lfloor>log 2 x\<rfloor> = 52 - int k"
    using floor_log_eq_powr_iff [of x 2 "52 - int k"] x by simp
  have s: "(2::real) powr (of_nat k) = 2 ^ k" by (simp add: powr_realpow)
  have t: "(2::real) powr (- of_nat k) = 1 / 2 ^ k"
    by (simp add: powr_minus_divide powr_realpow)
  show ?thesis by (simp add: round53_def Let_def e s t)
qed

lemma binary64_eval:
  fixes x :: real
  assumes "2 ^ 52 \<le> x * 2 ^ k" "x * 2 ^ k < 2 ^ 53"
  shows "binary64 x = of_int (round_half_even (x * 2 ^ k)) / 2 ^ k"
proof -
  have "0 < x * 2 ^ k" using assms(1) by (smt (verit) zero_less_power)
  then have "0 < x" by (simp add: zero_less_mult_iff)
  then show ?thesis using round53_eval [OF assms] by (simp add: binary64_def)
qed

lemma binary64_at:
  fixes x :: real
  assumes "2 ^ 52 \<le> x * 2 ^ k" "x * 2 ^ k < 2 ^ 53" "round_half_even (x * 2 ^ k) = n"
  shows "binary64 x = of_int n / 2 ^ k"
  using binary64_eval [OF assms(1,2)] assms(3) by simp

text \<open>
  The roundings met in the evaluations below: the literals of the source (each is a float,
  so rounding it again changes nothing), the products of a valuation with base value
  300060 or 300200 and the three factors at the lower ends of their ranges, and the powers,
  products and confidences of a prediction from the current value 403750 with every growth
  rate at 0.002.
\<close>

lemma lit_095: "binary64 (95 / 100) = 8556839292003942 / 2 ^ 53"
  using binary64_at [of "95 / 100" 53 8556839292003942] by (simp add: round_half_even_def power_divide)

lemma fix_095: "binary64 (8556839292003942 / 2 ^ 53) = 8556839292003942 / 2 ^ 53"
  using binary64_at [of "8556839292003942 / 2 ^ 53" 53 8556839292003942] by (simp add: round_half_even_def power_divide)

lemma lit_09: "binary64 (9 / 10) = 8106479329266893 / 2 ^ 53"
  using binary64_at [of "9 / 10" 53 8106479329266893] by (simp add: round_half_even_def power_divide)

lemma fix_09: "binary64 (8106479329266893 / 2 ^ 53) = 8106479329266893 / 2 ^ 53"
  using binary64_at [of "8106479329266893 / 2 ^ 53" 53 8106479329266893] by (simp add: round_half_even_def power_divide)

lemma lit_085: "binary64 (85 / 100) = 7656119366529843 / 2 ^ 53"
  using binary64_at [of "85 / 100" 53 7656119366529843] by (simp add: round_half_even_def power_divide)

lemma fix_085: "binary64 (7656119366529843 / 2 ^ 53) = 7656119366529843 / 2 ^ 53"
  using binary64_at [of "7656119366529843 / 2 ^ 53" 53 7656119366529843] by (simp add: round_half_even_def power_divide)

lemma lit_11: "binary64 (11 / 10) = 4953959590107546 / 2 ^ 52"
  using binary64_at [of "11 / 10" 52 4953959590107546] by (simp add: round_half_even_def power_divide)

lemma fix_11: "binary64 (4953959590107546 / 2 ^ 52) = 4953959590107546 / 2 ^ 52"
  using binary64_at [of "4953959590107546 / 2 ^ 52" 52 4953959590107546] by (simp add: round_half_even_def power_divide)

lemma lit_0002: "binary64 (2 / 1000) = 4611686018427388 / 2 ^ 61"
  using binary64_at [of "2 / 1000" 61 4611686018427388] by (simp add: round_half_even_def power_divide)

lemma fix_0002: "binary64 (4611686018427388 / 2 ^ 61) = 4611686018427388 / 2 ^ 61"
  using binary64_at [of "4611686018427388 / 2 ^ 61" 61 4611686018427388] by (simp add: round_half_even_def power_divide)

lemma lit_005: "binary64 (5 / 100) = 7205759403792794 / 2 ^ 57"
  using binary64_at [of "5 / 100" 57 7205759403792794] by (simp add: round_half_even_def power_divide)

lemma fix_005: "binary64 (7205759403792794 / 2 ^ 57) = 7205759403792794 / 2 ^ 57"
  using binary64_at [of "7205759403792794 / 2 ^ 57" 57 7205759403792794] by (simp add: round_half_even_def power_divide)

lemma lit_05: "binary64 (1 / 2) = 4503599627370496 / 2 ^ 53"
  using binary64_at [of "1 / 2" 53 4503599627370496] by (simp add: round_half_even_def power_divide)

lemma prod300060_1: "binary64 (300060 * (8556839292003942 / 2 ^ 53)) = 4897241969983488 / 2 ^ 34"
  using binary64_at [of "300060 * (8556839292003942 / 2 ^ 53)" 34 4897241969983488] by (simp add: round_half_even_def power_divide)

lemma prod300060_2: "binary64 (4897241969983488 / 2 ^ 34 * (8106479329266893 / 2 ^ 53)) = 8815035545970279 / 2 ^ 35"
  using binary64_at [of "4897241969983488 / 2 ^ 34 * (8106479329266893 / 2 ^ 53)" 35 8815035545970279] by (simp add: round_half_even_def power_divide)

lemma prod300060_3: "binary64 (8815035545970279 / 2 ^ 35 * (7656119366529843 / 2 ^ 53)) = 7492780214074737 / 2 ^ 35"
  using binary64_at [of "8815035545970279 / 2 ^ 35 * (7656119366529843 / 2 ^ 53)" 35 7492780214074737] by (simp add: round_half_even_def power_divide)

lemma prod300060_low: "binary64 (7492780214074737 / 2 ^ 35 * (8106479329266893 / 2 ^ 53)) = 6743502192667263 / 2 ^ 35"
  using binary64_at [of "7492780214074737 / 2 ^ 35 * (8106479329266893 / 2 ^ 53)" 35 6743502192667263] by (simp add: round_half_even_def power_divide)

lemma prod300060_high: "binary64 (7492780214074737 / 2 ^ 35 * (4953959590107546 / 2 ^ 52)) = 8242058235482211 / 2 ^ 35"
  using binary64_at [of "7492780214074737 / 2 ^ 35 * (4953959590107546 / 2 ^ 52)" 35 8242058235482211] by (simp add: round_half_even_def power_divide)

lemma prod300200_1: "binary64 (300200 * (8556839292003942 / 2 ^ 53)) = 4899526892584960 / 2 ^ 34"
  using binary64_at [of "300200 * (8556839292003942 / 2 ^ 53)" 34 4899526892584960] by (simp add: round_half_even_def power_divide)

lemma prod300200_2: "binary64 (4899526892584960 / 2 ^ 34 * (8106479329266893 / 2 ^ 53)) = 8819148406652928 / 2 ^ 35"
  using binary64_at [of "4899526892584960 / 2 ^ 34 * (8106479329266893 / 2 ^ 53)" 35 8819148406652928] by (simp add: round_half_even_def power_divide)

lemma prod300200_3: "binary64 (8819148406652928 / 2 ^ 35 * (7656119366529843 / 2 ^ 53)) = 7496276145654989 / 2 ^ 35"
  using binary64_at [of "8819148406652928 / 2 ^ 35 * (7656119366529843 / 2 ^ 53)" 35 7496276145654989] by (simp add: round_half_even_def power_divide)

lemma prod300200_low: "binary64 (7496276145654989 / 2 ^ 35 * (8106479329266893 / 2 ^ 53)) = 6746648531089490 / 2 ^ 35"
  using binary64_at [of "7496276145654989 / 2 ^ 35 * (8106479329266893 / 2 ^ 53)" 35 6746648531089490] by (simp add: round_half_even_def power_divide)

lemma prod300200_high: "binary64 (7496276145654989 / 2 ^ 35 * (4953959590107546 / 2 ^ 52)) = 8245903760220489 / 2 ^ 35"
  using binary64_at [of "7496276145654989 / 2 ^ 35 * (4953959590107546 / 2 ^ 52)" 35 8245903760220489] by (simp add: round_half_even_def power_divide)

lemma one_plus_rate: "binary64 (1 + 4611686018427388 / 2 ^ 61) = 4512606826625237 / 2 ^ 52"
  using binary64_at [of "1 + 4611686018427388 / 2 ^ 61" 52 4512606826625237] by (simp add: round_half_even_def power_divide)

lemma growth_power_1: "binary64 ((4512606826625237 / 2 ^ 52) ^ 1) = 4512606826625237 / 2 ^ 52"
  using binary64_at [of "(4512606826625237 / 2 ^ 52) ^ 1" 52 4512606826625237] by (simp add: round_half_even_def power_divide)

lemma month_product_1: "binary64 (403750 * (4512606826625237 / 2 ^ 52)) = 6950244927406080 / 2 ^ 34"
  using binary64_at [of "403750 * (4512606826625237 / 2 ^ 52)" 34 6950244927406080] by (simp add: round_half_even_def power_divide)

lemma month_share_1: "binary64 (1 * (7205759403792794 / 2 ^ 57)) = 7205759403792794 / 2 ^ 57"
  using binary64_at [of "1 * (7205759403792794 / 2 ^ 57)" 57 7205759403792794] by (simp add: round_half_even_def power_divide)

lemma month_confidence_1: "binary64 (8556839292003942 / 2 ^ 53 - 7205759403792794 / 2 ^ 57) = 8106479329266892 / 2 ^ 53"
  using binary64_at [of "8556839292003942 / 2 ^ 53 - 7205759403792794 / 2 ^ 57" 53 8106479329266892] by (simp add: round_half_even_def power_divide)

lemma growth_power_2: "binary64 ((4512606826625237 / 2 ^ 52) ^ 2) = 4521632040278487 / 2 ^ 52"
  using binary64_at [of "(4512606826625237 / 2 ^ 52) ^ 2" 52 4521632040278487] by (simp add: round_half_even_def power_divide)

lemma month_product_2: "binary64 (403750 * (4521632040278487 / 2 ^ 52)) = 6964145417260891 / 2 ^ 34"
  using binary64_at [of "403750 * (4521632040278487 / 2 ^ 52)" 34 6964145417260891] by (simp add: round_half_even_def power_divide)

lemma month_share_2: "binary64 (2 * (7205759403792794 / 2 ^ 57)) = 7205759403792794 / 2 ^ 56"
  using binary64_at [of "2 * (7205759403792794 / 2 ^ 57)" 56 7205759403792794] by (simp add: round_half_even_def power_divide)

lemma month_confidence_2: "binary64 (8556839292003942 / 2 ^ 53 - 7205759403792794 / 2 ^ 56) = 7656119366529843 / 2 ^ 53"
  using binary64_at [of "8556839292003942 / 2 ^ 53 - 7205759403792794 / 2 ^ 56" 53 7656119366529843] by (simp add: round_half_even_def power_divide)

lemma growth_power_3: "binary64 ((4512606826625237 / 2 ^ 52) ^ 3) = 4530675304359044 / 2 ^ 52"
  using binary64_at [of "(4512606826625237 / 2 ^ 52) ^ 3" 52 4530675304359044] by (simp add: round_half_even_def power_divide)

lemma month_product_3: "binary64 (403750 * (4530675304359044 / 2 ^ 52)) = 6978073708095413 / 2 ^ 34"
  using binary64_at [of "403750 * (4530675304359044 / 2 ^ 52)" 34 6978073708095413] by (simp add: round_half_even_def power_divide)

lemma month_share_3: "binary64 (3 * (7205759403792794 / 2 ^ 57)) = 5404319552844596 / 2 ^ 55"
  using binary64_at [of "3 * (7205759403792794 / 2 ^ 57)" 55 5404319552844596] by (simp add: round_half_even_def power_divide)

lemma month_confidence_3: "binary64 (8556839292003942 / 2 ^ 53 - 5404319552844596 / 2 ^ 55) = 7205759403792793 / 2 ^ 53"
  using binary64_at [of "8556839292003942 / 2 ^ 53 - 5404319552844596 / 2 ^ 55" 53 7205759403792793] by (simp add: round_half_even_def power_divide)

lemma growth_power_4: "binary64 ((4512606826625237 / 2 ^ 52) ^ 4) = 4539736654967763 / 2 ^ 52"
  using binary64_at [of "(4512606826625237 / 2 ^ 52) ^ 4" 52 4539736654967763] by (simp add: round_half_even_def power_divide)

lemma month_product_4: "binary64 (403750 * (4539736654967763 / 2 ^ 52)) = 6992029855511605 / 2 ^ 34"
  using binary64_at [of "403750 * (4539736654967763 / 2 ^ 52)" 34 6992029855511605] by (simp add: round_half_even_def power_divide)

lemma month_share_4: "binary64 (4 * (7205759403792794 / 2 ^ 57)) = 7205759403792794 / 2 ^ 55"
  using binary64_at [of "4 * (7205759403792794 / 2 ^ 57)" 55 7205759403792794] by (simp add: round_half_even_def power_divide)

lemma month_confidence_4: "binary64 (8556839292003942 / 2 ^ 53 - 7205759403792794 / 2 ^ 55) = 6755399441055744 / 2 ^ 53"
  using binary64_at [of "8556839292003942 / 2 ^ 53 - 7205759403792794 / 2 ^ 55" 53 6755399441055744] by (simp add: round_half_even_def power_divide)

lemma growth_power_5: "binary64 ((4512606826625237 / 2 ^ 52) ^ 5) = 4548816128277698 / 2 ^ 52"
  using binary64_at [of "(4512606826625237 / 2 ^ 52) ^ 5" 52 4548816128277698] by (simp add: round_half_even_def power_divide)

lemma month_product_5: "binary64 (403750 * (4548816128277698 / 2 ^ 52)) = 7006013915222628 / 2 ^ 34"
  using binary64_at [of "403750 * (4548816128277698 / 2 ^ 52)" 34 7006013915222628] by (simp add: round_half_even_def power_divide)

lemma month_share_5: "binary64 (5 * (7205759403792794 / 2 ^ 57)) = 4503599627370496 / 2 ^ 54"
  using binary64_at [of "5 * (7205759403792794 / 2 ^ 57)" 54 4503599627370496] by (simp add: round_half_even_def power_divide)

lemma month_confidence_5: "binary64 (8556839292003942 / 2 ^ 53 - 4503599627370496 / 2 ^ 54) = 6305039478318694 / 2 ^ 53"
  using binary64_at [of "8556839292003942 / 2 ^ 53 - 4503599627370496 / 2 ^ 54" 53 6305039478318694] by (simp add: round_half_even_def power_divide)

lemma growth_power_6: "binary64 ((4512606826625237 / 2 ^ 52) ^ 6) = 4557913760534253 / 2 ^ 52"
  using binary64_at [of "(4512606826625237 / 2 ^ 52) ^ 6" 52 4557913760534253] by (simp add: round_half_even_def power_divide)

lemma month_product_6: "binary64 (403750 * (4557913760534253 / 2 ^ 52)) = 7020025943053073 / 2 ^ 34"
  using binary64_at [of "403750 * (4557913760534253 / 2 ^ 52)" 34 7020025943053073] by (simp add: round_half_even_def power_divide)

lemma month_share_6: "binary64 (6 * (7205759403792794 / 2 ^ 57)) = 5404319552844596 / 2 ^ 54"
  using binary64_at [of "6 * (7205759403792794 / 2 ^ 57)" 54 5404319552844596] by (simp add: round_half_even_def power_divide)

lemma month_confidence_6: "binary64 (8556839292003942 / 2 ^ 53 - 5404319552844596 / 2 ^ 54) = 5854679515581644 / 2 ^ 53"
  using binary64_at [of "8556839292003942 / 2 ^ 53 - 5404319552844596 / 2 ^ 54" 53 5854679515581644] by (simp add: round_half_even_def power_divide)

lemma growth_power_7: "binary64 ((4512606826625237 / 2 ^ 52) ^ 7) = 4567029588055322 / 2 ^ 52"
  using binary64_at [of "(4512606826625237 / 2 ^ 52) ^ 7" 52 4567029588055322] by (simp add: round_half_even_def power_divide)

lemma month_product_7: "binary64 (403750 * (4567029588055322 / 2 ^ 52)) = 7034065994939179 / 2 ^ 34"
  using binary64_at [of "403750 * (4567029588055322 / 2 ^ 52)" 34 7034065994939179] by (simp add: round_half_even_def power_divide)

lemma month_share_7: "binary64 (7 * (7205759403792794 / 2 ^ 57)) = 6305039478318695 / 2 ^ 54"
  using binary64_at [of "7 * (7205759403792794 / 2 ^ 57)" 54 6305039478318695] by (simp add: round_half_even_def power_divide)

lemma month_confidence_7: "binary64 (8556839292003942 / 2 ^ 53 - 6305039478318695 / 2 ^ 54) = 5404319552844594 / 2 ^ 53"
  using binary64_at [of "8556839292003942 / 2 ^ 53 - 6305039478318695 / 2 ^ 54" 53 5404319552844594] by (simp add: round_half_even_def power_divide)

lemma growth_power_8: "binary64 ((4512606826625237 / 2 ^ 52) ^ 8) = 4576163647231433 / 2 ^ 52"
  using binary64_at [of "(4512606826625237 / 2 ^ 52) ^ 8" 52 4576163647231433] by (simp add: round_half_even_def power_divide)

lemma month_product_8: "binary64 (403750 * (4576163647231433 / 2 ^ 52)) = 7048134126929058 / 2 ^ 34"
  using binary64_at [of "403750 * (4576163647231433 / 2 ^ 52)" 34 7048134126929058] by (simp add: round_half_even_def power_divide)

lemma month_share_8: "binary64 (8 * (7205759403792794 / 2 ^ 57)) = 7205759403792794 / 2 ^ 54"
  using binary64_at [of "8 * (7205759403792794 / 2 ^ 57)" 54 7205759403792794] by (simp add: round_half_even_def power_divide)

lemma month_confidence_8: "binary64 (8556839292003942 / 2 ^ 53 - 7205759403792794 / 2 ^ 54) = 4953959590107545 / 2 ^ 53"
  using binary64_at [of "8556839292003942 / 2 ^ 53 - 7205759403792794 / 2 ^ 54" 53 4953959590107545] by (simp add: round_half_even_def power_divide)

lemma growth_power_9: "binary64 ((4512606826625237 / 2 ^ 52) ^ 9) = 4585315974525896 / 2 ^ 52"
  using binary64_at [of "(4512606826625237 / 2 ^ 52) ^ 9" 52 4585315974525896] by (simp add: round_half_even_def power_divide)

lemma month_product_9: "binary64 (403750 * (4585315974525896 / 2 ^ 52)) = 7062230395182917 / 2 ^ 34"
  using binary64_at [of "403750 * (4585315974525896 / 2 ^ 52)" 34 7062230395182917] by (simp add: round_half_even_def power_divide)

lemma month_share_9: "binary64 (9 * (7205759403792794 / 2 ^ 57)) = 8106479329266893 / 2 ^ 54"
  using binary64_at [of "9 * (7205759403792794 / 2 ^ 57)" 54 8106479329266893] by (simp add: round_half_even_def power_divide)

lemma month_confidence_9: "binary64 (8556839292003942 / 2 ^ 53 - 8106479329266893 / 2 ^ 54) = 9007199254740991 / 2 ^ 54"
  using binary64_at [of "8556839292003942 / 2 ^ 53 - 8106479329266893 / 2 ^ 54" 54 9007199254740991] by (simp add: round_half_even_def power_divide)

lemma growth_power_10: "binary64 ((4512606826625237 / 2 ^ 52) ^ 10) = 4594486606474947 / 2 ^ 52"
  using binary64_at [of "(4512606826625237 / 2 ^ 52) ^ 10" 52 4594486606474947] by (simp add: round_half_even_def power_divide)

lemma month_product_10: "binary64 (403750 * (4594486606474947 / 2 ^ 52)) = 7076354855973281 / 2 ^ 34"
  using binary64_at [of "403750 * (4594486606474947 / 2 ^ 52)" 34 7076354855973281] by (simp add: round_half_even_def power_divide)

lemma month_share_10: "binary64 (10 * (7205759403792794 / 2 ^ 57)) = 4503599627370496 / 2 ^ 53"
  using binary64_at [of "10 * (7205759403792794 / 2 ^ 57)" 53 4503599627370496] by (simp add: round_half_even_def power_divide)

lemma month_confidence_10: "binary64 (8556839292003942 / 2 ^ 53 - 4503599627370496 / 2 ^ 53) = 8106479329266892 / 2 ^ 54"
  using binary64_at [of "8556839292003942 / 2 ^ 53 - 4503599627370496 / 2 ^ 53" 54 8106479329266892] by (simp add: round_half_even_def power_divide)

lemma growth_power_11: "binary64 ((4512606826625237 / 2 ^ 52) ^ 11) = 4603675579687897 / 2 ^ 52"
  using binary64_at [of "(4512606826625237 / 2 ^ 52) ^ 11" 52 4603675579687897] by (simp add: round_half_even_def power_divide)

lemma month_product_11: "binary64 (403750 * (4603675579687897 / 2 ^ 52)) = 7090507565685228 / 2 ^ 34"
  using binary64_at [of "403750 * (4603675579687897 / 2 ^ 52)" 34 7090507565685228] by (simp add: round_half_even_def power_divide)

lemma month_share_11: "binary64 (11 * (7205759403792794 / 2 ^ 57)) = 4953959590107546 / 2 ^ 53"
  using binary64_at [of "11 * (7205759403792794 / 2 ^ 57)" 53 4953959590107546] by (simp add: round_half_even_def power_divide)

lemma month_confidence_11: "binary64 (8556839292003942 / 2 ^ 53 - 4953959590107546 / 2 ^ 53) = 7205759403792792 / 2 ^ 54"
  using binary64_at [of "8556839292003942 / 2 ^ 53 - 4953959590107546 / 2 ^ 53" 54 7205759403792792] by (simp add: round_half_even_def power_divide)

lemma growth_power_12: "binary64 ((4512606826625237 / 2 ^ 52) ^ 12) = 4612882930847273 / 2 ^ 52"
  using binary64_at [of "(4512606826625237 / 2 ^ 52) ^ 12" 52 4612882930847273] by (simp add: round_half_even_def power_divide)

lemma month_product_12: "binary64 (403750 * (4612882930847273 / 2 ^ 52)) = 7104688580816599 / 2 ^ 34"
  using binary64_at [of "403750 * (4612882930847273 / 2 ^ 52)" 34 7104688580816599] by (simp add: round_half_even_def power_divide)

lemma month_share_12: "binary64 (12 * (7205759403792794 / 2 ^ 57)) = 5404319552844596 / 2 ^ 53"
  using binary64_at [of "12 * (7205759403792794 / 2 ^ 57)" 53 5404319552844596] by (simp add: round_half_even_def power_divide)

lemma month_confidence_12: "binary64 (8556839292003942 / 2 ^ 53 - 5404319552844596 / 2 ^ 53) = 6305039478318692 / 2 ^ 54"
  using binary64_at [of "8556839292003942 / 2 ^ 53 - 5404319552844596 / 2 ^ 53" 54 6305039478318692] by (simp add: round_half_even_def power_divide)

lemma lit_0008: "binary64 (8 / 1000) = 4611686018427388 / 2 ^ 59"
  using binary64_at [of "8 / 1000" 59 4611686018427388] by (simp add: round_half_even_def power_divide)

lemma rate_width: "binary64 (4611686018427388 / 2 ^ 59 - 4611686018427388 / 2 ^ 61) = 6917529027641082 / 2 ^ 60"
  using binary64_at [of "4611686018427388 / 2 ^ 59 - 4611686018427388 / 2 ^ 61" 60 6917529027641082] by (simp add: round_half_even_def power_divide)

lemma half_width: "binary64 (6917529027641082 / 2 ^ 60 * (1 / 2)) = 6917529027641082 / 2 ^ 61"
  using binary64_at [of "6917529027641082 / 2 ^ 60 * (1 / 2)" 61 6917529027641082] by (simp add: round_half_even_def power_divide)

lemma uneven_rate: "binary64 (4611686018427388 / 2 ^ 61 + 6917529027641082 / 2 ^ 61) = 5764607523034235 / 2 ^ 60"
  using binary64_at [of "4611686018427388 / 2 ^ 61 + 6917529027641082 / 2 ^ 61" 60 5764607523034235] by (simp add: round_half_even_def power_divide)

lemma uneven_base_1: "binary64 (1 + 5764607523034235 / 2 ^ 60) = 4526117625507348 / 2 ^ 52"
  using binary64_at [of "1 + 5764607523034235 / 2 ^ 60" 52 4526117625507348] by (simp add: round_half_even_def power_divide)

lemma uneven_power_1: "binary64 ((4526117625507348 / 2 ^ 52) ^ 1) = 4526117625507348 / 2 ^ 52"
  using binary64_at [of "(4526117625507348 / 2 ^ 52) ^ 1" 52 4526117625507348] by (simp add: round_half_even_def power_divide)

lemma uneven_product_1: "binary64 (400000 * (4526117625507348 / 2 ^ 52)) = 6906307411967999 / 2 ^ 34"
  using binary64_at [of "400000 * (4526117625507348 / 2 ^ 52)" 34 6906307411967999] by (simp add: round_half_even_def power_divide)

lemma uneven_product_2: "binary64 (400000 * (4521632040278487 / 2 ^ 52)) = 6899462952085094 / 2 ^ 34"
  using binary64_at [of "400000 * (4521632040278487 / 2 ^ 52)" 34 6899462952085094] by (simp add: round_half_even_def power_divide)

lemma uneven_rounded_2: "binary64 (40160160 / 100) = 6899462952085094 / 2 ^ 34"
  using binary64_at [of "40160160 / 100" 34 6899462952085094] by (simp add: round_half_even_def power_divide)

subsection \<open>The handlers in binary64\<close>

lemma binary64_zero: "binary64 0 = 0"
  by (simp add: binary64_def)

lemma ieee_first_draw:
  "fst (randint a b (ieee_world k)) = a + int (k mod nat (b - a + 1))"
  "snd (randint a b (ieee_world k)) = ieee_world k\<lparr>rand_pos := Suc 0\<rparr>"
  by (simp_all add: randint_fst_snd ieee_world_def binary64_world_def)

lemma ieee_later_draw:
  "fst (uniform (PFloat (lit (ieee_world k) a)) (PFloat (lit (ieee_world k) b))
         (ieee_world k\<lparr>rand_pos := Suc p\<rparr>)) = binary64 (binary64 a)"
  "snd (uniform x y (ieee_world k\<lparr>rand_pos := Suc p\<rparr>)) = ieee_world k\<lparr>rand_pos := Suc (Suc p)\<rparr>"
  by (simp_all add: uniform_fst uniform_snd fadd_def fmul_def lit_def rnd_def ieee_arith_rep
      binary64_zero ieee_world_def binary64_world_def)

lemma ieee_growth_rate:
  "0 < i \<Longrightarrow> nth_growth_rate (ieee_world k) i = 4611686018427388 / 2 ^ 61"
proof -
  assume "0 < i"
  then obtain p where i: "i = Suc p"
    by (cases i) simp_all
  have "nth_growth_rate (ieee_world k) i =
      fst (uniform (PFloat (lit (ieee_world k) (2 / 1000))) (PFloat (lit (ieee_world k) (8 / 1000)))
             (ieee_world k\<lparr>rand_pos := Suc p\<rparr>))"
    by (simp add: nth_growth_rate_def i ieee_world_def binary64_world_def)
  then show ?thesis
    unfolding ieee_later_draw lit_0002 fix_0002 .
qed

text \<open>
  A valuation with base value 300060 and the three factors 0.95, 0.9 and 0.85. The exact
  product is 218068.605, a tie between two cents; the float product lies above it and the
  current value is 218068.61. With base value 300200 the upper end of the range is
  239987.39, where the exact value 239987.385 would be rounded to 239987.38.
\<close>

lemma exact_valuation_cents:
  "round_half_even (300060 * (95 / 100) * (9 / 10) * (85 / 100) * 100) = 21806860"
  "round_half_even (300200 * (95 / 100) * (9 / 10) * (85 / 100) * (11 / 10) * 100) = 23998738"
  by (simp_all add: round_half_even_def)

lemma ieee_valuation_300060:
  "\<exists>b w'. property_valuation property_id (ieee_world 60) =
            Some (\<lparr>statusCode = 200, body = b\<rparr>, w') \<and>
     subscript b ''current_value'' = Some (JFloat (binary64 (21806861 / 100))) \<and>
     subscript b ''value_range'' =
       Some (JObj [(''low'', JFloat (binary64 (19626174 / 100))),
                   (''high'', JFloat (binary64 (23987547 / 100)))])"
proof -
  let ?w = "ieee_world 60"
  let ?w1 = "snd (randint 300000 800000 ?w)"
  let ?m = "fst (uniform (PFloat (lit ?w (95 / 100))) (PFloat (lit ?w (115 / 100))) ?w1)"
  let ?w2 = "snd (uniform (PFloat (lit ?w (95 / 100))) (PFloat (lit ?w (115 / 100))) ?w1)"
  let ?l = "fst (uniform (PFloat (lit ?w (9 / 10))) (PFloat (lit ?w (12 / 10))) ?w2)"
  let ?w3 = "snd (uniform (PFloat (lit ?w (9 / 10))) (PFloat (lit ?w (12 / 10))) ?w2)"
  let ?c = "fst (uniform (PFloat (lit ?w (85 / 100))) (PFloat (lit ?w (11 / 10))) ?w3)"
  let ?p = "fmul ?w (fmul ?w (fmul ?w (float_of_int ?w (fst (randint 300000 800000 ?w))) ?m) ?l) ?c"
  have base: "float_of_int ?w (fst (randint 300000 800000 ?w)) = 300060"
    by (simp add: ieee_first_draw float_of_int_def)
  have m: "?m = 8556839292003942 / 2 ^ 53"
    unfolding ieee_first_draw ieee_later_draw lit_095 fix_095 ..
  have l: "?l = 8106479329266893 / 2 ^ 53"
    unfolding ieee_first_draw ieee_later_draw lit_09 fix_09 ..
  have c: "?c = 7656119366529843 / 2 ^ 53"
    unfolding ieee_first_draw ieee_later_draw lit_085 fix_085 ..
  have p: "?p = 7492780214074737 / 2 ^ 35"
    unfolding base m l c fmul_def rnd_ieee prod300060_1 prod300060_2 prod300060_3 ..
  have v: "py_round ?w ?p 2 = binary64 (21806861 / 100)"
    unfolding p unfolding py_round_def rnd_ieee by (simp add: round_half_even_def)
  have lo: "py_round ?w (fmul ?w ?p (lit ?w (9 / 10))) 2 = binary64 (19626174 / 100)"
    unfolding p unfolding fmul_def lit_def rnd_ieee lit_09 prod300060_low py_round_def
    by (simp add: round_half_even_def)
  have hi: "py_round ?w (fmul ?w ?p (lit ?w (11 / 10))) 2 = binary64 (23987547 / 100)"
    unfolding p unfolding fmul_def lit_def rnd_ieee lit_11 prod300060_high py_round_def
    by (simp add: round_half_even_def)
  show ?thesis
    using v lo hi by (simp add: property_valuation_def split_def Let_def)
qed


lemma ieee_valuation_300200:
  "\<exists>b w'. property_valuation property_id (ieee_world 200) =
            Some (\<lparr>statusCode = 200, body = b\<rparr>, w') \<and>
     subscript b ''current_value'' = Some (JFloat (binary64 (21817035 / 100))) \<and>
     subscript b ''value_range'' =
       Some (JObj [(''low'', JFloat (binary64 (19635332 / 100))),
                   (''high'', JFloat (binary64 (23998739 / 100)))])"
proof -
  let ?w = "ieee_world 200"
  let ?w1 = "snd (randint 300000 800000 ?w)"
  let ?m = "fst (uniform (PFloat (lit ?w (95 / 100))) (PFloat (lit ?w (115 / 100))) ?w1)"
  let ?w2 = "snd (uniform (PFloat (lit ?w (95 / 100))) (PFloat (lit ?w (115 / 100))) ?w1)"
  let ?l = "fst (uniform (PFloat (lit ?w (9 / 10))) (PFloat (lit ?w (12 / 10))) ?w2)"
  let ?w3 = "snd (uniform (PFloat (lit ?w (9 / 10))) (PFloat (lit ?w (12 / 10))) ?w2)"
  let ?c = "fst (uniform (PFloat (lit ?w (85 / 100))) (PFloat (lit ?w (11 / 10))) ?w3)"
  let ?p = "fmul ?w (fmul ?w (fmul ?w (float_of_int ?w (fst (randint 300000 800000 ?w))) ?m) ?l) ?c"
  have base: "float_of_int ?w (fst (randint 300000 800000 ?w)) = 300200"
    by (simp add: ieee_first_draw float_of_int_def)
  have m: "?m = 8556839292003942 / 2 ^ 53"
    unfolding ieee_first_draw ieee_later_draw lit_095 fix_095 ..
  have l: "?l = 8106479329266893 / 2 ^ 53"
    unfolding ieee_first_draw ieee_later_draw lit_09 fix_09 ..
  have c: "?c = 7656119366529843 / 2 ^ 53"
    unfolding ieee_first_draw ieee_later_draw lit_085 fix_085 ..
  have p: "?p = 7496276145654989 / 2 ^ 35"
    unfolding base m l c fmul_def rnd_ieee prod300200_1 prod300200_2 prod300200_3 ..
  have v: "py_round ?w ?p 2 = binary64 (21817035 / 100)"
    unfolding p unfolding py_round_def rnd_ieee by (simp add: round_half_even_def)
  have lo: "py_round ?w (fmul ?w ?p (lit ?w (9 / 10))) 2 = binary64 (19635332 / 100)"
    unfolding p unfolding fmul_def lit_def rnd_ieee lit_09 prod300200_low py_round_def
    by (simp add: round_half_even_def)
  have hi: "py_round ?w (fmul ?w ?p (lit ?w (11 / 10))) 2 = binary64 (23998739 / 100)"
    unfolding p unfolding fmul_def lit_def rnd_ieee lit_11 prod300200_high py_round_def
    by (simp add: round_half_even_def)
  show ?thesis
    using v lo hi by (simp add: property_valuation_def split_def Let_def)
qed

text \<open>
  A prediction from the current value 403750 with every growth rate at 0.002: the twelve
  entries of \<open>predictions\<close>. The predicted value of month 2 is 405366.61, where the
  exact value 405366.615 would be rounded to 405366.62, and the confidence of month 1 is
  the float below 0.9 (printed \<^verbatim>\<open>0.8999999999999999\<close>).
\<close>

lemma exact_prediction_cents:
  "round_half_even (403750 * (1 + 2 / 1000) ^ 2 * 100) = 40536662"
  by (simp add: round_half_even_def power2_eq_square)

lemma ieee_current_value:
  "fst (randint 400000 700000 (ieee_world 3750)) = 403750"
  "float_of_int (ieee_world 3750) 403750 = 403750"
  "float_of_int (ieee_world 3750) 1 = 1"
  by (simp_all add: ieee_first_draw float_of_int_def)


lemma ieee_predicted_value_1:
  "py_round (ieee_world 3750)
     (fmul (ieee_world 3750) (float_of_int (ieee_world 3750) (fst (randint 400000 700000 (ieee_world 3750))))
        (fpow (ieee_world 3750)
           (fadd (ieee_world 3750) (float_of_int (ieee_world 3750) 1)
              (nth_growth_rate (ieee_world 3750) 1)) 1)) 2 =
   binary64 (40455750 / 100)"
proof -
  have r: "nth_growth_rate (ieee_world 3750) 1 = 4611686018427388 / 2 ^ 61"
    by (rule ieee_growth_rate) simp
  show ?thesis
    unfolding r ieee_current_value
    unfolding fadd_def fpow_ieee fmul_def rnd_ieee one_plus_rate growth_power_1 month_product_1
      py_round_def
    by (simp add: round_half_even_def)
qed


lemma ieee_confidence_1:
  "max (fsub (ieee_world 3750) (lit (ieee_world 3750) (95 / 100))
          (fmul (ieee_world 3750) (float_of_int (ieee_world 3750) (int 1))
             (lit (ieee_world 3750) (5 / 100))))
       (lit (ieee_world 3750) (1 / 2)) = 8106479329266892 / 2 ^ 53"
proof -
  have i: "float_of_int (ieee_world 3750) (int 1) = 1"
    by (simp add: float_of_int_def)
  show ?thesis
    unfolding i fsub_def fmul_def lit_def rnd_ieee lit_095 lit_005 lit_05 month_share_1
      month_confidence_1
    by (simp add: max_def)
qed


lemma ieee_predicted_value_2:
  "py_round (ieee_world 3750)
     (fmul (ieee_world 3750) (float_of_int (ieee_world 3750) (fst (randint 400000 700000 (ieee_world 3750))))
        (fpow (ieee_world 3750)
           (fadd (ieee_world 3750) (float_of_int (ieee_world 3750) 1)
              (nth_growth_rate (ieee_world 3750) 2)) 2)) 2 =
   binary64 (40536661 / 100)"
proof -
  have r: "nth_growth_rate (ieee_world 3750) 2 = 4611686018427388 / 2 ^ 61"
    by (rule ieee_growth_rate) simp
  show ?thesis
    unfolding r ieee_current_value
    unfolding fadd_def fpow_ieee fmul_def rnd_ieee one_plus_rate growth_power_2 month_product_2
      py_round_def
    by (simp add: round_half_even_def)
qed


lemma ieee_confidence_2:
  "max (fsub (ieee_world 3750) (lit (ieee_world 3750) (95 / 100))
          (fmul (ieee_world 3750) (float_of_int (ieee_world 3750) (int 2))
             (lit (ieee_world 3750) (5 / 100))))
       (lit (ieee_world 3750) (1 / 2)) = 7656119366529843 / 2 ^ 53"
proof -
  have i: "float_of_int (ieee_world 3750) (int 2) = 2"
    by (simp add: float_of_int_def)
  show ?thesis
    unfolding i fsub_def fmul_def lit_def rnd_ieee lit_095 lit_005 lit_05 month_share_2
      month_confidence_2
    by (simp add: max_def)
qed


lemma ieee_predicted_value_3:
  "py_round (ieee_world 3750)
     (fmul (ieee_world 3750) (float_of_int (ieee_world 3750) (fst (randint 400000 700000 (ieee_world 3750))))
        (fpow (ieee_world 3750)
           (fadd (ieee_world 3750) (float_of_int (ieee_world 3750) 1)
              (nth_growth_rate (ieee_world 3750) 3)) 3)) 2 =
   binary64 (40617735 / 100)"
proof -
  have r: "nth_growth_rate (ieee_world 3750) 3 = 4611686018427388 / 2 ^ 61"
    by (rule ieee_growth_rate) simp
  show ?thesis
    unfolding r ieee_current_value
    unfolding fadd_def fpow_ieee fmul_def rnd_ieee one_plus_rate growth_power_3 month_product_3
      py_round_def
    by (simp add: round_half_even_def)
qed


lemma ieee_confidence_3:
  "max (fsub (ieee_world 3750) (lit (ieee_world 3750) (95 / 100))
          (fmul (ieee_world 3750) (float_of_int (ieee_world 3750) (int 3))
             (lit (ieee_world 3750) (5 / 100))))
       (lit (ieee_world 3750) (1 / 2)) = 7205759403792793 / 2 ^ 53"
proof -
  have i: "float_of_int (ieee_world 3750) (int 3) = 3"
    by (simp add: float_of_int_def)
  show ?thesis
    unfolding i fsub_def fmul_def lit_def rnd_ieee lit_095 lit_005 lit_05 month_share_3
      month_confidence_3
    by (simp add: max_def)
qed


lemma ieee_predicted_value_4:
  "py_round (ieee_world 3750)
     (fmul (ieee_world 3750) (float_of_int (ieee_world 3750) (fst (randint 400000 700000 (ieee_world 3750))))
        (fpow (ieee_world 3750)
           (fadd (ieee_world 3750) (float_of_int (ieee_world 3750) 1)
              (nth_growth_rate (ieee_world 3750) 4)) 4)) 2 =
   binary64 (40698970 / 100)"
proof -
  have r: "nth_growth_rate (ieee_world 3750) 4 = 4611686018427388 / 2 ^ 61"
    by (rule ieee_growth_rate) simp
  show ?thesis
    unfolding r ieee_current_value
    unfolding fadd_def fpow_ieee fmul_def rnd_ieee one_plus_rate growth_power_4 month_product_4
      py_round_def
    by (simp add: round_half_even_def)
qed


lemma ieee_confidence_4:
  "max (fsub (ieee_world 3750) (lit (ieee_world 3750) (95 / 100))
          (fmul (ieee_world 3750) (float_of_int (ieee_world 3750) (int 4))
             (lit (ieee_world 3750) (5 / 100))))
       (lit (ieee_world 3750) (1 / 2)) = 6755399441055744 / 2 ^ 53"
proof -
  have i: "float_of_int (ieee_world 3750) (int 4) = 4"
    by (simp add: float_of_int_def)
  show ?thesis
    unfolding i fsub_def fmul_def lit_def rnd_ieee lit_095 lit_005 lit_05 month_share_4
      month_confidence_4
    by (simp add: max_def)
qed


lemma ieee_predicted_value_5:
  "py_round (ieee_world 3750)
     (fmul (ieee_world 3750) (float_of_int (ieee_world 3750) (fst (randint 400000 700000 (ieee_world 3750))))
        (fpow (ieee_world 3750)
           (fadd (ieee_world 3750) (float_of_int (ieee_world 3750) 1)
              (nth_growth_rate (ieee_world 3750) 5)) 5)) 2 =
   binary64 (40780368 / 100)"
proof -
  have r: "nth_growth_rate (ieee_world 3750) 5 = 4611686018427388 / 2 ^ 61"
    by (rule ieee_growth_rate) simp
  show ?thesis
    unfolding r ieee_current_value
    unfolding fadd_def fpow_ieee fmul_def rnd_ieee one_plus_rate growth_power_5 month_product_5
      py_round_def
    by (simp add: round_half_even_def)
qed


lemma ieee_confidence_5:
  "max (fsub (ieee_world 3750) (lit (ieee_world 3750) (95 / 100))
          (fmul (ieee_world 3750) (float_of_int (ieee_world 3750) (int 5))
             (lit (ieee_world 3750) (5 / 100))))
       (lit (ieee_world 3750) (1 / 2)) = 6305039478318694 / 2 ^ 53"
proof -
  have i: "float_of_int (ieee_world 3750) (int 5) = 5"
    by (simp add: float_of_int_def)
  show ?thesis
    unfolding i fsub_def fmul_def lit_def rnd_ieee lit_095 lit_005 lit_05 month_share_5
      month_confidence_5
    by (simp add: max_def)
qed


lemma ieee_predicted_value_6:
  "py_round (ieee_world 3750)
     (fmul (ieee_world 3750) (float_of_int (ieee_world 3750) (fst (randint 400000 700000 (ieee_world 3750))))
        (fpow (ieee_world 3750)
           (fadd (ieee_world 3750) (float_of_int (ieee_world 3750) 1)
              (nth_growth_rate (ieee_world 3750) 6)) 6)) 2 =
   binary64 (40861929 / 100)"
proof -
  have r: "nth_growth_rate (ieee_world 3750) 6 = 4611686018427388 / 2 ^ 61"
    by (rule ieee_growth_rate) simp
  show ?thesis
    unfolding r ieee_current_value
    unfolding fadd_def fpow_ieee fmul_def rnd_ieee one_plus_rate growth_power_6 month_product_6
      py_round_def
    by (simp add: round_half_even_def)
qed


lemma ieee_confidence_6:
  "max (fsub (ieee_world 3750) (lit (ieee_world 3750) (95 / 100))
          (fmul (ieee_world 3750) (float_of_int (ieee_world 3750) (int 6))
             (lit (ieee_world 3750) (5 / 100))))
       (lit (ieee_world 3750) (1 / 2)) = 5854679515581644 / 2 ^ 53"
proof -
  have i: "float_of_int (ieee_world 3750) (int 6) = 6"
    by (simp add: float_of_int_def)
  show ?thesis
    unfolding i fsub_def fmul_def lit_def rnd_ieee lit_095 lit_005 lit_05 month_share_6
      month_confidence_6
    by (simp add: max_def)
qed


lemma ieee_predicted_value_7:
  "py_round (ieee_world 3750)
     (fmul (ieee_world 3750) (float_of_int (ieee_world 3750) (fst (randint 400000 700000 (ieee_world 3750))))
        (fpow (ieee_world 3750)
           (fadd (ieee_world 3750) (float_of_int (ieee_world 3750) 1)
              (nth_growth_rate (ieee_world 3750) 7)) 7)) 2 =
   binary64 (40943653 / 100)"
proof -
  have r: "nth_growth_rate (ieee_world 3750) 7 = 4611686018427388 / 2 ^ 61"
    by (rule ieee_growth_rate) simp
  show ?thesis
    unfolding r ieee_current_value
    unfolding fadd_def fpow_ieee fmul_def rnd_ieee one_plus_rate growth_power_7 month_product_7
      py_round_def
    by (simp add: round_half_even_def)
qed


lemma ieee_confidence_7:
  "max (fsub (ieee_world 3750) (lit (ieee_world 3750) (95 / 100))
          (fmul (ieee_world 3750) (float_of_int (ieee_world 3750) (int 7))
             (lit (ieee_world 3750) (5 / 100))))
       (lit (ieee_world 3750) (1 / 2)) = 5404319552844594 / 2 ^ 53"
proof -
  have i: "float_of_int (ieee_world 3750) (int 7) = 7"
    by (simp add: float_of_int_def)
  show ?thesis
    unfolding i fsub_def fmul_def lit_def rnd_ieee lit_095 lit_005 lit_05 month_share_7
      month_confidence_7
    by (simp add: max_def)
qed


lemma ieee_predicted_value_8:
  "py_round (ieee_world 3750)
     (fmul (ieee_world 3750) (float_of_int (ieee_world 3750) (fst (randint 400000 700000 (ieee_world 3750))))
        (fpow (ieee_world 3750)
           (fadd (ieee_world 3750) (float_of_int (ieee_world 3750) 1)
              (nth_growth_rate (ieee_world 3750) 8)) 8)) 2 =
   binary64 (41025540 / 100)"
proof -
  have r: "nth_growth_rate (ieee_world 3750) 8 = 4611686018427388 / 2 ^ 61"
    by (rule ieee_growth_rate) simp
  show ?thesis
    unfolding r ieee_current_value
    unfolding fadd_def fpow_ieee fmul_def rnd_ieee one_plus_rate growth_power_8 month_product_8
      py_round_def
    by (simp add: round_half_even_def)
qed


lemma ieee_confidence_8:
  "max (fsub (ieee_world 3750) (lit (ieee_world 3750) (95 / 100))
          (fmul (ieee_world 3750) (float_of_int (ieee_world 3750) (int 8))
             (lit (ieee_world 3750) (5 / 100))))
       (lit (ieee_world 3750) (1 / 2)) = 4953959590107545 / 2 ^ 53"
proof -
  have i: "float_of_int (ieee_world 3750) (int 8) = 8"
    by (simp add: float_of_int_def)
  show ?thesis
    unfolding i fsub_def fmul_def lit_def rnd_ieee lit_095 lit_005 lit_05 month_share_8
      month_confidence_8
    by (simp add: max_def)
qed


lemma ieee_predicted_value_9:
  "py_round (ieee_world 3750)
     (fmul (ieee_world 3750) (float_of_int (ieee_world 3750) (fst (randint 400000 700000 (ieee_world 3750))))
        (fpow (ieee_world 3750)
           (fadd (ieee_world 3750) (float_of_int (ieee_world 3750) 1)
              (nth_growth_rate (ieee_world 3750) 9)) 9)) 2 =
   binary64 (41107591 / 100)"
proof -
  have r: "nth_growth_rate (ieee_world 3750) 9 = 4611686018427388 / 2 ^ 61"
    by (rule ieee_growth_rate) simp
  show ?thesis
    unfolding r ieee_current_value
    unfolding fadd_def fpow_ieee fmul_def rnd_ieee one_plus_rate growth_power_9 month_product_9
      py_round_def
    by (simp add: round_half_even_def)
qed


lemma ieee_confidence_9:
  "max (fsub (ieee_world 3750) (lit (ieee_world 3750) (95 / 100))
          (fmul (ieee_world 3750) (float_of_int (ieee_world 3750) (int 9))
             (lit (ieee_world 3750) (5 / 100))))
       (lit (ieee_world 3750) (1 / 2)) = 1 / 2"
proof -
  have i: "float_of_int (ieee_world 3750) (int 9) = 9"
    by (simp add: float_of_int_def)
  show ?thesis
    unfolding i fsub_def fmul_def lit_def rnd_ieee lit_095 lit_005 lit_05 month_share_9
      month_confidence_9
    by (simp add: max_def)
qed


lemma ieee_predicted_value_10:
  "py_round (ieee_world 3750)
     (fmul (ieee_world 3750) (float_of_int (ieee_world 3750) (fst (randint 400000 700000 (ieee_world 3750))))
        (fpow (ieee_world 3750)
           (fadd (ieee_world 3750) (float_of_int (ieee_world 3750) 1)
              (nth_growth_rate (ieee_world 3750) 10)) 10)) 2 =
   binary64 (41189806 / 100)"
proof -
  have r: "nth_growth_rate (ieee_world 3750) 10 = 4611686018427388 / 2 ^ 61"
    by (rule ieee_growth_rate) simp
  show ?thesis
    unfolding r ieee_current_value
    unfolding fadd_def fpow_ieee fmul_def rnd_ieee one_plus_rate growth_power_10 month_product_10
      py_round_def
    by (simp add: round_half_even_def)
qed


lemma ieee_confidence_10:
  "max (fsub (ieee_world 3750) (lit (ieee_world 3750) (95 / 100))
          (fmul (ieee_world 3750) (float_of_int (ieee_world 3750) (int 10))
             (lit (ieee_world 3750) (5 / 100))))
       (lit (ieee_world 3750) (1 / 2)) = 1 / 2"
proof -
  have i: "float_of_int (ieee_world 3750) (int 10) = 10"
    by (simp add: float_of_int_def)
  show ?thesis
    unfolding i fsub_def fmul_def lit_def rnd_ieee lit_095 lit_005 lit_05 month_share_10
      month_confidence_10
    by (simp add: max_def)
qed


lemma ieee_predicted_value_11:
  "py_round (ieee_world 3750)
     (fmul (ieee_world 3750) (float_of_int (ieee_world 3750) (fst (randint 400000 700000 (ieee_world 3750))))
        (fpow (ieee_world 3750)
           (fadd (ieee_world 3750) (float_of_int (ieee_world 3750) 1)
              (nth_growth_rate (ieee_world 3750) 11)) 11)) 2 =
   binary64 (41272186 / 100)"
proof -
  have r: "nth_growth_rate (ieee_world 3750) 11 = 4611686018427388 / 2 ^ 61"
    by (rule ieee_growth_rate) simp
  show ?thesis
    unfolding r ieee_current_value
    unfolding fadd_def fpow_ieee fmul_def rnd_ieee one_plus_rate growth_power_11 month_product_11
      py_round_def
    by (simp add: round_half_even_def)
qed


lemma ieee_confidence_11:
  "max (fsub (ieee_world 3750) (lit (ieee_world 3750) (95 / 100))
          (fmul (ieee_world 3750) (float_of_int (ieee_world 3750) (int 11))
             (lit (ieee_world 3750) (5 / 100))))
       (lit (ieee_world 3750) (1 / 2)) = 1 / 2"
proof -
  have i: "float_of_int (ieee_world 3750) (int 11) = 11"
    by (simp add: float_of_int_def)
  show ?thesis
    unfolding i fsub_def fmul_def lit_def rnd_ieee lit_095 lit_005 lit_05 month_share_11
      month_confidence_11
    by (simp add: max_def)
qed


lemma ieee_predicted_value_12:
  "py_round (ieee_world 3750)
     (fmul (ieee_world 3750) (float_of_int (ieee_world 3750) (fst (randint 400000 700000 (ieee_world 3750))))
        (fpow (ieee_world 3750)
           (fadd (ieee_world 3750) (float_of_int (ieee_world 3750) 1)
              (nth_growth_rate (ieee_world 3750) 12)) 12)) 2 =
   binary64 (41354730 / 100)"
proof -
  have r: "nth_growth_rate (ieee_world 3750) 12 = 4611686018427388 / 2 ^ 61"
    by (rule ieee_growth_rate) simp
  show ?thesis
    unfolding r ieee_current_value
    unfolding fadd_def fpow_ieee fmul_def rnd_ieee one_plus_rate growth_power_12 month_product_12
      py_round_def
    by (simp add: round_half_even_def)
qed


lemma ieee_confidence_12:
  "max (fsub (ieee_world 3750) (lit (ieee_world 3750) (95 / 100))
          (fmul (ieee_world 3750) (float_of_int (ieee_world 3750) (int 12))
             (lit (ieee_world 3750) (5 / 100))))
       (lit (ieee_world 3750) (1 / 2)) = 1 / 2"
proof -
  have i: "float_of_int (ieee_world 3750) (int 12) = 12"
    by (simp add: float_of_int_def)
  show ?thesis
    unfolding i fsub_def fmul_def lit_def rnd_ieee lit_095 lit_005 lit_05 month_share_12
      month_confidence_12
    by (simp add: max_def)
qed

lemma ieee_value_prediction:
  "\<exists>b w'. value_prediction property_id (ieee_world 3750) =
            Some (\<lparr>statusCode = 200, body = b\<rparr>, w') \<and>
     subscript b ''current_value'' = Some (JInt 403750) \<and>
     subscript b ''predictions'' =
       Some (JList
          [JObj [(''month'', JInt 1),
                  (''predicted_value'', JFloat (binary64 (40455750 / 100))),
                  (''confidence'', JFloat (8106479329266892 / 2 ^ 53))],
            JObj [(''month'', JInt 2),
                  (''predicted_value'', JFloat (binary64 (40536661 / 100))),
                  (''confidence'', JFloat (7656119366529843 / 2 ^ 53))],
            JObj [(''month'', JInt 3),
                  (''predicted_value'', JFloat (binary64 (40617735 / 100))),
                  (''confidence'', JFloat (7205759403792793 / 2 ^ 53))],
            JObj [(''month'', JInt 4),
                  (''predicted_value'', JFloat (binary64 (40698970 / 100))),
                  (''confidence'', JFloat (6755399441055744 / 2 ^ 53))],
            JObj [(''month'', JInt 5),
                  (''predicted_value'', JFloat (binary64 (40780368 / 100))),
                  (''confidence'', JFloat (6305039478318694 / 2 ^ 53))],
            JObj [(''month'', JInt 6),
                  (''predicted_value'', JFloat (binary64 (40861929 / 100))),
                  (''confidence'', JFloat (5854679515581644 / 2 ^ 53))],
            JObj [(''month'', JInt 7),
                  (''predicted_value'', JFloat (binary64 (40943653 / 100))),
                  (''confidence'', JFloat (5404319552844594 / 2 ^ 53))],
            JObj [(''month'', JInt 8),
                  (''predicted_value'', JFloat (binary64 (41025540 / 100))),
                  (''confidence'', JFloat (4953959590107545 / 2 ^ 53))],
            JObj [(''month'', JInt 9),
                  (''predicted_value'', JFloat (binary64 (41107591 / 100))),
                  (''confidence'', JFloat (1 / 2))],
            JObj [(''month'', JInt 10),
                  (''predicted_value'', JFloat (binary64 (41189806 / 100))),
                  (''confidence'', JFloat (1 / 2))],
            JObj [(''month'', JInt 11),
                  (''predicted_value'', JFloat (binary64 (41272186 / 100))),
                  (''confidence'', JFloat (1 / 2))],
            JObj [(''month'', JInt 12),
                  (''predicted_value'', JFloat (binary64 (41354730 / 100))),
                  (''confidence'', JFloat (1 / 2))]])"
proof -
  have months: "[1..<13] = [1, 2, 3, 4, 5, 6, 7, 8, 9, 10, 11, 12 :: nat]"
    by (simp add: upt_rec)
  from value_prediction_eq [of "ieee_world 3750" property_id]
  obtain annual date w' where
    r: "value_prediction property_id (ieee_world 3750) =
       Some (\<lparr>statusCode = 200,
               body = JObj
                 [(''property_id'', property_id),
                  (''current_value'', JInt (fst (randint 400000 700000 (ieee_world 3750)))),
                  (''predictions'', JList (map (\<lambda>i. JObj
                     [(''month'', JInt (int i)),
                      (''predicted_value'', JFloat (py_round (ieee_world 3750)
                         (fmul (ieee_world 3750) (float_of_int (ieee_world 3750) (fst (randint 400000 700000 (ieee_world 3750))))
                            (fpow (ieee_world 3750) (fadd (ieee_world 3750) (float_of_int (ieee_world 3750) 1) (nth_growth_rate (ieee_world 3750) i)) i)) 2)),
                      (''confidence'', JFloat
                         (max (fsub (ieee_world 3750) (lit (ieee_world 3750) (95 / 100))
                                 (fmul (ieee_world 3750) (float_of_int (ieee_world 3750) (int i)) (lit (ieee_world 3750) (5 / 100))))
                              (lit (ieee_world 3750) (1 / 2))))])
                     [1..<13])),
                  (''annual_growth_rate'', JFloat annual),
                  (''risk_factors'',
                     JList [JStr ''Interest rate changes'',
                            JStr ''Local market conditions'',
                            JStr ''Economic indicators'']),
                  (''prediction_date'', JStr date)]\<rparr>, w')"
    by blast
  show ?thesis
    unfolding r months list.map
    unfolding ieee_predicted_value_1 ieee_predicted_value_2 ieee_predicted_value_3 ieee_predicted_value_4 ieee_predicted_value_5 ieee_predicted_value_6 ieee_predicted_value_7 ieee_predicted_value_8 ieee_predicted_value_9 ieee_predicted_value_10 ieee_predicted_value_11 ieee_predicted_value_12
      ieee_confidence_1 ieee_confidence_2 ieee_confidence_3 ieee_confidence_4 ieee_confidence_5 ieee_confidence_6 ieee_confidence_7 ieee_confidence_8 ieee_confidence_9 ieee_confidence_10 ieee_confidence_11 ieee_confidence_12
    by (simp add: ieee_current_value)
qed

text \<open>
  The two predictions of \<open>uneven_world\<close> are the same in binary64: 402000 for month 1
  and the float nearest to 401601.6 for month 2.
\<close>

lemma ieee_uneven_draws:
  "fst (randint 400000 700000 ieee_uneven_world) = 400000"
  "float_of_int ieee_uneven_world 400000 = 400000"
  "float_of_int ieee_uneven_world 1 = 1"
  by (simp_all add: randint_fst_snd float_of_int_def ieee_uneven_world_def binary64_world_def)

lemma ieee_uneven_rates:
  "nth_growth_rate ieee_uneven_world 1 = 5764607523034235 / 2 ^ 60"
  "nth_growth_rate ieee_uneven_world 2 = 4611686018427388 / 2 ^ 61"
proof -
  have "nth_growth_rate ieee_uneven_world 1 =
      binary64 (binary64 (2 / 1000) +
        binary64 (binary64 (binary64 (8 / 1000) - binary64 (2 / 1000)) * (1 / 2)))"
    by (simp add: nth_growth_rate_def uniform_fst fadd_def fmul_def fsub_def lit_def rnd_def
        ieee_arith_rep ieee_uneven_world_def binary64_world_def)
  then show "nth_growth_rate ieee_uneven_world 1 = 5764607523034235 / 2 ^ 60"
    unfolding lit_0002 lit_0008 rate_width half_width uneven_rate .
  have "nth_growth_rate ieee_uneven_world 2 = binary64 (binary64 (2 / 1000))"
    by (simp add: nth_growth_rate_def uniform_fst fadd_def fmul_def fsub_def lit_def rnd_def
        ieee_arith_rep binary64_zero ieee_uneven_world_def binary64_world_def)
  then show "nth_growth_rate ieee_uneven_world 2 = 4611686018427388 / 2 ^ 61"
    unfolding lit_0002 fix_0002 .
qed

lemma ieee_uneven_predictions:
  "prediction_of (value_prediction JNull ieee_uneven_world) 1 = Some 402000"
  "prediction_of (value_prediction JNull ieee_uneven_world) 2 = Some (binary64 (40160160 / 100))"
  "binary64 (40160160 / 100) < 402000"
proof -
  have "prediction_of (value_prediction JNull ieee_uneven_world) 1 =
      Some (py_round ieee_uneven_world
              (fmul ieee_uneven_world
                 (float_of_int ieee_uneven_world (fst (randint 400000 700000 ieee_uneven_world)))
                 (fpow ieee_uneven_world
                    (fadd ieee_uneven_world (float_of_int ieee_uneven_world 1)
                       (nth_growth_rate ieee_uneven_world 1)) 1)) 2)"
    by (rule prediction_of_eq) simp_all
  also have "\<dots> = Some (binary64 (40200000 / 100))"
    unfolding ieee_uneven_rates ieee_uneven_draws
    unfolding fadd_def fpow_ieee fmul_def rnd_ieee uneven_base_1 uneven_power_1 uneven_product_1
      py_round_def
    by (simp add: round_half_even_def)
  also have "binary64 (40200000 / 100) = 402000"
    using binary64_at [of "40200000 / 100" 34 6906307411968000] by (simp add: round_half_even_def)
  finally show "prediction_of (value_prediction JNull ieee_uneven_world) 1 = Some 402000" .
  have "prediction_of (value_prediction JNull ieee_uneven_world) 2 =
      Some (py_round ieee_uneven_world
              (fmul ieee_uneven_world
                 (float_of_int ieee_uneven_world (fst (randint 400000 700000 ieee_uneven_world)))
                 (fpow ieee_uneven_world
                    (fadd ieee_uneven_world (float_of_int ieee_uneven_world 1)
                       (nth_growth_rate ieee_uneven_world 2)) 2)) 2)"
    by (rule prediction_of_eq) simp_all
  also have "\<dots> = Some (binary64 (40160160 / 100))"
    unfolding ieee_uneven_rates ieee_uneven_draws
    unfolding fadd_def fpow_ieee fmul_def rnd_ieee one_plus_rate growth_power_2 uneven_product_2
      py_round_def
    by (simp add: round_half_even_def)
  finally show "prediction_of (value_prediction JNull ieee_uneven_world) 2 =
      Some (binary64 (40160160 / 100))" .
  show "binary64 (40160160 / 100) < 402000"
    unfolding uneven_rounded_2 by simp
qed

end
